theory Spec2Isabelle
  imports Main
begin

section \<open>Thrown values and results\<close>

text \<open>
  A JavaScript exception (or a rejected promise) is a value of \<open>js_error\<close>:
  \<open>Error m\<close> is \<^verbatim>\<open>new Error(m)\<close> thrown by the adapter's own code, \<open>SystemError c\<close>
  is an error of the local file system or of a build tool with code \<open>c\<close>, and
  \<open>ServiceException n\<close> is an exception of an AWS service with name \<open>n\<close>.
  A computation that may throw returns \<open>js_error + 'a\<close>, \<open>Inl\<close> being the throw.
\<close>

datatype js_error = Error string | SystemError string | ServiceException string

type_synonym 'a result = "js_error + 'a"

text \<open>A template literal \<^verbatim>\<open>`${x}`\<close> of a value that is a string or \<^verbatim>\<open>undefined\<close>.\<close>

fun template :: "string option \<Rightarrow> string" where
  "template None = ''undefined''"
| "template (Some s) = s"

section \<open>Data of the AWS SDK calls\<close>

text \<open>
  The shapes follow the fields that \<^verbatim>\<open>dist/aws.js\<close> reads and writes. An optional
  member of an SDK shape is an \<open>option\<close>. The members of a distribution configuration
  that the code copies with a spread and never looks at are kept as a property list.
\<close>

record LambdaFunctionAssociation =
  EventType :: string
  LambdaFunctionARN :: string
  IncludeBody :: "bool option"

record lambda_function_associations =
  Quantity :: nat
  Items :: "LambdaFunctionAssociation list option"

record default_cache_behavior =
  LambdaFunctionAssociations :: "lambda_function_associations option"
  BehaviorRest :: "(string \<times> string) list"

record distribution_config =
  DefaultCacheBehavior :: "default_cache_behavior option"
  ConfigRest :: "(string \<times> string) list"

record get_distribution_config_output =
  DistributionConfig :: "distribution_config option"
  ETag :: "string option"

record update_distribution_input =
  Id_in :: string
  DistributionConfig_in :: distribution_config
  IfMatch :: "string option"

record get_function_configuration_output =
  FunctionArn :: "string option"

record put_object_input =
  Bucket :: string
  Key :: string
  Body :: string
  ContentType :: string

record update_function_code_input =
  FunctionName :: string
  ZipFile :: string

record create_invalidation_input =
  DistributionId :: string
  PathsQuantity :: nat
  PathsItems :: "string list"
  CallerReference :: string

record invalidation =
  InvalidationId :: "string option"

record create_invalidation_output =
  Invalidation :: "invalidation option"

section \<open>The local file tree\<close>

text \<open>
  What \<^verbatim>\<open>fs.readdirSync\<close> and \<^verbatim>\<open>fs.statSync\<close> see below a path: a regular file,
  a directory with its entries in the order \<^verbatim>\<open>readdirSync\<close> lists them, an entry that is
  neither (\<^verbatim>\<open>isFile()\<close> and \<^verbatim>\<open>isDirectory()\<close> both false), an entry on which
  \<^verbatim>\<open>statSync\<close> throws, and a directory that \<^verbatim>\<open>statSync\<close> reports but
  \<^verbatim>\<open>readdirSync\<close> cannot list.
\<close>

datatype fs_node =
    File
  | Directory "(string \<times> fs_node) list"
  | Special
  | Dangling
  | LockedDirectory

section \<open>External calls and their log\<close>

text \<open>
  Every call that leaves the adapter's own code is recorded, with its arguments and the
  answer it got, in the order in which the code makes it.
\<close>

datatype event =
    BuilderRimraf string "unit result"
  | BuilderWriteClient string "unit result"
  | BuilderWritePrerendered string "string list result"
  | BuilderWriteServer string "unit result"
  | BuilderCopy string string "unit result"
  | FsWriteFileSync string string "unit result"
  | FsRm string "unit result"
  | EsbuildBuild "unit result"
  | FsExistsSync string bool
  | FsCp string string "unit result"
  | S3PutObject string put_object_input "unit result"
  | ArchiverZip string string "unit result"
  | FsReadFileSync string "string result"
  | LambdaUpdateFunctionCode string update_function_code_input "unit result"
  | SetTimeout nat
  | LambdaPublishVersion string string "string option result"
  | CfGetDistributionConfig string string "get_distribution_config_output result"
  | LambdaGetFunctionConfiguration string string "get_function_configuration_output result"
  | CfUpdateDistribution string update_distribution_input "unit result"
  | CfCreateInvalidation string create_invalidation_input "create_invalidation_output result"

datatype log_line =
    Log string
  | ErrorLog string js_error
  | Minor string

section \<open>JavaScript objects on a heap\<close>

text \<open>
  \<^verbatim>\<open>deepMerge\<close> assigns to the properties of an object it was handed, so objects live
  on a heap and a value refers to one by its address. An object is the list of its own
  enumerable properties in insertion order. Values are the ones a configuration is made
  of: strings, booleans, \<^verbatim>\<open>undefined\<close>, \<^verbatim>\<open>null\<close> and plain objects (no numbers,
  arrays or functions, no prototype chain).
\<close>

type_synonym addr = nat

datatype jsval = JUndefined | JNull | JBool bool | JStr string | JRef addr

type_synonym jsobject = "(string \<times> jsval) list"

type_synonym heap = "jsobject list"

section \<open>Program state and the environment\<close>

record 'w pstate =
  world :: 'w
  calls :: "event list"
  console :: "log_line list"
  heap :: heap

text \<open>
  The environment is everything the adapter calls and does not define: the SvelteKit
  builder, the file system, esbuild, archiver, mime-types and the three AWS clients
  (the first argument of a client call is the region the client was created with).
  Each call maps the state of the outside world \<open>'w\<close> to an answer and a new world;
  nothing is assumed about how the world answers.
\<close>

record 'w env =
  dirname :: string
  JSON_stringify :: "string list \<Rightarrow> string"
  mime_lookup :: "string \<Rightarrow> string option"
  Date_toISOString :: "'w \<Rightarrow> string"
  fs_tree :: "'w \<Rightarrow> string \<Rightarrow> fs_node"
  builder_rimraf :: "string \<Rightarrow> 'w \<Rightarrow> unit result \<times> 'w"
  builder_writeClient :: "string \<Rightarrow> 'w \<Rightarrow> unit result \<times> 'w"
  builder_writePrerendered :: "string \<Rightarrow> 'w \<Rightarrow> string list result \<times> 'w"
  builder_writeServer :: "string \<Rightarrow> 'w \<Rightarrow> unit result \<times> 'w"
  builder_copy :: "string \<Rightarrow> string \<Rightarrow> 'w \<Rightarrow> unit result \<times> 'w"
  fs_writeFileSync :: "string \<Rightarrow> string \<Rightarrow> 'w \<Rightarrow> unit result \<times> 'w"
  fs_rm :: "string \<Rightarrow> 'w \<Rightarrow> unit result \<times> 'w"
  esbuild_build :: "'w \<Rightarrow> unit result \<times> 'w"
  fs_existsSync :: "string \<Rightarrow> 'w \<Rightarrow> bool"
  fs_cp :: "string \<Rightarrow> string \<Rightarrow> 'w \<Rightarrow> unit result \<times> 'w"
  archiver_zip :: "string \<Rightarrow> string \<Rightarrow> 'w \<Rightarrow> unit result \<times> 'w"
  fs_readFileSync :: "string \<Rightarrow> 'w \<Rightarrow> string result \<times> 'w"
  s3_PutObject :: "string \<Rightarrow> put_object_input \<Rightarrow> 'w \<Rightarrow> unit result \<times> 'w"
  lambda_UpdateFunctionCode :: "string \<Rightarrow> update_function_code_input \<Rightarrow> 'w \<Rightarrow> unit result \<times> 'w"
  lambda_PublishVersion :: "string \<Rightarrow> string \<Rightarrow> 'w \<Rightarrow> string option result \<times> 'w"
  lambda_GetFunctionConfiguration ::
    "string \<Rightarrow> string \<Rightarrow> 'w \<Rightarrow> get_function_configuration_output result \<times> 'w"
  cf_GetDistributionConfig ::
    "string \<Rightarrow> string \<Rightarrow> 'w \<Rightarrow> get_distribution_config_output result \<times> 'w"
  cf_UpdateDistribution :: "string \<Rightarrow> update_distribution_input \<Rightarrow> 'w \<Rightarrow> unit result \<times> 'w"
  cf_CreateInvalidation ::
    "string \<Rightarrow> create_invalidation_input \<Rightarrow> 'w \<Rightarrow> create_invalidation_output result \<times> 'w"

type_synonym ('w, 'a) prog = "'w pstate \<Rightarrow> 'a result \<times> 'w pstate"

definition ret :: "'a \<Rightarrow> ('w, 'a) prog" where
  "ret x st = (Inr x, st)"

definition throw :: "js_error \<Rightarrow> ('w, 'a) prog" where
  "throw e st = (Inl e, st)"

text \<open>\<open>bind m f\<close>: run (await) \<open>m\<close>; a throw ends the sequence, a value goes on to \<open>f\<close>.\<close>

definition bind :: "('w, 'a) prog \<Rightarrow> ('a \<Rightarrow> ('w, 'b) prog) \<Rightarrow> ('w, 'b) prog" where
  "bind m f st = (case m st of (Inl e, st') \<Rightarrow> (Inl e, st') | (Inr x, st') \<Rightarrow> f x st')"

text \<open>\<^verbatim>\<open>try { m } catch (error) { h }\<close>, and \<^verbatim>\<open>promise.catch(h)\<close>.\<close>

definition try_catch :: "('w, 'a) prog \<Rightarrow> (js_error \<Rightarrow> ('w, 'a) prog) \<Rightarrow> ('w, 'a) prog" where
  "try_catch m h st = (case m st of (Inl e, st') \<Rightarrow> h e st' | (Inr x, st') \<Rightarrow> (Inr x, st'))"

text \<open>An external call: ask the world, log the call with its answer.\<close>

definition call :: "('w \<Rightarrow> 'a result \<times> 'w) \<Rightarrow> ('a result \<Rightarrow> event) \<Rightarrow> ('w, 'a) prog" where
  "call ask mk st =
     (case ask (world st) of
        (r, w') \<Rightarrow> (r, st\<lparr>world := w', calls := calls st @ [mk r]\<rparr>))"

definition console_log :: "string \<Rightarrow> ('w, unit) prog" where
  "console_log msg st = (Inr (), st\<lparr>console := console st @ [Log msg]\<rparr>)"

definition console_error :: "string \<Rightarrow> js_error \<Rightarrow> ('w, unit) prog" where
  "console_error msg e st = (Inr (), st\<lparr>console := console st @ [ErrorLog msg e]\<rparr>)"

section \<open>\<^verbatim>\<open>dist/aws.js\<close>: setupCloudFrontTrigger\<close>

definition existingAssociations :: "default_cache_behavior \<Rightarrow> LambdaFunctionAssociation list" where
  "existingAssociations dcb =
     (case LambdaFunctionAssociations dcb of
        None \<Rightarrow> []
      | Some lfa \<Rightarrow> (case Items lfa of None \<Rightarrow> [] | Some xs \<Rightarrow> xs))"

definition setupCloudFrontTrigger ::
  "'w env \<Rightarrow> string \<Rightarrow> string \<Rightarrow> string \<Rightarrow> string \<Rightarrow> ('w, unit) prog" where
  "setupCloudFrontTrigger env functionName functionVersion distributionId region =
     try_catch
       (bind (call (cf_GetDistributionConfig env region distributionId)
                   (CfGetDistributionConfig region distributionId)) (\<lambda>out1.
        case DistributionConfig out1 of
          None \<Rightarrow> throw (Error ''Missing DistributionConfig or DefaultCacheBehavior'')
        | Some dc \<Rightarrow>
        (case DefaultCacheBehavior dc of
          None \<Rightarrow> throw (Error ''Missing DistributionConfig or DefaultCacheBehavior'')
        | Some dcb \<Rightarrow>
        bind (call (lambda_GetFunctionConfiguration env region functionName)
                   (LambdaGetFunctionConfiguration region functionName)) (\<lambda>fc.
        let lambdaFunctionArn = template (FunctionArn fc) @ '':'' @ functionVersion;
            newAssociation = \<lparr>EventType = ''origin-request'',
                              LambdaFunctionARN = lambdaFunctionArn,
                              IncludeBody = None\<rparr>;
            updatedAssociations =
              filter (\<lambda>association. EventType association \<noteq> ''origin-request'')
                     (existingAssociations dcb) @ [newAssociation];
            updatedLambdaFunctionAssociations =
              \<lparr>Quantity = length updatedAssociations, Items = Some updatedAssociations\<rparr>
        in
        bind (call (cf_GetDistributionConfig env region distributionId)
                   (CfGetDistributionConfig region distributionId)) (\<lambda>out2.
        bind (call (cf_UpdateDistribution env region
                      \<lparr>Id_in = distributionId,
                       DistributionConfig_in =
                         dc\<lparr>DefaultCacheBehavior :=
                              Some (dcb\<lparr>LambdaFunctionAssociations :=
                                           Some updatedLambdaFunctionAssociations\<rparr>)\<rparr>,
                       IfMatch = ETag out2\<rparr>)
                   (CfUpdateDistribution region
                      \<lparr>Id_in = distributionId,
                       DistributionConfig_in =
                         dc\<lparr>DefaultCacheBehavior :=
                              Some (dcb\<lparr>LambdaFunctionAssociations :=
                                           Some updatedLambdaFunctionAssociations\<rparr>)\<rparr>,
                       IfMatch = ETag out2\<rparr>)) (\<lambda>_.
        console_log ''CloudFront trigger set up successfully.''))))))
       (\<lambda>error. bind (console_error ''Failed to set up CloudFront trigger: '' error)
                      (\<lambda>_. throw error))"

section \<open>\<^verbatim>\<open>dist/aws.js\<close>: uploadToS3\<close>

text \<open>
  \<^verbatim>\<open>path.join\<close> of a directory and a name that \<^verbatim>\<open>readdirSync\<close> returned, on a
  POSIX system. For such a name \<^verbatim>\<open>path.relative(directoryPath, itemPath)\<close> is the name
  itself, and \<^verbatim>\<open>.replace(/\\/g, '/')\<close> turns its backslashes into slashes.
\<close>

definition path_join :: "string \<Rightarrow> string \<Rightarrow> string" where
  "path_join dir name = dir @ ''/'' @ name"

definition replace_backslashes :: "string \<Rightarrow> string" where
  "replace_backslashes s = map (\<lambda>c. if c = CHR 0x5C then CHR ''/'' else c) s"

text \<open>
  The walk is over the tree found at \<open>directoryPath\<close>. \<^verbatim>\<open>readdirSync\<close> of anything
  but a listable directory throws, \<^verbatim>\<open>statSync\<close> of a dangling entry throws, and
  neither is inside the \<^verbatim>\<open>try\<close>: only \<^verbatim>\<open>s3.send\<close> is.
\<close>

fun uploadToS3 ::
    "'w env \<Rightarrow> string \<Rightarrow> fs_node \<Rightarrow> string \<Rightarrow> string \<Rightarrow> string \<Rightarrow> ('w, unit) prog"
  and uploadItems ::
    "'w env \<Rightarrow> string \<Rightarrow> string \<Rightarrow> string \<Rightarrow> string \<Rightarrow> (string \<times> fs_node) list \<Rightarrow> ('w, unit) prog"
where
  "uploadToS3 env directoryPath (Directory items) bucketName s3Prefix region =
     uploadItems env directoryPath bucketName
       (if s3Prefix \<noteq> [] \<and> 0 < length s3Prefix then s3Prefix @ ''/'' else [])
       region items"
| "uploadToS3 env directoryPath File bucketName s3Prefix region =
     throw (SystemError ''ENOTDIR'')"
| "uploadToS3 env directoryPath Special bucketName s3Prefix region =
     throw (SystemError ''ENOTDIR'')"
| "uploadToS3 env directoryPath Dangling bucketName s3Prefix region =
     throw (SystemError ''ENOENT'')"
| "uploadToS3 env directoryPath LockedDirectory bucketName s3Prefix region =
     throw (SystemError ''EACCES'')"
| "uploadItems env directoryPath bucketName prefix region [] = ret ()"
| "uploadItems env directoryPath bucketName prefix region ((item, node) # rest) =
     bind
       (case node of
          Dangling \<Rightarrow> throw (SystemError ''ENOENT'')
        | File \<Rightarrow>
            try_catch
              (bind (call (s3_PutObject env region
                             \<lparr>Bucket = bucketName,
                              Key = prefix @ replace_backslashes item,
                              Body = path_join directoryPath item,
                              ContentType =
                                (case mime_lookup env (path_join directoryPath item) of
                                   None \<Rightarrow> ''application/octet-stream''
                                 | Some t \<Rightarrow> t)\<rparr>)
                          (S3PutObject region
                             \<lparr>Bucket = bucketName,
                              Key = prefix @ replace_backslashes item,
                              Body = path_join directoryPath item,
                              ContentType =
                                (case mime_lookup env (path_join directoryPath item) of
                                   None \<Rightarrow> ''application/octet-stream''
                                 | Some t \<Rightarrow> t)\<rparr>)) (\<lambda>_.
               console_log (''Successfully uploaded '' @ path_join directoryPath item @ '' to ''
                            @ bucketName @ ''/'' @ prefix @ replace_backslashes item)))
              (\<lambda>error. console_error (''Failed to upload '' @ path_join directoryPath item @ '':'')
                                      error)
        | Directory sub \<Rightarrow>
            uploadToS3 env (path_join directoryPath item) (Directory sub) bucketName
                       (prefix @ item) region
        | LockedDirectory \<Rightarrow>
            uploadToS3 env (path_join directoryPath item) LockedDirectory bucketName
                       (prefix @ item) region
        | Special \<Rightarrow> ret ())
       (\<lambda>_. uploadItems env directoryPath bucketName prefix region rest)"

section \<open>\<^verbatim>\<open>dist/aws.js\<close>: deployLambdaFunction\<close>

definition setTimeout :: "nat \<Rightarrow> ('w, unit) prog" where
  "setTimeout ms st = (Inr (), st\<lparr>calls := calls st @ [SetTimeout ms]\<rparr>)"

definition deployLambdaFunction ::
  "'w env \<Rightarrow> string \<Rightarrow> string \<Rightarrow> string \<Rightarrow> ('w, string option) prog" where
  "deployLambdaFunction env functionName zipFilePath region =
     bind (console_log (''Reading zip file... '' @ functionName @ '' '' @ zipFilePath)) (\<lambda>_.
     bind (call (fs_readFileSync env zipFilePath) (FsReadFileSync zipFilePath)) (\<lambda>zipFile.
     bind (console_log ''Updating Lambda Function...'') (\<lambda>_.
     bind (try_catch
             (bind (call (lambda_UpdateFunctionCode env region
                            \<lparr>FunctionName = functionName, ZipFile = zipFile\<rparr>)
                         (LambdaUpdateFunctionCode region
                            \<lparr>FunctionName = functionName, ZipFile = zipFile\<rparr>)) (\<lambda>_.
              console_log ''Lambda function code updated successfully.''))
             (\<lambda>error. bind (console_error ''Failed to update function code: '' error)
                            (\<lambda>_. throw error))) (\<lambda>_.
     bind (console_log ''Waiting for update to complete...'') (\<lambda>_.
     bind (setTimeout 5000) (\<lambda>_.
     try_catch
       (bind (call (lambda_PublishVersion env region functionName)
                   (LambdaPublishVersion region functionName)) (\<lambda>Version.
        bind (console_log (''Lambda function version '' @ template Version
                           @ '' published successfully.'')) (\<lambda>_.
        ret Version)))
       (\<lambda>error. bind (console_error ''Failed to publish function version: '' error)
                      (\<lambda>_. throw error))))))))"

section \<open>\<^verbatim>\<open>dist/aws.js\<close>: invalidateCache\<close>

definition invalidateCache :: "'w env \<Rightarrow> string \<Rightarrow> string list \<Rightarrow> string \<Rightarrow> ('w, unit) prog" where
  "invalidateCache env distributionId paths region st =
     (let params = \<lparr>DistributionId = distributionId,
                    PathsQuantity = length paths,
                    PathsItems = paths,
                    CallerReference = Date_toISOString env (world st)\<rparr>
      in try_catch
           (bind (call (cf_CreateInvalidation env region params)
                       (CfCreateInvalidation region params)) (\<lambda>result.
            case Invalidation result of
              None \<Rightarrow> ret ()
            | Some created \<Rightarrow>
                console_log (''Invalidation created with ID: '' @ template (InvalidationId created))))
           (\<lambda>error. bind (console_error ''Failed to create invalidation: '' error)
                          (\<lambda>_. throw error))
           st)"

section \<open>\<^verbatim>\<open>src/index.ts\<close>: zipDirectory and bundleApp\<close>

text \<open>
  \<^verbatim>\<open>zipDirectory\<close> returns a promise that resolves when the output stream closes and
  rejects when the archiver reports an error; which of the two happens is the answer of
  \<open>archiver_zip\<close>.
\<close>

definition zipDirectory :: "'w env \<Rightarrow> string \<Rightarrow> string \<Rightarrow> ('w, unit) prog" where
  "zipDirectory env source out =
     bind (console_log (''Zipping.... '' @ source @ '' '' @ out)) (\<lambda>_.
     call (archiver_zip env source out) (ArchiverZip source out))"

definition existsSync :: "'w env \<Rightarrow> string \<Rightarrow> ('w, bool) prog" where
  "existsSync env p st =
     (Inr (fs_existsSync env p (world st)),
      st\<lparr>calls := calls st @ [FsExistsSync p (fs_existsSync env p (world st))]\<rparr>)"

definition bundleApp :: "'w env \<Rightarrow> ('w, unit) prog" where
  "bundleApp env =
     bind (call (fs_rm env ''build'') (FsRm ''build'')) (\<lambda>_.
     bind (call (esbuild_build env) EsbuildBuild) (\<lambda>_.
     bind (existsSync env (path_join ''out'' ''prerendered'')) (\<lambda>found.
     bind (if found
           then call (fs_cp env (path_join ''out'' ''prerendered'')
                                (path_join ''build'' ''prerendered''))
                     (FsCp (path_join ''out'' ''prerendered'')
                           (path_join ''build'' ''prerendered''))
           else console_log ''No Prerendered Directory found.'') (\<lambda>_.
     console_log ''BUILD SUCEEDED!''))))"

section \<open>\<^verbatim>\<open>src/index.ts\<close>: deepMerge\<close>

fun truthy :: "jsval \<Rightarrow> bool" where
  "truthy JUndefined = False"
| "truthy JNull = False"
| "truthy (JBool b) = b"
| "truthy (JStr s) = (s \<noteq> [])"
| "truthy (JRef a) = True"

fun typeof :: "jsval \<Rightarrow> string" where
  "typeof JUndefined = ''undefined''"
| "typeof JNull = ''object''"
| "typeof (JBool b) = ''boolean''"
| "typeof (JStr s) = ''string''"
| "typeof (JRef a) = ''object''"

definition isObject :: "jsval \<Rightarrow> bool" where
  "isObject obj = (truthy obj \<and> typeof obj = ''object'')"

definition object_at :: "heap \<Rightarrow> addr \<Rightarrow> jsobject" where
  "object_at h a = (if a < length h then h ! a else [])"

text \<open>
  \<^verbatim>\<open>v[key]\<close>: the own property of an object, \<^verbatim>\<open>undefined\<close> when it has none of that
  name. A string or a boolean has no property of the names used here.
\<close>

fun get_property :: "heap \<Rightarrow> jsval \<Rightarrow> string \<Rightarrow> jsval" where
  "get_property h (JRef a) key =
     (case map_of (object_at h a) key of None \<Rightarrow> JUndefined | Some v \<Rightarrow> v)"
| "get_property h v key = JUndefined"

text \<open>\<^verbatim>\<open>target[key] = v\<close>: an existing property keeps its place, a new one goes last.\<close>

fun assign :: "jsobject \<Rightarrow> string \<Rightarrow> jsval \<Rightarrow> jsobject" where
  "assign [] key v = [(key, v)]"
| "assign ((k, w) # ps) key v = (if k = key then (key, v) # ps else (k, w) # assign ps key v)"

definition set_property :: "addr \<Rightarrow> string \<Rightarrow> jsval \<Rightarrow> heap \<Rightarrow> heap" where
  "set_property a key v h = h[a := assign (object_at h a) key v]"

definition Object_keys :: "heap \<Rightarrow> addr \<Rightarrow> string list" where
  "Object_keys h a = map fst (object_at h a)"

text \<open>\<^verbatim>\<open>Object.assign({}, v)\<close>: a new object with the properties of \<open>v\<close>, at a new address.\<close>

definition Object_assign_new :: "heap \<Rightarrow> addr \<Rightarrow> addr \<times> heap" where
  "Object_assign_new h a = (length h, h @ [object_at h a])"

text \<open>
  The first argument bounds the depth of the recursion: \<open>None\<close> is a merge that needs
  more nested calls than that (for JavaScript, an object graph deeper than the call stack).
  \<open>mergeKeys\<close> is the \<^verbatim>\<open>forEach\<close> over \<^verbatim>\<open>Object.keys(source)\<close>.
\<close>

fun deepMerge :: "nat \<Rightarrow> jsval \<Rightarrow> jsval \<Rightarrow> heap \<Rightarrow> (jsval result \<times> heap) option"
  and mergeKeys :: "nat \<Rightarrow> addr \<Rightarrow> addr \<Rightarrow> string list \<Rightarrow> heap \<Rightarrow> (unit result \<times> heap) option"
where
  "deepMerge 0 target source h = None"
| "deepMerge (Suc n) target source h =
     (if \<not> isObject target \<or> \<not> isObject source
      then Some (Inl (Error ''Invalid arguments: Both target and source must be objects''), h)
      else (case (target, source) of
              (JRef t, JRef s) \<Rightarrow>
                (case mergeKeys n t s (Object_keys h s) h of
                   None \<Rightarrow> None
                 | Some (Inl e, h') \<Rightarrow> Some (Inl e, h')
                 | Some (Inr u, h') \<Rightarrow> Some (Inr target, h'))
            | _ \<Rightarrow> Some (Inl (Error ''Invalid arguments: Both target and source must be objects''), h)))"
| "mergeKeys n t s [] h = Some (Inr (), h)"
| "mergeKeys n t s (key # keys) h =
     (let targetValue = get_property h (JRef t) key;
          sourceValue = get_property h (JRef s) key
      in if isObject targetValue \<and> isObject sourceValue
         then (case targetValue of
                 JRef tv \<Rightarrow>
                   (case Object_assign_new h tv of
                      (c, h1) \<Rightarrow>
                        (case deepMerge n (JRef c) sourceValue h1 of
                           None \<Rightarrow> None
                         | Some (Inl e, h2) \<Rightarrow> Some (Inl e, h2)
                         | Some (Inr merged, h2) \<Rightarrow>
                             mergeKeys n t s keys (set_property t key merged h2)))
               | _ \<Rightarrow> None)
         else mergeKeys n t s keys
                (set_property t key (if truthy sourceValue then sourceValue else targetValue) h))"

section \<open>\<^verbatim>\<open>src/index.ts\<close>: the configuration\<close>

record S3Config =
  bucketName :: string
  s3Prefix :: string
  s3Region :: string

record LambdaConfig =
  functionName :: string
  lambdaRegion :: string

record CloudFrontConfig =
  distributionId :: string
  cloudfrontRegion :: string

record AWSConfiguration =
  s3 :: S3Config
  lambda :: LambdaConfig
  cloudfront :: CloudFrontConfig

text \<open>
  The module-level \<^verbatim>\<open>const defaultConfig\<close>: when the module is loaded the heap holds the
  object at address \<open>defaultConfig\<close> and its three sections, and nothing else.
\<close>

definition defaultConfig :: addr where
  "defaultConfig = 0"

definition module_heap :: heap where
  "module_heap =
     [[(''s3'', JRef 1), (''lambda'', JRef 2), (''cloudfront'', JRef 3)],
      [(''bucketName'', JStr []), (''prefix'', JStr []), (''region'', JStr ''ap-south-1'')],
      [(''functionName'', JStr []), (''region'', JStr ''us-east-1'')],
      [(''distributionId'', JStr []), (''region'', JStr ''us-east-1'')]]"

text \<open>
  \<^verbatim>\<open>as AWSConfiguration\<close>, followed by the reads \<^verbatim>\<open>config.s3.bucketName\<close> ...
  \<^verbatim>\<open>config.cloudfront.region\<close> that \<open>adapt\<close> makes: the seven leaves when each of them
  is a string, as the interface declares; \<open>None\<close> for a value of another shape, which the
  typed program does not describe.
\<close>

definition leaf :: "heap \<Rightarrow> jsval \<Rightarrow> string \<Rightarrow> string \<Rightarrow> string option" where
  "leaf h config section key =
     (case get_property h (get_property h config section) key of
        JStr s \<Rightarrow> Some s
      | _ \<Rightarrow> None)"

definition as_AWSConfiguration :: "heap \<Rightarrow> jsval \<Rightarrow> AWSConfiguration option" where
  "as_AWSConfiguration h config =
     (if None \<in> set [leaf h config ''s3'' ''bucketName'', leaf h config ''s3'' ''prefix'',
                     leaf h config ''s3'' ''region'', leaf h config ''lambda'' ''functionName'',
                     leaf h config ''lambda'' ''region'',
                     leaf h config ''cloudfront'' ''distributionId'',
                     leaf h config ''cloudfront'' ''region'']
      then None
      else Some \<lparr>s3 = \<lparr>bucketName = the (leaf h config ''s3'' ''bucketName''),
                        s3Prefix = the (leaf h config ''s3'' ''prefix''),
                        s3Region = the (leaf h config ''s3'' ''region'')\<rparr>,
                  lambda = \<lparr>functionName = the (leaf h config ''lambda'' ''functionName''),
                            lambdaRegion = the (leaf h config ''lambda'' ''region'')\<rparr>,
                  cloudfront =
                    \<lparr>distributionId = the (leaf h config ''cloudfront'' ''distributionId''),
                     cloudfrontRegion = the (leaf h config ''cloudfront'' ''region'')\<rparr>\<rparr>)"

section \<open>\<^verbatim>\<open>src/index.ts\<close>: adapt\<close>

definition builder_log_minor :: "string \<Rightarrow> ('w, unit) prog" where
  "builder_log_minor msg st = (Inr (), st\<lparr>console := console st @ [Minor msg]\<rparr>)"

text \<open>The body of \<open>adapt\<close> from \<^verbatim>\<open>builder.rimraf(out)\<close> on, for the merged \<open>config\<close>.\<close>

definition adapt_run :: "'w env \<Rightarrow> AWSConfiguration \<Rightarrow> ('w, unit) prog" where
  "adapt_run env config =
     (let out = ''out'';
          clientDir = path_join out ''client'';
          serverDir = path_join out ''server'';
          prerenderedDir = path_join out ''prerendered''
      in
      bind (call (builder_rimraf env out) (BuilderRimraf out)) (\<lambda>_.
      bind (builder_log_minor ''Copying assets...'') (\<lambda>_.
      bind (call (builder_writeClient env clientDir) (BuilderWriteClient clientDir)) (\<lambda>_.
      bind (call (builder_writePrerendered env prerenderedDir)
                 (BuilderWritePrerendered prerenderedDir)) (\<lambda>prerenderedFiles.
      bind (builder_log_minor ''Generating server function...'') (\<lambda>_.
      bind (call (builder_writeServer env serverDir) (BuilderWriteServer serverDir)) (\<lambda>_.
      bind (call (builder_copy env (path_join (dirname env) ''handler'')
                                   (path_join serverDir ''lambda-handler''))
                 (BuilderCopy (path_join (dirname env) ''handler'')
                              (path_join serverDir ''lambda-handler''))) (\<lambda>_.
      bind (call (fs_writeFileSync env
                    (path_join (path_join serverDir ''lambda-handler'') ''prerendered-file-list.js'')
                    (''export default '' @ JSON_stringify env prerenderedFiles))
                 (FsWriteFileSync
                    (path_join (path_join serverDir ''lambda-handler'') ''prerendered-file-list.js'')
                    (''export default '' @ JSON_stringify env prerenderedFiles))) (\<lambda>_.
      bind (bundleApp env) (\<lambda>_.
      bind (\<lambda>st. uploadToS3 env clientDir (fs_tree env (world st) clientDir)
                    (bucketName (s3 config)) (s3Prefix (s3 config)) (s3Region (s3 config)) st) (\<lambda>_.
      bind (try_catch
              (bind (zipDirectory env ''build'' (''build'' @ ''/lambda.zip'')) (\<lambda>_.
               console_log ''Directory successfully zipped!''))
              (\<lambda>error. console_error ''Failed to zip directory:'' error)) (\<lambda>_.
      bind (deployLambdaFunction env (functionName (lambda config))
              (''build'' @ ''/lambda.zip'') (lambdaRegion (lambda config))) (\<lambda>lambdaVersion.
      bind (case lambdaVersion of
              None \<Rightarrow> ret ()
            | Some version \<Rightarrow>
                setupCloudFrontTrigger env (functionName (lambda config)) version
                  (distributionId (cloudfront config)) (cloudfrontRegion (cloudfront config))) (\<lambda>_.
      invalidateCache env (distributionId (cloudfront config)) [''/*'']
        (cloudfrontRegion (cloudfront config))))))))))))))))"

text \<open>
  \<open>adapt\<close> of the adapter made by \<^verbatim>\<open>adapter(configInput)\<close>. \<open>None\<close>: the merge ran out of
  depth, or the merged configuration is not of the declared type.
\<close>

definition adapt ::
  "nat \<Rightarrow> 'w env \<Rightarrow> jsval \<Rightarrow> 'w pstate \<Rightarrow> (unit result \<times> 'w pstate) option" where
  "adapt depth env configInput st0 =
     (let st = st0\<lparr>console := console st0 @ [Log ''Building...'']\<rparr>
      in case deepMerge depth (JRef defaultConfig) configInput (heap st) of
           None \<Rightarrow> None
         | Some (Inl e, h) \<Rightarrow> Some (Inl e, st\<lparr>heap := h\<rparr>)
         | Some (Inr config, h) \<Rightarrow>
             (case as_AWSConfiguration h config of
                None \<Rightarrow> None
              | Some typed \<Rightarrow> Some (adapt_run env typed (st\<lparr>heap := h\<rparr>))))"

section \<open>Reading a log\<close>

text \<open>The trigger associations of the default cache behaviour of a configuration.\<close>

definition associations_of :: "distribution_config \<Rightarrow> LambdaFunctionAssociation list" where
  "associations_of dc =
     (case DefaultCacheBehavior dc of None \<Rightarrow> [] | Some dcb \<Rightarrow> existingAssociations dcb)"

text \<open>The configuration that an accepted \<^verbatim>\<open>UpdateDistribution\<close> call wrote.\<close>

fun accepted_config :: "event \<Rightarrow> distribution_config option" where
  "accepted_config (CfUpdateDistribution region input (Inr u)) = Some (DistributionConfig_in input)"
| "accepted_config e = None"

definition origin_request :: "LambdaFunctionAssociation \<Rightarrow> bool" where
  "origin_request a = (EventType a = ''origin-request'')"

section \<open>A concrete outside world\<close>

text \<open>
  One world to run the functions in: a client directory, an object store that rejects
  some keys, one function, and one distribution whose stored configuration is replaced by
  an update that carries the current token, the token changing with every accepted update.
  \<open>rival_update\<close> is an update by another deployer that lands while this program waits for
  the function's configuration.
\<close>

record cloud =
  client_tree :: fs_node
  zip_error :: "js_error option"
  s3_rejects :: "string list"
  s3_objects :: "(string \<times> string) list"
  function_arn :: "string option"
  next_version :: "string option"
  stored_config :: "distribution_config option"
  stored_etag :: string
  rival_update :: "distribution_config option"

definition sim :: "cloud env" where
  "sim =
     \<lparr>dirname = ''/adapter'',
      JSON_stringify = (\<lambda>files. ''['' @ concat files @ '']''),
      mime_lookup = (\<lambda>p. if take 5 (rev p) = rev ''.html'' then Some ''text/html'' else None),
      Date_toISOString = (\<lambda>w. ''2024-01-01T00:00:00.000Z''),
      fs_tree = (\<lambda>w p. if p = ''out/client'' then client_tree w else Dangling),
      builder_rimraf = (\<lambda>p w. (Inr (), w)),
      builder_writeClient = (\<lambda>p w. (Inr (), w)),
      builder_writePrerendered = (\<lambda>p w. (Inr [], w)),
      builder_writeServer = (\<lambda>p w. (Inr (), w)),
      builder_copy = (\<lambda>p q w. (Inr (), w)),
      fs_writeFileSync = (\<lambda>p c w. (Inr (), w)),
      fs_rm = (\<lambda>p w. (Inr (), w)),
      esbuild_build = (\<lambda>w. (Inr (), w)),
      fs_existsSync = (\<lambda>p w. False),
      fs_cp = (\<lambda>p q w. (Inr (), w)),
      archiver_zip =
        (\<lambda>p q w. (case zip_error w of None \<Rightarrow> (Inr (), w) | Some e \<Rightarrow> (Inl e, w))),
      fs_readFileSync = (\<lambda>p w. (Inr ''PK'', w)),
      s3_PutObject =
        (\<lambda>region input w.
           if Key input \<in> set (s3_rejects w) then (Inl (ServiceException ''AccessDenied''), w)
           else (Inr (), w\<lparr>s3_objects := s3_objects w @ [(Bucket input, Key input)]\<rparr>)),
      lambda_UpdateFunctionCode = (\<lambda>region input w. (Inr (), w)),
      lambda_PublishVersion = (\<lambda>region name w. (Inr (next_version w), w)),
      lambda_GetFunctionConfiguration =
        (\<lambda>region name w.
           (Inr \<lparr>FunctionArn = function_arn w\<rparr>,
            (case rival_update w of
               None \<Rightarrow> w
             | Some rival \<Rightarrow> w\<lparr>stored_config := Some rival,
                               stored_etag := stored_etag w @ ''+'',
                               rival_update := None\<rparr>))),
      cf_GetDistributionConfig =
        (\<lambda>region ident w.
           (Inr \<lparr>DistributionConfig = stored_config w, ETag = Some (stored_etag w)\<rparr>, w)),
      cf_UpdateDistribution =
        (\<lambda>region input w.
           if IfMatch input = Some (stored_etag w)
           then (Inr (), w\<lparr>stored_config := Some (DistributionConfig_in input),
                            stored_etag := stored_etag w @ ''+''\<rparr>)
           else (Inl (ServiceException ''PreconditionFailed''), w)),
      cf_CreateInvalidation =
        (\<lambda>region input w.
           (Inr \<lparr>Invalidation = Some \<lparr>InvalidationId = Some ''I1''\<rparr>\<rparr>, w))\<rparr>"

definition start :: "cloud \<Rightarrow> cloud pstate" where
  "start w = \<lparr>world = w, calls = [], console = [], heap = module_heap\<rparr>"

text \<open>A distribution with a viewer-request trigger and an origin-request trigger.\<close>

definition viewer_trigger :: LambdaFunctionAssociation where
  "viewer_trigger =
     \<lparr>EventType = ''viewer-request'', LambdaFunctionARN = ''arn:hdr:3'', IncludeBody = Some False\<rparr>"

definition old_trigger :: LambdaFunctionAssociation where
  "old_trigger =
     \<lparr>EventType = ''origin-request'', LambdaFunctionARN = ''arn:f:1'', IncludeBody = None\<rparr>"

definition config0 :: distribution_config where
  "config0 =
     \<lparr>DefaultCacheBehavior =
        Some \<lparr>LambdaFunctionAssociations =
                Some \<lparr>Quantity = 2, Items = Some [old_trigger, viewer_trigger]\<rparr>,
              BehaviorRest = [(''TargetOriginId'', ''app'')]\<rparr>,
      ConfigRest = [(''Comment'', ''site'')]\<rparr>"

definition cloud0 :: cloud where
  "cloud0 =
     \<lparr>client_tree = Directory [(''index.html'', File), (''app'', Directory [(''a.js'', File)])],
      zip_error = None,
      s3_rejects = [],
      s3_objects = [],
      function_arn = Some ''arn:f'',
      next_version = Some ''2'',
      stored_config = Some config0,
      stored_etag = ''E'',
      rival_update = None\<rparr>"

section \<open>Which component makes which call\<close>

text \<open>
  The number of the step of \<open>adapt\<close> that a call belongs to, in the order in which
  \<open>adapt\<close> runs its steps: 0 for the build (the builder calls and \<^verbatim>\<open>bundleApp\<close>), 1 for
  \<^verbatim>\<open>uploadToS3\<close>, 2 for \<^verbatim>\<open>zipDirectory\<close>, 3 for \<^verbatim>\<open>deployLambdaFunction\<close>, 4 for
  \<^verbatim>\<open>setupCloudFrontTrigger\<close> and 5 for \<^verbatim>\<open>invalidateCache\<close>.
\<close>

fun stage_of :: "event \<Rightarrow> nat" where
  "stage_of (S3PutObject region input r) = 1"
| "stage_of (ArchiverZip source dest r) = 2"
| "stage_of (FsReadFileSync p r) = 3"
| "stage_of (LambdaUpdateFunctionCode region input r) = 3"
| "stage_of (SetTimeout ms) = 3"
| "stage_of (LambdaPublishVersion region name r) = 3"
| "stage_of (CfGetDistributionConfig region ident r) = 4"
| "stage_of (LambdaGetFunctionConfiguration region name r) = 4"
| "stage_of (CfUpdateDistribution region input r) = 4"
| "stage_of (CfCreateInvalidation region input r) = 5"
| "stage_of e = 0"

text \<open>
  The same calls numbered by the order the specification gives to its components:
  Packager 1, Asset Publisher 2, Function Deployer 3, Edge Trigger Binder 4,
  Cache Invalidator 5.
\<close>

fun spec_stage :: "event \<Rightarrow> nat" where
  "spec_stage (ArchiverZip source dest r) = 1"
| "spec_stage (S3PutObject region input r) = 2"
| "spec_stage e = stage_of e"

text \<open>
  \<open>emits P m\<close>: whatever the state, \<open>m\<close> only adds calls to the log, each call it
  adds satisfies \<open>P\<close>, it only adds lines to the console, and it leaves the heap as it
  is. \<open>ordered lo hi m\<close>: the calls it adds are of steps between \<open>lo\<close> and \<open>hi\<close>, in
  step order.
\<close>

definition emits :: "(event \<Rightarrow> bool) \<Rightarrow> ('w, 'a) prog \<Rightarrow> bool" where
  "emits P m =
     (\<forall>st. (\<exists>new. calls (snd (m st)) = calls st @ new \<and> list_all P new) \<and>
           (\<exists>logged. console (snd (m st)) = console st @ logged) \<and>
           heap (snd (m st)) = heap st)"

definition ordered :: "nat \<Rightarrow> nat \<Rightarrow> ('w, 'a) prog \<Rightarrow> bool" where
  "ordered lo hi m =
     (\<forall>st. \<exists>new. calls (snd (m st)) = calls st @ new \<and> sorted (map stage_of new) \<and>
                 list_all (\<lambda>e. lo \<le> stage_of e \<and> stage_of e \<le> hi) new)"

text \<open>
  \<open>logs_only m\<close>: \<open>m\<close> writes to the log of calls and to the console and never reads
  them. From a state that differs only in what was logged before, it returns or throws
  the same, leaves the world the same and the heap as it is, and adds the same calls and
  the same lines.
\<close>

definition logs_only :: "('w, 'a) prog \<Rightarrow> bool" where
  "logs_only m =
     (\<forall>st. \<exists>r w new logged. \<forall>c l.
        m (st\<lparr>calls := c, console := l\<rparr>) =
          (r, st\<lparr>world := w, calls := c @ new, console := l @ logged\<rparr>))"

text \<open>The calls are in the order the specification gives to its components.\<close>

definition spec_order :: "event list \<Rightarrow> bool" where
  "spec_order evs = sorted (map spec_stage evs)"

text \<open>
  The calls that \<open>setupCloudFrontTrigger\<close> makes; a rejected archive; an accepted code
  update; an accepted distribution update.
\<close>

fun trigger_call :: "event \<Rightarrow> bool" where
  "trigger_call (CfGetDistributionConfig region ident r) = True"
| "trigger_call (LambdaGetFunctionConfiguration region name r) = True"
| "trigger_call (CfUpdateDistribution region input r) = True"
| "trigger_call e = False"

fun failed_archive :: "event \<Rightarrow> bool" where
  "failed_archive (ArchiverZip source dest (Inl e)) = True"
| "failed_archive e = False"

text \<open>
  The environment \<open>env\<close> with an archiver that resolves where that of \<open>env\<close> may
  reject, and leaves the outside world as that one leaves it.
\<close>

definition resolving :: "'w env \<Rightarrow> 'w env" where
  "resolving env =
     env\<lparr>archiver_zip := (\<lambda>source out w. (Inr (), snd (archiver_zip env source out w)))\<rparr>"

fun code_deployed :: "event \<Rightarrow> bool" where
  "code_deployed (LambdaUpdateFunctionCode region input (Inr u)) = True"
| "code_deployed e = False"

fun trigger_bound :: "event \<Rightarrow> bool" where
  "trigger_bound (CfUpdateDistribution region input (Inr u)) = True"
| "trigger_bound e = False"

section \<open>Reading the walk of the asset tree\<close>

text \<open>A tree that \<^verbatim>\<open>readdirSync\<close> and \<^verbatim>\<open>statSync\<close> can walk to the end.\<close>

fun walkable :: "fs_node \<Rightarrow> bool"
  and walkable_items :: "(string \<times> fs_node) list \<Rightarrow> bool"
where
  "walkable File = True"
| "walkable Special = True"
| "walkable Dangling = False"
| "walkable LockedDirectory = False"
| "walkable (Directory items) = walkable_items items"
| "walkable_items [] = True"
| "walkable_items ((name, node) # rest) = (walkable node \<and> walkable_items rest)"

text \<open>The paths of the regular files below a directory, in the order of the walk.\<close>

fun file_paths :: "string \<Rightarrow> fs_node \<Rightarrow> string list"
  and file_paths_items :: "string \<Rightarrow> (string \<times> fs_node) list \<Rightarrow> string list"
where
  "file_paths dir (Directory items) = file_paths_items dir items"
| "file_paths dir File = []"
| "file_paths dir Special = []"
| "file_paths dir Dangling = []"
| "file_paths dir LockedDirectory = []"
| "file_paths_items dir [] = []"
| "file_paths_items dir ((name, node) # rest) =
     (case node of
        File \<Rightarrow> [path_join dir name]
      | Directory sub \<Rightarrow> file_paths (path_join dir name) (Directory sub)
      | _ \<Rightarrow> [])
     @ file_paths_items dir rest"

fun is_put :: "event \<Rightarrow> bool" where
  "is_put (S3PutObject region input r) = True"
| "is_put e = False"

text \<open>The file a \<^verbatim>\<open>PutObject\<close> call uploads, and the line logged when the call fails.\<close>

fun put_path :: "event \<Rightarrow> string" where
  "put_path (S3PutObject region input r) = Body input"
| "put_path e = []"

fun put_log :: "string \<Rightarrow> event \<Rightarrow> log_line" where
  "put_log bucket (S3PutObject region input (Inl e)) =
     ErrorLog (''Failed to upload '' @ Body input @ '':'') e"
| "put_log bucket (S3PutObject region input (Inr u)) =
     Log (''Successfully uploaded '' @ Body input @ '' to '' @ bucket @ ''/'' @ Key input)"
| "put_log bucket e = Log []"

text \<open>
  \<open>walks paths bucket m\<close>: whatever the state, \<open>m\<close> returns normally, the calls it adds
  are \<^verbatim>\<open>PutObject\<close> calls for exactly the files \<open>paths\<close>, in that order, and it logs one
  line for each of them: a success line, or the error when the call failed.
\<close>

definition walks :: "string list \<Rightarrow> string \<Rightarrow> ('w, unit) prog \<Rightarrow> bool" where
  "walks paths bucket m =
     (\<forall>st. fst (m st) = Inr () \<and>
           (\<exists>new. calls (snd (m st)) = calls st @ new \<and> list_all is_put new \<and>
                  map put_path new = paths \<and>
                  console (snd (m st)) = console st @ map (put_log bucket) new))"

section \<open>Configurations of the declared type\<close>

text \<open>
  The object literal a caller writes for a value \<open>c\<close> of type \<^verbatim>\<open>AWSConfiguration\<close>: three
  section objects and the object that holds them, allocated at the end of the heap.
\<close>

definition config_object :: "AWSConfiguration \<Rightarrow> heap \<Rightarrow> jsval \<times> heap" where
  "config_object c h =
     (JRef (length h + 3),
      h @ [[(''bucketName'', JStr (bucketName (s3 c))), (''prefix'', JStr (s3Prefix (s3 c))),
            (''region'', JStr (s3Region (s3 c)))],
           [(''functionName'', JStr (functionName (lambda c))),
            (''region'', JStr (lambdaRegion (lambda c)))],
           [(''distributionId'', JStr (distributionId (cloudfront c))),
            (''region'', JStr (cloudfrontRegion (cloudfront c)))],
           [(''s3'', JRef (length h)), (''lambda'', JRef (length h + 1)),
            (''cloudfront'', JRef (length h + 2))]])"

text \<open>The rule the specification gives for a leaf: the user's value when it is not empty.\<close>

definition pick :: "string \<Rightarrow> string \<Rightarrow> string" where
  "pick user dflt = (if user \<noteq> [] then user else dflt)"

definition merged_over :: "AWSConfiguration \<Rightarrow> AWSConfiguration \<Rightarrow> AWSConfiguration" where
  "merged_over base user =
     \<lparr>s3 = \<lparr>bucketName = pick (bucketName (s3 user)) (bucketName (s3 base)),
            s3Prefix = pick (s3Prefix (s3 user)) (s3Prefix (s3 base)),
            s3Region = pick (s3Region (s3 user)) (s3Region (s3 base))\<rparr>,
      lambda = \<lparr>functionName = pick (functionName (lambda user)) (functionName (lambda base)),
                lambdaRegion = pick (lambdaRegion (lambda user)) (lambdaRegion (lambda base))\<rparr>,
      cloudfront =
        \<lparr>distributionId = pick (distributionId (cloudfront user)) (distributionId (cloudfront base)),
         cloudfrontRegion =
           pick (cloudfrontRegion (cloudfront user)) (cloudfrontRegion (cloudfront base))\<rparr>\<rparr>"

text \<open>
  The call \<^verbatim>\<open>deepMerge(defaultConfig, configInput)\<close> that \<open>adapt\<close> makes when the caller has
  just built the object for \<open>c\<close>, and the typed configuration \<open>adapt\<close> goes on with.
\<close>

definition merge_config :: "nat \<Rightarrow> AWSConfiguration \<Rightarrow> heap \<Rightarrow> (jsval result \<times> heap) option" where
  "merge_config depth c h =
     deepMerge depth (JRef defaultConfig) (fst (config_object c h)) (snd (config_object c h))"

definition merged_config :: "nat \<Rightarrow> AWSConfiguration \<Rightarrow> heap \<Rightarrow> AWSConfiguration option" where
  "merged_config depth c h =
     (case merge_config depth c h of
        Some (Inr config, h') \<Rightarrow> as_AWSConfiguration h' config
      | _ \<Rightarrow> None)"

text \<open>\<^verbatim>\<open>adapter(c).adapt(builder)\<close>: the caller builds the object for \<open>c\<close>, then \<open>adapt\<close> runs.\<close>

definition adapter_adapt ::
  "nat \<Rightarrow> 'w env \<Rightarrow> AWSConfiguration \<Rightarrow> 'w pstate \<Rightarrow> (unit result \<times> 'w pstate) option" where
  "adapter_adapt depth env c st =
     adapt depth env (fst (config_object c (heap st)))
       (st\<lparr>heap := snd (config_object c (heap st))\<rparr>)"

text \<open>
  \<open>module_holds h base\<close>: in the heap \<open>h\<close> the object \<open>defaultConfig\<close> has the three sections
  of the interface, each an object of its own, and their leaves are the strings of \<open>base\<close>.
\<close>

definition module_holds :: "heap \<Rightarrow> AWSConfiguration \<Rightarrow> bool" where
  "module_holds h base =
     (\<exists>a1 a2 a3.
        0 < a1 \<and> a1 < length h \<and> 0 < a2 \<and> a2 < length h \<and> 0 < a3 \<and> a3 < length h \<and>
        h ! defaultConfig = [(''s3'', JRef a1), (''lambda'', JRef a2), (''cloudfront'', JRef a3)] \<and>
        h ! a1 = [(''bucketName'', JStr (bucketName (s3 base))),
                  (''prefix'', JStr (s3Prefix (s3 base))),
                  (''region'', JStr (s3Region (s3 base)))] \<and>
        h ! a2 = [(''functionName'', JStr (functionName (lambda base))),
                  (''region'', JStr (lambdaRegion (lambda base)))] \<and>
        h ! a3 = [(''distributionId'', JStr (distributionId (cloudfront base))),
                  (''region'', JStr (cloudfrontRegion (cloudfront base)))])"

text \<open>The baked-in defaults, as a value of the declared type.\<close>

definition baked_in :: AWSConfiguration where
  "baked_in =
     \<lparr>s3 = \<lparr>bucketName = [], s3Prefix = [], s3Region = ''ap-south-1''\<rparr>,
      lambda = \<lparr>functionName = [], lambdaRegion = ''us-east-1''\<rparr>,
      cloudfront = \<lparr>distributionId = [], cloudfrontRegion = ''us-east-1''\<rparr>\<rparr>"

definition site :: AWSConfiguration where
  "site =
     \<lparr>s3 = \<lparr>bucketName = ''b'', s3Prefix = ''p'', s3Region = ''r1''\<rparr>,
      lambda = \<lparr>functionName = ''f'', lambdaRegion = ''r2''\<rparr>,
      cloudfront = \<lparr>distributionId = ''d'', cloudfrontRegion = ''r3''\<rparr>\<rparr>"

text \<open>A configuration that leaves the bucket name empty, and worlds in which a step fails.\<close>

definition unnamed :: AWSConfiguration where
  "unnamed = site\<lparr>s3 := (s3 site)\<lparr>bucketName := []\<rparr>\<rparr>"

definition rejecting :: cloud where
  "rejecting = cloud0\<lparr>s3_rejects := [''p/index.html'']\<rparr>"

definition unzippable :: cloud where
  "unzippable = cloud0\<lparr>zip_error := Some (SystemError ''EACCES'')\<rparr>"

definition unversioned :: cloud where
  "unversioned = cloud0\<lparr>next_version := None\<rparr>"

text \<open>A configuration without a default cache behaviour, and one written by another deployer.\<close>

definition bare_config :: distribution_config where
  "bare_config = \<lparr>DefaultCacheBehavior = None, ConfigRest = [(''Comment'', ''site'')]\<rparr>"

definition rival_config :: distribution_config where
  "rival_config =
     \<lparr>DefaultCacheBehavior =
        Some \<lparr>LambdaFunctionAssociations = None, BehaviorRest = [(''TargetOriginId'', ''other'')]\<rparr>,
      ConfigRest = [(''Comment'', ''rival'')]\<rparr>"

text \<open>The state after binding version 2 in \<open>cloud0\<close>, and after then binding version 3.\<close>

definition after_first :: "cloud pstate" where
  "after_first = snd (setupCloudFrontTrigger sim ''f'' ''2'' ''d'' ''r3'' (start cloud0))"

definition after_second :: "cloud pstate" where
  "after_second = snd (setupCloudFrontTrigger sim ''f'' ''3'' ''d'' ''r3'' after_first)"

section \<open>Running the sequence of calls\<close>

lemmas prog_defs =
  bind_def try_catch_def call_def ret_def throw_def console_log_def console_error_def

lemmas world_defs =
  sim_def start_def cloud0_def config0_def existingAssociations_def viewer_trigger_def
  old_trigger_def Let_def associations_of_def origin_request_def bare_config_def
  rival_config_def

text \<open>
  A run of \<open>setupCloudFrontTrigger\<close> that returns normally made its four calls, each answered
  without an exception, and the last of them is the accepted update.
\<close>

lemma setup_inversion:
  assumes run: "setupCloudFrontTrigger env fname ver dist region st = (Inr u, st')"
  obtains out1 w1 dc dcb fc w2 out2 w3 where
    "cf_GetDistributionConfig env region dist (world st) = (Inr out1, w1)"
    "DistributionConfig out1 = Some dc" "DefaultCacheBehavior dc = Some dcb"
    "lambda_GetFunctionConfiguration env region fname w1 = (Inr fc, w2)"
    "cf_GetDistributionConfig env region dist w2 = (Inr out2, w3)"
    "last (calls st') = CfUpdateDistribution region
        \<lparr>Id_in = dist,
         DistributionConfig_in = dc\<lparr>DefaultCacheBehavior := Some (dcb\<lparr>LambdaFunctionAssociations :=
           Some \<lparr>Quantity = Suc (length (filter (\<lambda>a. EventType a \<noteq> ''origin-request'')
                                            (existingAssociations dcb))),
                 Items = Some (filter (\<lambda>a. EventType a \<noteq> ''origin-request'')
                                      (existingAssociations dcb)
                          @ [\<lparr>EventType = ''origin-request'',
                               LambdaFunctionARN = template (FunctionArn fc) @ '':'' @ ver,
                               IncludeBody = None\<rparr>])\<rparr>\<rparr>)\<rparr>,
         IfMatch = ETag out2\<rparr> (Inr ())"
proof -
  obtain a1 w1 where g1: "cf_GetDistributionConfig env region dist (world st) = (a1, w1)"
    by (cases "cf_GetDistributionConfig env region dist (world st)")
  from run g1 obtain out1 where a1: "a1 = Inr out1"
    by (cases a1) (simp_all add: setupCloudFrontTrigger_def prog_defs)
  from run g1 a1 obtain dc where dc: "DistributionConfig out1 = Some dc"
    by (cases "DistributionConfig out1") (simp_all add: setupCloudFrontTrigger_def prog_defs)
  from run g1 a1 dc obtain dcb where dcb: "DefaultCacheBehavior dc = Some dcb"
    by (cases "DefaultCacheBehavior dc") (simp_all add: setupCloudFrontTrigger_def prog_defs)
  obtain a2 w2 where fn: "lambda_GetFunctionConfiguration env region fname w1 = (a2, w2)"
    by (cases "lambda_GetFunctionConfiguration env region fname w1")
  from run g1 a1 dc dcb fn obtain fc where a2: "a2 = Inr fc"
    by (cases a2) (simp_all add: setupCloudFrontTrigger_def prog_defs)
  obtain a3 w3 where g2: "cf_GetDistributionConfig env region dist w2 = (a3, w3)"
    by (cases "cf_GetDistributionConfig env region dist w2")
  from run g1 a1 dc dcb fn a2 g2 obtain out2 where a3: "a3 = Inr out2"
    by (cases a3) (simp_all add: setupCloudFrontTrigger_def prog_defs Let_def)
  define input where "input = \<lparr>Id_in = dist,
         DistributionConfig_in = dc\<lparr>DefaultCacheBehavior := Some (dcb\<lparr>LambdaFunctionAssociations :=
           Some \<lparr>Quantity = Suc (length (filter (\<lambda>a. EventType a \<noteq> ''origin-request'')
                                            (existingAssociations dcb))),
                 Items = Some (filter (\<lambda>a. EventType a \<noteq> ''origin-request'')
                                      (existingAssociations dcb)
                          @ [\<lparr>EventType = ''origin-request'',
                               LambdaFunctionARN = template (FunctionArn fc) @ '':'' @ ver,
                               IncludeBody = None\<rparr>])\<rparr>\<rparr>)\<rparr>,
         IfMatch = ETag out2\<rparr>"
  obtain a4 w4 where up: "cf_UpdateDistribution env region input w3 = (a4, w4)"
    by (cases "cf_UpdateDistribution env region input w3")
  from run g1 a1 dc dcb fn a2 g2 a3 up
  have "last (calls st') = CfUpdateDistribution region input (Inr ())"
    by (cases a4) (auto simp: setupCloudFrontTrigger_def prog_defs Let_def input_def)
  with g1 a1 dc dcb fn a2 g2 a3 show thesis
    using that unfolding input_def by blast
qed

text \<open>The configuration that a run which returned normally wrote, from what it fetched.\<close>

lemma setup_writes:
  assumes run: "setupCloudFrontTrigger env fname ver dist region st = (Inr u, st')"
      and g1: "cf_GetDistributionConfig env region dist (world st) = (Inr out1, w1)"
      and fn: "lambda_GetFunctionConfiguration env region fname w1 = (Inr fc, w2)"
  obtains dc dcb where
    "DistributionConfig out1 = Some dc" "DefaultCacheBehavior dc = Some dcb"
    "accepted_config (last (calls st')) =
       Some (dc\<lparr>DefaultCacheBehavior := Some (dcb\<lparr>LambdaFunctionAssociations :=
           Some \<lparr>Quantity = Suc (length (filter (\<lambda>a. EventType a \<noteq> ''origin-request'')
                                            (existingAssociations dcb))),
                 Items = Some (filter (\<lambda>a. EventType a \<noteq> ''origin-request'')
                                      (existingAssociations dcb)
                          @ [\<lparr>EventType = ''origin-request'',
                               LambdaFunctionARN = template (FunctionArn fc) @ '':'' @ ver,
                               IncludeBody = None\<rparr>])\<rparr>\<rparr>)\<rparr>)"
proof -
  from run obtain out1' w1' dc dcb fc' w2' out2 w3 where
    g1': "cf_GetDistributionConfig env region dist (world st) = (Inr out1', w1')" and
    dc: "DistributionConfig out1' = Some dc" and dcb: "DefaultCacheBehavior dc = Some dcb" and
    fn': "lambda_GetFunctionConfiguration env region fname w1' = (Inr fc', w2')" and
    g2: "cf_GetDistributionConfig env region dist w2' = (Inr out2, w3)" and
    lst: "last (calls st') = CfUpdateDistribution region
        \<lparr>Id_in = dist,
         DistributionConfig_in = dc\<lparr>DefaultCacheBehavior := Some (dcb\<lparr>LambdaFunctionAssociations :=
           Some \<lparr>Quantity = Suc (length (filter (\<lambda>a. EventType a \<noteq> ''origin-request'')
                                            (existingAssociations dcb))),
                 Items = Some (filter (\<lambda>a. EventType a \<noteq> ''origin-request'')
                                      (existingAssociations dcb)
                          @ [\<lparr>EventType = ''origin-request'',
                               LambdaFunctionARN = template (FunctionArn fc') @ '':'' @ ver,
                               IncludeBody = None\<rparr>])\<rparr>\<rparr>)\<rparr>,
         IfMatch = ETag out2\<rparr> (Inr ())"
    by (rule setup_inversion)
  from g1 g1' have o: "out1' = out1" "w1' = w1" by simp_all
  with fn fn' have f: "fc' = fc" by simp
  from lst have "accepted_config (last (calls st')) =
       Some (dc\<lparr>DefaultCacheBehavior := Some (dcb\<lparr>LambdaFunctionAssociations :=
           Some \<lparr>Quantity = Suc (length (filter (\<lambda>a. EventType a \<noteq> ''origin-request'')
                                            (existingAssociations dcb))),
                 Items = Some (filter (\<lambda>a. EventType a \<noteq> ''origin-request'')
                                      (existingAssociations dcb)
                          @ [\<lparr>EventType = ''origin-request'',
                               LambdaFunctionARN = template (FunctionArn fc) @ '':'' @ ver,
                               IncludeBody = None\<rparr>])\<rparr>\<rparr>)\<rparr>)"
    unfolding f by simp
  with dc dcb show thesis using that unfolding o by blast
qed

lemma first_run_ok:
  "setupCloudFrontTrigger sim ''f'' ''2'' ''d'' ''r3'' (start cloud0) = (Inr (), after_first)"
proof -
  have "fst (setupCloudFrontTrigger sim ''f'' ''2'' ''d'' ''r3'' (start cloud0)) = Inr ()"
    by (simp add: setupCloudFrontTrigger_def prog_defs world_defs)
  then show ?thesis unfolding after_first_def by (metis prod.collapse)
qed

lemma after_first_world:
  "world after_first =
     cloud0\<lparr>stored_config := Some (config0\<lparr>DefaultCacheBehavior :=
        Some \<lparr>LambdaFunctionAssociations =
                Some \<lparr>Quantity = 2,
                      Items = Some [viewer_trigger,
                                    \<lparr>EventType = ''origin-request'',
                                     LambdaFunctionARN = ''arn:f:2'',
                                     IncludeBody = None\<rparr>]\<rparr>,
              BehaviorRest = [(''TargetOriginId'', ''app'')]\<rparr>\<rparr>),
            stored_etag := ''E+''\<rparr>"
  by (simp add: after_first_def setupCloudFrontTrigger_def prog_defs world_defs)

lemma after_first_last:
  "accepted_config (last (calls after_first)) = stored_config (world after_first)"
  by (simp add: after_first_def setupCloudFrontTrigger_def prog_defs world_defs)

lemma second_run_ok:
  "setupCloudFrontTrigger sim ''f'' ''3'' ''d'' ''r3'' after_first = (Inr (), after_second)"
proof -
  have "fst (setupCloudFrontTrigger sim ''f'' ''3'' ''d'' ''r3'' after_first) = Inr ()"
    by (simp add: after_first_def setupCloudFrontTrigger_def prog_defs world_defs)
  then show ?thesis unfolding after_second_def by (metis prod.collapse)
qed

section \<open>The Edge Trigger Binder\<close>

text \<open>
  C1. Whenever \<open>setupCloudFrontTrigger\<close> returns normally, its last call is an accepted
  \<^verbatim>\<open>UpdateDistribution\<close>, and the configuration it wrote relates to the configuration
  \<open>dc\<close> of the first fetch as follows: among the associations of the default cache behaviour
  exactly one has event type \<^verbatim>\<open>origin-request\<close>, its ARN is the fetched function ARN (as the
  template literal renders it) followed by a colon and the version, and the associations of
  every other event type are those of \<open>dc\<close>, in the same order. This holds for any number of
  \<^verbatim>\<open>origin-request\<close> associations in \<open>dc\<close>, so in particular for none or one.
\<close>

theorem bindTrigger_replaces_origin_request:
  assumes run: "setupCloudFrontTrigger env fname ver dist region st = (Inr (), st')"
      and g1: "cf_GetDistributionConfig env region dist (world st) = (Inr out1, w1)"
      and fn: "lambda_GetFunctionConfiguration env region fname w1 = (Inr fc, w2)"
  shows "\<exists>dc dc'. DistributionConfig out1 = Some dc \<and>
           accepted_config (last (calls st')) = Some dc' \<and>
           filter origin_request (associations_of dc') =
             [\<lparr>EventType = ''origin-request'',
               LambdaFunctionARN = template (FunctionArn fc) @ '':'' @ ver,
               IncludeBody = None\<rparr>] \<and>
           filter (\<lambda>a. \<not> origin_request a) (associations_of dc') =
             filter (\<lambda>a. \<not> origin_request a) (associations_of dc)"
proof -
  from run g1 fn obtain dc dcb where
    dc: "DistributionConfig out1 = Some dc" and dcb: "DefaultCacheBehavior dc = Some dcb" and
    acc: "accepted_config (last (calls st')) =
       Some (dc\<lparr>DefaultCacheBehavior := Some (dcb\<lparr>LambdaFunctionAssociations :=
           Some \<lparr>Quantity = Suc (length (filter (\<lambda>a. EventType a \<noteq> ''origin-request'')
                                            (existingAssociations dcb))),
                 Items = Some (filter (\<lambda>a. EventType a \<noteq> ''origin-request'')
                                      (existingAssociations dcb)
                          @ [\<lparr>EventType = ''origin-request'',
                               LambdaFunctionARN = template (FunctionArn fc) @ '':'' @ ver,
                               IncludeBody = None\<rparr>])\<rparr>\<rparr>)\<rparr>)"
    by (rule setup_writes)
  show ?thesis
    using dc dcb acc
    by (simp add: associations_of_def existingAssociations_def origin_request_def)
qed

theorem bindTrigger_replaces_origin_request_witness:
  "setupCloudFrontTrigger sim ''f'' ''2'' ''d'' ''r3'' (start cloud0) = (Inr (), after_first) \<and>
   cf_GetDistributionConfig sim ''r3'' ''d'' (world (start cloud0)) =
     (Inr \<lparr>DistributionConfig = Some config0, ETag = Some ''E''\<rparr>, cloud0) \<and>
   lambda_GetFunctionConfiguration sim ''r3'' ''f'' cloud0 =
     (Inr \<lparr>FunctionArn = Some ''arn:f''\<rparr>, cloud0) \<and>
   (\<exists>dc'. accepted_config (last (calls after_first)) = Some dc' \<and>
      filter origin_request (associations_of dc') =
        [\<lparr>EventType = ''origin-request'', LambdaFunctionARN = ''arn:f:2'', IncludeBody = None\<rparr>] \<and>
      filter (\<lambda>a. \<not> origin_request a) (associations_of dc') = [viewer_trigger])"
proof -
  have g1: "cf_GetDistributionConfig sim ''r3'' ''d'' (world (start cloud0)) =
     (Inr \<lparr>DistributionConfig = Some config0, ETag = Some ''E''\<rparr>, cloud0)"
    by (simp add: sim_def start_def cloud0_def)
  have fn: "lambda_GetFunctionConfiguration sim ''r3'' ''f'' cloud0 =
     (Inr \<lparr>FunctionArn = Some ''arn:f''\<rparr>, cloud0)"
    by (simp add: sim_def cloud0_def)
  have "filter (\<lambda>a. \<not> origin_request a) (associations_of config0) = [viewer_trigger]"
    by (simp add: world_defs)
  with bindTrigger_replaces_origin_request [OF first_run_ok g1 fn] first_run_ok g1 fn
  show ?thesis by simp
qed

text \<open>
  C2. Two runs in succession, the second of which is handed by its first fetch the
  configuration that the first run wrote: both runs returning normally, the configuration
  the second run writes has exactly one \<^verbatim>\<open>origin-request\<close> association, the one for the
  second version, and the associations of the other event types are those the first run
  wrote. The association of the first run is not kept beside it.
\<close>

theorem bindTrigger_twice_keeps_second:
  assumes run1: "setupCloudFrontTrigger env fname v1 dist region st = (Inr (), st1)"
      and run2: "setupCloudFrontTrigger env fname v2 dist region st1 = (Inr (), st2)"
      and g: "cf_GetDistributionConfig env region dist (world st1) = (Inr out, w)"
      and stored: "DistributionConfig out = accepted_config (last (calls st1))"
      and fn: "lambda_GetFunctionConfiguration env region fname w = (Inr fc, w')"
  shows "\<exists>dc1 dc2 arn1.
           accepted_config (last (calls st1)) = Some dc1 \<and>
           accepted_config (last (calls st2)) = Some dc2 \<and>
           filter origin_request (associations_of dc1) =
             [\<lparr>EventType = ''origin-request'', LambdaFunctionARN = arn1 @ '':'' @ v1,
               IncludeBody = None\<rparr>] \<and>
           filter origin_request (associations_of dc2) =
             [\<lparr>EventType = ''origin-request'',
               LambdaFunctionARN = template (FunctionArn fc) @ '':'' @ v2,
               IncludeBody = None\<rparr>] \<and>
           filter (\<lambda>a. \<not> origin_request a) (associations_of dc2) =
             filter (\<lambda>a. \<not> origin_request a) (associations_of dc1)"
proof -
  from run1 obtain out1 w1 dc dcb fc1 w2 out2 w3 where
    g1: "cf_GetDistributionConfig env region dist (world st) = (Inr out1, w1)" and
    "DistributionConfig out1 = Some dc" and "DefaultCacheBehavior dc = Some dcb" and
    fn1: "lambda_GetFunctionConfiguration env region fname w1 = (Inr fc1, w2)" and
    "cf_GetDistributionConfig env region dist w2 = (Inr out2, w3)" and
    "last (calls st1) = CfUpdateDistribution region
        \<lparr>Id_in = dist,
         DistributionConfig_in = dc\<lparr>DefaultCacheBehavior := Some (dcb\<lparr>LambdaFunctionAssociations :=
           Some \<lparr>Quantity = Suc (length (filter (\<lambda>a. EventType a \<noteq> ''origin-request'')
                                            (existingAssociations dcb))),
                 Items = Some (filter (\<lambda>a. EventType a \<noteq> ''origin-request'')
                                      (existingAssociations dcb)
                          @ [\<lparr>EventType = ''origin-request'',
                               LambdaFunctionARN = template (FunctionArn fc1) @ '':'' @ v1,
                               IncludeBody = None\<rparr>])\<rparr>\<rparr>)\<rparr>,
         IfMatch = ETag out2\<rparr> (Inr ())"
    by (rule setup_inversion)
  from run1 g1 fn1 obtain dc0 dcb0 where
    "DistributionConfig out1 = Some dc0" and "DefaultCacheBehavior dc0 = Some dcb0" and
    acc1: "accepted_config (last (calls st1)) =
       Some (dc0\<lparr>DefaultCacheBehavior := Some (dcb0\<lparr>LambdaFunctionAssociations :=
           Some \<lparr>Quantity = Suc (length (filter (\<lambda>a. EventType a \<noteq> ''origin-request'')
                                            (existingAssociations dcb0))),
                 Items = Some (filter (\<lambda>a. EventType a \<noteq> ''origin-request'')
                                      (existingAssociations dcb0)
                          @ [\<lparr>EventType = ''origin-request'',
                               LambdaFunctionARN = template (FunctionArn fc1) @ '':'' @ v1,
                               IncludeBody = None\<rparr>])\<rparr>\<rparr>)\<rparr>)"
    by (rule setup_writes)
  from run2 g fn obtain dc' dcb' where
    dc': "DistributionConfig out = Some dc'" and dcb': "DefaultCacheBehavior dc' = Some dcb'" and
    acc2: "accepted_config (last (calls st2)) =
       Some (dc'\<lparr>DefaultCacheBehavior := Some (dcb'\<lparr>LambdaFunctionAssociations :=
           Some \<lparr>Quantity = Suc (length (filter (\<lambda>a. EventType a \<noteq> ''origin-request'')
                                            (existingAssociations dcb'))),
                 Items = Some (filter (\<lambda>a. EventType a \<noteq> ''origin-request'')
                                      (existingAssociations dcb')
                          @ [\<lparr>EventType = ''origin-request'',
                               LambdaFunctionARN = template (FunctionArn fc) @ '':'' @ v2,
                               IncludeBody = None\<rparr>])\<rparr>\<rparr>)\<rparr>)"
    by (rule setup_writes)
  from stored dc' have same: "accepted_config (last (calls st1)) = Some dc'" by simp
  have one: "filter origin_request (associations_of dc') =
             [\<lparr>EventType = ''origin-request'',
               LambdaFunctionARN = template (FunctionArn fc1) @ '':'' @ v1,
               IncludeBody = None\<rparr>]"
    using same acc1
    by (auto simp: associations_of_def existingAssociations_def origin_request_def)
  have two: "filter origin_request
               (associations_of (dc'\<lparr>DefaultCacheBehavior := Some (dcb'\<lparr>LambdaFunctionAssociations :=
           Some \<lparr>Quantity = Suc (length (filter (\<lambda>a. EventType a \<noteq> ''origin-request'')
                                            (existingAssociations dcb'))),
                 Items = Some (filter (\<lambda>a. EventType a \<noteq> ''origin-request'')
                                      (existingAssociations dcb')
                          @ [\<lparr>EventType = ''origin-request'',
                               LambdaFunctionARN = template (FunctionArn fc) @ '':'' @ v2,
                               IncludeBody = None\<rparr>])\<rparr>\<rparr>)\<rparr>)) =
             [\<lparr>EventType = ''origin-request'',
               LambdaFunctionARN = template (FunctionArn fc) @ '':'' @ v2,
               IncludeBody = None\<rparr>]"
    by (simp add: associations_of_def existingAssociations_def origin_request_def)
  have rest: "filter (\<lambda>a. \<not> origin_request a)
               (associations_of (dc'\<lparr>DefaultCacheBehavior := Some (dcb'\<lparr>LambdaFunctionAssociations :=
           Some \<lparr>Quantity = Suc (length (filter (\<lambda>a. EventType a \<noteq> ''origin-request'')
                                            (existingAssociations dcb'))),
                 Items = Some (filter (\<lambda>a. EventType a \<noteq> ''origin-request'')
                                      (existingAssociations dcb')
                          @ [\<lparr>EventType = ''origin-request'',
                               LambdaFunctionARN = template (FunctionArn fc) @ '':'' @ v2,
                               IncludeBody = None\<rparr>])\<rparr>\<rparr>)\<rparr>)) =
             filter (\<lambda>a. \<not> origin_request a) (associations_of dc')"
    using dcb' by (simp add: associations_of_def existingAssociations_def origin_request_def)
  from same acc2 one two rest show ?thesis by blast
qed

theorem bindTrigger_twice_keeps_second_witness:
  "setupCloudFrontTrigger sim ''f'' ''2'' ''d'' ''r3'' (start cloud0) = (Inr (), after_first) \<and>
   setupCloudFrontTrigger sim ''f'' ''3'' ''d'' ''r3'' after_first = (Inr (), after_second) \<and>
   cf_GetDistributionConfig sim ''r3'' ''d'' (world after_first) =
     (Inr \<lparr>DistributionConfig = stored_config (world after_first), ETag = Some ''E+''\<rparr>,
      world after_first) \<and>
   stored_config (world after_first) = accepted_config (last (calls after_first)) \<and>
   lambda_GetFunctionConfiguration sim ''r3'' ''f'' (world after_first) =
     (Inr \<lparr>FunctionArn = Some ''arn:f''\<rparr>, world after_first) \<and>
   (\<exists>dc1 dc2.
      accepted_config (last (calls after_first)) = Some dc1 \<and>
      accepted_config (last (calls after_second)) = Some dc2 \<and>
      filter origin_request (associations_of dc1) =
        [\<lparr>EventType = ''origin-request'', LambdaFunctionARN = ''arn:f:2'', IncludeBody = None\<rparr>] \<and>
      filter origin_request (associations_of dc2) =
        [\<lparr>EventType = ''origin-request'', LambdaFunctionARN = ''arn:f:3'', IncludeBody = None\<rparr>] \<and>
      filter (\<lambda>a. \<not> origin_request a) (associations_of dc2) =
        filter (\<lambda>a. \<not> origin_request a) (associations_of dc1))"
proof -
  have g: "cf_GetDistributionConfig sim ''r3'' ''d'' (world after_first) =
     (Inr \<lparr>DistributionConfig = stored_config (world after_first), ETag = Some ''E+''\<rparr>,
      world after_first)"
    by (simp add: after_first_world) (simp add: sim_def cloud0_def)
  have stored: "DistributionConfig \<lparr>DistributionConfig = stored_config (world after_first),
                                    ETag = Some ''E+''\<rparr> =
                accepted_config (last (calls after_first))"
    by (simp add: after_first_last)
  have fn: "lambda_GetFunctionConfiguration sim ''r3'' ''f'' (world after_first) =
     (Inr \<lparr>FunctionArn = Some ''arn:f''\<rparr>, world after_first)"
    by (simp add: after_first_world) (simp add: sim_def cloud0_def)
  from bindTrigger_twice_keeps_second [OF first_run_ok second_run_ok g stored fn]
  obtain dc1 dc2 arn1 where
    a: "accepted_config (last (calls after_first)) = Some dc1"
       "accepted_config (last (calls after_second)) = Some dc2"
       "filter origin_request (associations_of dc2) =
          [\<lparr>EventType = ''origin-request'', LambdaFunctionARN = ''arn:f:3'', IncludeBody = None\<rparr>]"
       "filter (\<lambda>a. \<not> origin_request a) (associations_of dc2) =
          filter (\<lambda>a. \<not> origin_request a) (associations_of dc1)"
    by auto
  have "filter origin_request (associations_of dc1) =
        [\<lparr>EventType = ''origin-request'', LambdaFunctionARN = ''arn:f:2'', IncludeBody = None\<rparr>]"
    using a(1) by (simp add: after_first_last after_first_world) (auto simp: world_defs)
  with a first_run_ok second_run_ok g fn after_first_last show ?thesis by auto
qed

text \<open>
  C3. When the first fetch answers without a \<^verbatim>\<open>DistributionConfig\<close>, or with one that has no
  \<^verbatim>\<open>DefaultCacheBehavior\<close>, \<open>setupCloudFrontTrigger\<close> throws
  \<^verbatim>\<open>Error('Missing DistributionConfig or DefaultCacheBehavior')\<close>, the error the
  specification calls the schema error. The fetch is the only call it made: no
  \<^verbatim>\<open>UpdateDistribution\<close> is sent, and the outside world is as that read left it.
\<close>

theorem bindTrigger_missing_section:
  assumes g1: "cf_GetDistributionConfig env region dist (world st) = (Inr out1, w1)"
      and missing: "DistributionConfig out1 = None \<or>
                    (\<exists>dc. DistributionConfig out1 = Some dc \<and> DefaultCacheBehavior dc = None)"
  shows "setupCloudFrontTrigger env fname ver dist region st =
           (Inl (Error ''Missing DistributionConfig or DefaultCacheBehavior''),
            st\<lparr>world := w1,
               calls := calls st @ [CfGetDistributionConfig region dist (Inr out1)],
               console := console st @
                 [ErrorLog ''Failed to set up CloudFront trigger: ''
                    (Error ''Missing DistributionConfig or DefaultCacheBehavior'')]\<rparr>)"
  using missing
proof
  assume "DistributionConfig out1 = None"
  then show ?thesis using g1 by (simp add: setupCloudFrontTrigger_def prog_defs)
next
  assume "\<exists>dc. DistributionConfig out1 = Some dc \<and> DefaultCacheBehavior dc = None"
  then obtain dc where "DistributionConfig out1 = Some dc" "DefaultCacheBehavior dc = None"
    by blast
  then show ?thesis using g1 by (simp add: setupCloudFrontTrigger_def prog_defs)
qed

theorem bindTrigger_missing_section_witness:
  "cf_GetDistributionConfig sim ''r3'' ''d'' (world (start (cloud0\<lparr>stored_config := Some bare_config\<rparr>))) =
     (Inr \<lparr>DistributionConfig = Some bare_config, ETag = Some ''E''\<rparr>,
      cloud0\<lparr>stored_config := Some bare_config\<rparr>) \<and>
   DefaultCacheBehavior bare_config = None \<and>
   setupCloudFrontTrigger sim ''f'' ''2'' ''d'' ''r3''
       (start (cloud0\<lparr>stored_config := Some bare_config\<rparr>)) =
     (Inl (Error ''Missing DistributionConfig or DefaultCacheBehavior''),
      (start (cloud0\<lparr>stored_config := Some bare_config\<rparr>))
        \<lparr>world := cloud0\<lparr>stored_config := Some bare_config\<rparr>,
         calls := calls (start (cloud0\<lparr>stored_config := Some bare_config\<rparr>)) @
           [CfGetDistributionConfig ''r3'' ''d''
              (Inr \<lparr>DistributionConfig = Some bare_config, ETag = Some ''E''\<rparr>)],
         console := console (start (cloud0\<lparr>stored_config := Some bare_config\<rparr>)) @
           [ErrorLog ''Failed to set up CloudFront trigger: ''
              (Error ''Missing DistributionConfig or DefaultCacheBehavior'')]\<rparr>)"
proof -
  have g1: "cf_GetDistributionConfig sim ''r3'' ''d''
              (world (start (cloud0\<lparr>stored_config := Some bare_config\<rparr>))) =
     (Inr \<lparr>DistributionConfig = Some bare_config, ETag = Some ''E''\<rparr>,
      cloud0\<lparr>stored_config := Some bare_config\<rparr>)"
    by (simp add: sim_def start_def cloud0_def)
  have none: "DefaultCacheBehavior bare_config = None" by (simp add: bare_config_def)
  have missing: "DistributionConfig \<lparr>DistributionConfig = Some bare_config, ETag = Some ''E''\<rparr> = None \<or>
      (\<exists>dc. DistributionConfig \<lparr>DistributionConfig = Some bare_config, ETag = Some ''E''\<rparr> = Some dc \<and>
            DefaultCacheBehavior dc = None)"
    using none by simp
  from bindTrigger_missing_section [OF g1 missing, of "''f''" "''2''"] g1 none
  show ?thesis by simp
qed

text \<open>
  C4. When both sections are present and the three reads are answered, the update that
  \<open>setupCloudFrontTrigger\<close> sends carries as \<^verbatim>\<open>IfMatch\<close> the \<^verbatim>\<open>ETag\<close> of the second
  \<^verbatim>\<open>GetDistributionConfig\<close> answer, whatever the first answer's \<^verbatim>\<open>ETag\<close> was; the second
  fetch is the call just before the update, and the update is sent to the world as that
  fetch left it.
\<close>

theorem bindTrigger_token_from_second_fetch:
  assumes g1: "cf_GetDistributionConfig env region dist (world st) = (Inr out1, w1)"
      and dc: "DistributionConfig out1 = Some dc"
      and dcb: "DefaultCacheBehavior dc = Some dcb"
      and fn: "lambda_GetFunctionConfiguration env region fname w1 = (Inr fc, w2)"
      and g2: "cf_GetDistributionConfig env region dist w2 = (Inr out2, w3)"
      and run: "setupCloudFrontTrigger env fname ver dist region st = (r, st')"
  shows "\<exists>input answer.
           calls st' = calls st @
             [CfGetDistributionConfig region dist (Inr out1),
              LambdaGetFunctionConfiguration region fname (Inr fc),
              CfGetDistributionConfig region dist (Inr out2),
              CfUpdateDistribution region input answer] \<and>
           IfMatch input = ETag out2 \<and>
           cf_UpdateDistribution env region input w3 = (answer, world st')"
proof -
  define input where "input = \<lparr>Id_in = dist,
       DistributionConfig_in = dc\<lparr>DefaultCacheBehavior := Some (dcb\<lparr>LambdaFunctionAssociations :=
          Some \<lparr>Quantity = length (filter (\<lambda>association. EventType association \<noteq> ''origin-request'')
                     (existingAssociations dcb) @ [\<lparr>EventType = ''origin-request'',
                              LambdaFunctionARN = template (FunctionArn fc) @ '':'' @ ver,
                              IncludeBody = None\<rparr>]),
                Items = Some (filter (\<lambda>association. EventType association \<noteq> ''origin-request'')
                     (existingAssociations dcb) @ [\<lparr>EventType = ''origin-request'',
                              LambdaFunctionARN = template (FunctionArn fc) @ '':'' @ ver,
                              IncludeBody = None\<rparr>])\<rparr>\<rparr>)\<rparr>,
       IfMatch = ETag out2\<rparr>"
  obtain answer w4 where up: "cf_UpdateDistribution env region input w3 = (answer, w4)"
    by (cases "cf_UpdateDistribution env region input w3")
  have "calls st' = calls st @
             [CfGetDistributionConfig region dist (Inr out1),
              LambdaGetFunctionConfiguration region fname (Inr fc),
              CfGetDistributionConfig region dist (Inr out2),
              CfUpdateDistribution region input answer] \<and> world st' = w4"
    using run g1 dc dcb fn g2 up
    by (cases answer) (auto simp: setupCloudFrontTrigger_def prog_defs Let_def input_def)
  moreover have "IfMatch input = ETag out2" by (simp add: input_def)
  ultimately show ?thesis using up by blast
qed

theorem bindTrigger_token_from_second_fetch_witness:
  "cf_GetDistributionConfig sim ''r3'' ''d'' (world (start (cloud0\<lparr>rival_update := Some rival_config\<rparr>))) =
     (Inr \<lparr>DistributionConfig = Some config0, ETag = Some ''E''\<rparr>,
      cloud0\<lparr>rival_update := Some rival_config\<rparr>) \<and>
   lambda_GetFunctionConfiguration sim ''r3'' ''f'' (cloud0\<lparr>rival_update := Some rival_config\<rparr>) =
     (Inr \<lparr>FunctionArn = Some ''arn:f''\<rparr>,
      cloud0\<lparr>stored_config := Some rival_config, stored_etag := ''E+''\<rparr>) \<and>
   cf_GetDistributionConfig sim ''r3'' ''d''
       (cloud0\<lparr>stored_config := Some rival_config, stored_etag := ''E+''\<rparr>) =
     (Inr \<lparr>DistributionConfig = Some rival_config, ETag = Some ''E+''\<rparr>,
      cloud0\<lparr>stored_config := Some rival_config, stored_etag := ''E+''\<rparr>) \<and>
   (\<exists>input answer.
      last (calls (snd (setupCloudFrontTrigger sim ''f'' ''2'' ''d'' ''r3''
                          (start (cloud0\<lparr>rival_update := Some rival_config\<rparr>))))) =
        CfUpdateDistribution ''r3'' input answer \<and>
      IfMatch input = Some ''E+'')"
proof -
  have g1: "cf_GetDistributionConfig sim ''r3'' ''d''
              (world (start (cloud0\<lparr>rival_update := Some rival_config\<rparr>))) =
     (Inr \<lparr>DistributionConfig = Some config0, ETag = Some ''E''\<rparr>,
      cloud0\<lparr>rival_update := Some rival_config\<rparr>)"
    by (simp add: sim_def start_def cloud0_def)
  have dc: "DistributionConfig \<lparr>DistributionConfig = Some config0, ETag = Some ''E''\<rparr> =
              Some config0" by simp
  have dcb: "DefaultCacheBehavior config0 =
       Some \<lparr>LambdaFunctionAssociations =
                Some \<lparr>Quantity = 2, Items = Some [old_trigger, viewer_trigger]\<rparr>,
              BehaviorRest = [(''TargetOriginId'', ''app'')]\<rparr>"
    by (simp add: config0_def)
  have fn: "lambda_GetFunctionConfiguration sim ''r3'' ''f''
              (cloud0\<lparr>rival_update := Some rival_config\<rparr>) =
     (Inr \<lparr>FunctionArn = Some ''arn:f''\<rparr>,
      cloud0\<lparr>stored_config := Some rival_config, stored_etag := ''E+''\<rparr>)"
    by (simp add: sim_def cloud0_def)
  have g2: "cf_GetDistributionConfig sim ''r3'' ''d''
       (cloud0\<lparr>stored_config := Some rival_config, stored_etag := ''E+''\<rparr>) =
     (Inr \<lparr>DistributionConfig = Some rival_config, ETag = Some ''E+''\<rparr>,
      cloud0\<lparr>stored_config := Some rival_config, stored_etag := ''E+''\<rparr>)"
    by (simp add: sim_def cloud0_def)
  have run: "setupCloudFrontTrigger sim ''f'' ''2'' ''d'' ''r3''
               (start (cloud0\<lparr>rival_update := Some rival_config\<rparr>)) =
             (fst (setupCloudFrontTrigger sim ''f'' ''2'' ''d'' ''r3''
                     (start (cloud0\<lparr>rival_update := Some rival_config\<rparr>))),
              snd (setupCloudFrontTrigger sim ''f'' ''2'' ''d'' ''r3''
                     (start (cloud0\<lparr>rival_update := Some rival_config\<rparr>))))"
    by simp
  from bindTrigger_token_from_second_fetch [OF g1 dc dcb fn g2 run] g1 fn g2
  show ?thesis by auto
qed

section \<open>What a sequence of steps adds to the log\<close>

lemma emits_ret: "emits P (ret x)" by (simp add: emits_def ret_def)
lemma emits_throw: "emits P (throw e)" by (simp add: emits_def throw_def)
lemma emits_console_log: "emits P (console_log msg)" by (simp add: emits_def console_log_def)
lemma emits_console_error: "emits P (console_error msg e)" by (simp add: emits_def console_error_def)
lemma emits_builder_log_minor: "emits P (builder_log_minor msg)" by (simp add: emits_def builder_log_minor_def)

lemma emits_call: "(\<And>r. P (mk r)) \<Longrightarrow> emits P (call ask mk)"
  by (simp add: emits_def call_def split: prod.splits)

lemma emits_setTimeout: "P (SetTimeout ms) \<Longrightarrow> emits P (setTimeout ms)"
  by (simp add: emits_def setTimeout_def)

lemma emits_existsSync: "(\<And>b. P (FsExistsSync p b)) \<Longrightarrow> emits P (existsSync env p)"
  by (simp add: emits_def existsSync_def)

lemma emits_bind:
  assumes m: "emits P m" and f: "\<And>x. emits P (f x)"
  shows "emits P (bind m f)"
  unfolding emits_def
proof
  fix st
  obtain r st1 where run: "m st = (r, st1)" by (cases "m st")
  from m obtain n1 l1 where n1: "calls st1 = calls st @ n1" "list_all P n1"
      "console st1 = console st @ l1" "heap st1 = heap st"
    unfolding emits_def using run by (metis snd_conv)
  show "(\<exists>new. calls (snd (bind m f st)) = calls st @ new \<and> list_all P new) \<and>
        (\<exists>logged. console (snd (bind m f st)) = console st @ logged) \<and>
        heap (snd (bind m f st)) = heap st"
  proof (cases r)
    case (Inl e)
    with run n1 show ?thesis by (simp add: bind_def)
  next
    case (Inr x)
    from f obtain n2 l2 where "calls (snd (f x st1)) = calls st1 @ n2" "list_all P n2"
        "console (snd (f x st1)) = console st1 @ l2" "heap (snd (f x st1)) = heap st1"
      unfolding emits_def by blast
    with Inr run n1 show ?thesis by (simp add: bind_def)
  qed
qed

lemma emits_try_catch:
  assumes m: "emits P m" and h: "\<And>e. emits P (h e)"
  shows "emits P (try_catch m h)"
  unfolding emits_def
proof
  fix st
  obtain r st1 where run: "m st = (r, st1)" by (cases "m st")
  from m obtain n1 l1 where n1: "calls st1 = calls st @ n1" "list_all P n1"
      "console st1 = console st @ l1" "heap st1 = heap st"
    unfolding emits_def using run by (metis snd_conv)
  show "(\<exists>new. calls (snd (try_catch m h st)) = calls st @ new \<and> list_all P new) \<and>
        (\<exists>logged. console (snd (try_catch m h st)) = console st @ logged) \<and>
        heap (snd (try_catch m h st)) = heap st"
  proof (cases r)
    case (Inr x)
    with run n1 show ?thesis by (simp add: try_catch_def)
  next
    case (Inl e)
    from h obtain n2 l2 where "calls (snd (h e st1)) = calls st1 @ n2" "list_all P n2"
        "console (snd (h e st1)) = console st1 @ l2" "heap (snd (h e st1)) = heap st1"
      unfolding emits_def by blast
    with Inl run n1 show ?thesis by (simp add: try_catch_def)
  qed
qed

lemma emits_mono: "emits P m \<Longrightarrow> (\<And>e. P e \<Longrightarrow> Q e) \<Longrightarrow> emits Q m"
  unfolding emits_def by (metis (mono_tags, lifting) list_all_length)

lemma emits_upload:
  "emits is_put (uploadToS3 env dir node bucket pfx region)"
  "emits is_put (uploadItems env dir bucket pfx region items)"
proof (induction env dir node bucket pfx region and env dir bucket pfx region items
       rule: uploadToS3_uploadItems.induct)
  case (7 env directoryPath bucketName prefix region item node rest)
  show ?case
  proof (cases node)
    case File
    then show ?thesis using 7
      by (auto intro!: emits_bind emits_try_catch emits_call emits_console_log emits_console_error)
  next
    case (Directory sub)
    then show ?thesis using 7 by (auto intro!: emits_bind)
  next
    case Special
    then show ?thesis using 7 by (auto intro!: emits_bind emits_ret)
  next
    case Dangling
    then show ?thesis using 7 by (auto intro!: emits_bind emits_throw)
  next
    case LockedDirectory
    then show ?thesis using 7 by (auto intro!: emits_bind emits_throw)
  qed
qed (simp_all add: emits_ret emits_throw)


lemma emits_deploy: "emits (\<lambda>e. stage_of e = 3) (deployLambdaFunction env fname zipPath region)"
  unfolding deployLambdaFunction_def
  by (intro emits_bind emits_try_catch emits_call emits_console_log emits_console_error
            emits_setTimeout emits_ret emits_throw) simp_all

lemma emits_setup: "emits (\<lambda>e. stage_of e = 4) (setupCloudFrontTrigger env fname ver dist region)"
  unfolding setupCloudFrontTrigger_def Let_def
  by (intro emits_bind emits_try_catch emits_call emits_console_log emits_console_error
            emits_ret emits_throw)
     (simp_all add: emits_throw emits_bind emits_call emits_console_log split: option.split)

lemma emits_invalidate_body:
  "emits (\<lambda>e. stage_of e = 5)
     (try_catch
           (bind (call (cf_CreateInvalidation env region params)
                       (CfCreateInvalidation region params)) (\<lambda>result.
            case Invalidation result of
              None \<Rightarrow> ret ()
            | Some created \<Rightarrow>
                console_log (''Invalidation created with ID: '' @ template (InvalidationId created))))
           (\<lambda>error. bind (console_error ''Failed to create invalidation: '' error)
                          (\<lambda>_. throw error)))"
  by (intro emits_bind emits_try_catch emits_call emits_console_error emits_throw)
     (simp_all add: emits_ret emits_console_log split: option.split)

lemma emits_invalidate: "emits (\<lambda>e. stage_of e = 5) (invalidateCache env dist paths region)"
  unfolding emits_def
proof
  fix st :: "'a pstate"
  show "(\<exists>new. calls (snd (invalidateCache env dist paths region st)) = calls st @ new \<and>
               list_all (\<lambda>e. stage_of e = 5) new) \<and>
        (\<exists>logged. console (snd (invalidateCache env dist paths region st)) = console st @ logged) \<and>
        heap (snd (invalidateCache env dist paths region st)) = heap st"
    using emits_invalidate_body [of env region "\<lparr>DistributionId = dist,
                    PathsQuantity = length paths,
                    PathsItems = paths,
                    CallerReference = Date_toISOString env (world st)\<rparr>"]
    unfolding emits_def invalidateCache_def Let_def by blast
qed

lemma emits_zip: "emits (\<lambda>e. stage_of e = 2) (zipDirectory env source dest)"
  unfolding zipDirectory_def
  by (intro emits_bind emits_call emits_console_log) simp_all

lemma emits_bundle: "emits (\<lambda>e. stage_of e = 0) (bundleApp env)"
  unfolding bundleApp_def
  by (intro emits_bind emits_call emits_console_log emits_existsSync)
     (simp_all add: emits_call emits_console_log)

lemma emits_upload_stage: "emits (\<lambda>e. stage_of e = 1) (uploadToS3 env dir node bucket pfx region)"
proof (rule emits_mono [OF emits_upload(1)])
  fix e show "is_put e \<Longrightarrow> stage_of e = 1" by (cases e) simp_all
qed

lemma ordered_emits:
  assumes m: "emits (\<lambda>e. stage_of e = k) m" and "lo \<le> k" "k \<le> hi"
  shows "ordered lo hi m"
  unfolding ordered_def
proof
  fix st
  from m obtain new where new: "calls (snd (m st)) = calls st @ new"
      "list_all (\<lambda>e. stage_of e = k) new" unfolding emits_def by blast
  then have "map stage_of new = replicate (length new) k"
    by (simp add: list_all_iff map_replicate_const [symmetric] cong: map_cong)
  then have "sorted (map stage_of new)" by (simp add: sorted_replicate)
  moreover have "list_all (\<lambda>e. lo \<le> stage_of e \<and> stage_of e \<le> hi) new"
    using new(2) assms(2,3) by (simp add: list_all_iff)
  ultimately show "\<exists>new. calls (snd (m st)) = calls st @ new \<and> sorted (map stage_of new) \<and>
                 list_all (\<lambda>e. lo \<le> stage_of e \<and> stage_of e \<le> hi) new"
    using new(1) by blast
qed

lemma ordered_bind:
  assumes m: "ordered lo mid m" and f: "\<And>x. ordered mid hi (f x)"
      and le: "lo \<le> mid" "mid \<le> hi"
  shows "ordered lo hi (bind m f)"
  unfolding ordered_def
proof
  fix st
  obtain r st1 where run: "m st = (r, st1)" by (cases "m st")
  from m run obtain n1 where n1: "calls st1 = calls st @ n1" "sorted (map stage_of n1)"
      "list_all (\<lambda>e. lo \<le> stage_of e \<and> stage_of e \<le> mid) n1"
    unfolding ordered_def by (metis snd_conv)
  show "\<exists>new. calls (snd (bind m f st)) = calls st @ new \<and> sorted (map stage_of new) \<and>
                 list_all (\<lambda>e. lo \<le> stage_of e \<and> stage_of e \<le> hi) new"
  proof (cases r)
    case (Inl e)
    with run n1 le show ?thesis
      by (intro exI [of _ n1]) (auto simp: bind_def list_all_iff)
  next
    case (Inr x)
    from f obtain n2 where n2: "calls (snd (f x st1)) = calls st1 @ n2" "sorted (map stage_of n2)"
      "list_all (\<lambda>e. mid \<le> stage_of e \<and> stage_of e \<le> hi) n2"
      unfolding ordered_def by blast
    with Inr run n1 le show ?thesis
      by (intro exI [of _ "n1 @ n2"])
         (auto simp: bind_def list_all_iff sorted_append intro: order_trans)
  qed
qed

lemma ordered_then:
  assumes "emits (\<lambda>e. stage_of e = k) m" "lo \<le> k" "k \<le> hi" "\<And>x. ordered k hi (f x)"
  shows "ordered lo hi (bind m f)"
  using ordered_bind [OF ordered_emits [OF assms(1) assms(2) order_refl] assms(4) assms(2,3)] .

lemma step0:
  "emits (\<lambda>e. stage_of e = 0) m \<Longrightarrow> (\<And>x. ordered 0 5 (f x)) \<Longrightarrow> ordered 0 5 (bind m f)"
  by (rule ordered_then [where k = 0]) simp_all

lemma emits_upload_reading:
  "emits (\<lambda>e. stage_of e = 1) (\<lambda>st. uploadToS3 env dir (tree st) bucket pfx region st)"
  using emits_upload_stage unfolding emits_def by blast

lemma emits_zip_caught:
  "emits (\<lambda>e. stage_of e = 2)
     (try_catch (bind (zipDirectory env source dest) (\<lambda>_. console_log msg))
                (\<lambda>error. console_error msg' error))"
  by (intro emits_try_catch emits_bind emits_zip emits_console_log emits_console_error)

lemma emits_trigger_if:
  "emits (\<lambda>e. stage_of e = 4)
     (case v of None \<Rightarrow> ret () | Some version \<Rightarrow> setupCloudFrontTrigger env fname version dist region)"
  by (cases v) (simp_all add: emits_ret emits_setup)

lemma ordered_adapt_run: "ordered 0 5 (adapt_run env config)"
  unfolding adapt_run_def Let_def
  apply (rule step0, rule emits_call, simp)
  apply (rule step0, rule emits_builder_log_minor)
  apply (rule step0, rule emits_call, simp)
  apply (rule step0, rule emits_call, simp)
  apply (rule step0, rule emits_builder_log_minor)
  apply (rule step0, rule emits_call, simp)
  apply (rule step0, rule emits_call, simp)
  apply (rule step0, rule emits_call, simp)
  apply (rule step0, rule emits_bundle)
  apply (rule ordered_then [where k = 1], rule emits_upload_reading, simp, simp)
  apply (rule ordered_then [where k = 2], rule emits_zip_caught, simp, simp)
  apply (rule ordered_then [where k = 3], rule emits_deploy, simp, simp)
  apply (rule ordered_then [where k = 4], rule emits_trigger_if, simp, simp)
  apply (rule ordered_emits [where k = 5], rule emits_invalidate, simp, simp)
  done


section \<open>What a sequence of steps reads of the log\<close>

lemma logs_only_ret: "logs_only (ret x)"
  unfolding logs_only_def ret_def
proof
  fix st :: "'a pstate"
  have "\<forall>c l. (Inr x, st\<lparr>calls := c, console := l\<rparr>) =
          (Inr x, st\<lparr>world := world st, calls := c @ [], console := l @ []\<rparr>)" by simp
  then show "\<exists>r w new logged. \<forall>c l. (Inr x, st\<lparr>calls := c, console := l\<rparr>) =
          (r, st\<lparr>world := w, calls := c @ new, console := l @ logged\<rparr>)" by blast
qed

lemma logs_only_throw: "logs_only (throw e)"
  unfolding logs_only_def throw_def
proof
  fix st :: "'a pstate"
  have "\<forall>c l. (Inl e, st\<lparr>calls := c, console := l\<rparr>) =
          (Inl e, st\<lparr>world := world st, calls := c @ [], console := l @ []\<rparr>)" by simp
  then show "\<exists>r w new logged. \<forall>c l. (Inl e, st\<lparr>calls := c, console := l\<rparr>) =
          (r, st\<lparr>world := w, calls := c @ new, console := l @ logged\<rparr>)" by blast
qed

lemma logs_only_console_log: "logs_only (console_log msg)"
  unfolding logs_only_def console_log_def
proof
  fix st :: "'a pstate"
  have "\<forall>c l. (Inr (), st\<lparr>calls := c, console := l\<rparr>
                  \<lparr>console := console (st\<lparr>calls := c, console := l\<rparr>) @ [Log msg]\<rparr>) =
          (Inr (), st\<lparr>world := world st, calls := c @ [], console := l @ [Log msg]\<rparr>)" by simp
  then show "\<exists>r w new logged. \<forall>c l. (Inr (), st\<lparr>calls := c, console := l\<rparr>
                  \<lparr>console := console (st\<lparr>calls := c, console := l\<rparr>) @ [Log msg]\<rparr>) =
          (r, st\<lparr>world := w, calls := c @ new, console := l @ logged\<rparr>)" by blast
qed

lemma logs_only_console_error: "logs_only (console_error msg e)"
  unfolding logs_only_def console_error_def
proof
  fix st :: "'a pstate"
  have "\<forall>c l. (Inr (), st\<lparr>calls := c, console := l\<rparr>
                  \<lparr>console := console (st\<lparr>calls := c, console := l\<rparr>) @ [ErrorLog msg e]\<rparr>) =
          (Inr (), st\<lparr>world := world st, calls := c @ [], console := l @ [ErrorLog msg e]\<rparr>)"
    by simp
  then show "\<exists>r w new logged. \<forall>c l. (Inr (), st\<lparr>calls := c, console := l\<rparr>
                  \<lparr>console := console (st\<lparr>calls := c, console := l\<rparr>) @ [ErrorLog msg e]\<rparr>) =
          (r, st\<lparr>world := w, calls := c @ new, console := l @ logged\<rparr>)" by blast
qed

lemma logs_only_setTimeout: "logs_only (setTimeout ms)"
  unfolding logs_only_def setTimeout_def
proof
  fix st :: "'a pstate"
  have "\<forall>c l. (Inr (), st\<lparr>calls := c, console := l\<rparr>
                  \<lparr>calls := calls (st\<lparr>calls := c, console := l\<rparr>) @ [SetTimeout ms]\<rparr>) =
          (Inr (), st\<lparr>world := world st, calls := c @ [SetTimeout ms], console := l @ []\<rparr>)"
    by simp
  then show "\<exists>r w new logged. \<forall>c l. (Inr (), st\<lparr>calls := c, console := l\<rparr>
                  \<lparr>calls := calls (st\<lparr>calls := c, console := l\<rparr>) @ [SetTimeout ms]\<rparr>) =
          (r, st\<lparr>world := w, calls := c @ new, console := l @ logged\<rparr>)" by blast
qed

lemma logs_only_call: "logs_only (call ask mk)"
  unfolding logs_only_def
proof
  fix st :: "'a pstate"
  obtain a w where a: "ask (world st) = (a, w)" by (cases "ask (world st)")
  then have "\<forall>c l. call ask mk (st\<lparr>calls := c, console := l\<rparr>) =
          (a, st\<lparr>world := w, calls := c @ [mk a], console := l @ []\<rparr>)"
    by (simp add: call_def)
  then show "\<exists>r w new logged. \<forall>c l. call ask mk (st\<lparr>calls := c, console := l\<rparr>) =
          (r, st\<lparr>world := w, calls := c @ new, console := l @ logged\<rparr>)" by blast
qed

lemma logs_only_run:
  assumes "logs_only m"
  obtains r w new logged where
    "\<forall>c l. m (st\<lparr>calls := c, console := l\<rparr>) =
          (r, st\<lparr>world := w, calls := c @ new, console := l @ logged\<rparr>)"
  using assms unfolding logs_only_def by blast

lemma logs_only_bind:
  assumes m: "logs_only m" and f: "\<And>x. logs_only (f x)"
  shows "logs_only (bind m f)"
  unfolding logs_only_def
proof
  fix st :: "'a pstate"
  from m obtain r w n1 l1 where
    one: "\<forall>c l. m (st\<lparr>calls := c, console := l\<rparr>) =
          (r, st\<lparr>world := w, calls := c @ n1, console := l @ l1\<rparr>)"
    by (rule logs_only_run [where st = st])
  show "\<exists>r w new logged. \<forall>c l. bind m f (st\<lparr>calls := c, console := l\<rparr>) =
          (r, st\<lparr>world := w, calls := c @ new, console := l @ logged\<rparr>)"
  proof (cases r)
    case (Inl e)
    with one have "\<forall>c l. bind m f (st\<lparr>calls := c, console := l\<rparr>) =
          (Inl e, st\<lparr>world := w, calls := c @ n1, console := l @ l1\<rparr>)"
      by (simp add: bind_def)
    then show ?thesis by blast
  next
    case (Inr x)
    from f [of x] obtain r2 w2 n2 l2 where
      two: "\<forall>c l. f x (st\<lparr>world := w\<rparr>\<lparr>calls := c, console := l\<rparr>) =
          (r2, st\<lparr>world := w\<rparr>\<lparr>world := w2, calls := c @ n2, console := l @ l2\<rparr>)"
      by (rule logs_only_run [where st = "st\<lparr>world := w\<rparr>"])
    have "\<forall>c l. bind m f (st\<lparr>calls := c, console := l\<rparr>) =
          (r2, st\<lparr>world := w2, calls := c @ (n1 @ n2), console := l @ (l1 @ l2)\<rparr>)"
      using one two Inr by (simp add: bind_def)
    then show ?thesis by blast
  qed
qed

lemma logs_only_try_catch:
  assumes m: "logs_only m" and h: "\<And>e. logs_only (h e)"
  shows "logs_only (try_catch m h)"
  unfolding logs_only_def
proof
  fix st :: "'a pstate"
  from m obtain r w n1 l1 where
    one: "\<forall>c l. m (st\<lparr>calls := c, console := l\<rparr>) =
          (r, st\<lparr>world := w, calls := c @ n1, console := l @ l1\<rparr>)"
    by (rule logs_only_run [where st = st])
  show "\<exists>r w new logged. \<forall>c l. try_catch m h (st\<lparr>calls := c, console := l\<rparr>) =
          (r, st\<lparr>world := w, calls := c @ new, console := l @ logged\<rparr>)"
  proof (cases r)
    case (Inr x)
    with one have "\<forall>c l. try_catch m h (st\<lparr>calls := c, console := l\<rparr>) =
          (Inr x, st\<lparr>world := w, calls := c @ n1, console := l @ l1\<rparr>)"
      by (simp add: try_catch_def)
    then show ?thesis by blast
  next
    case (Inl e)
    from h [of e] obtain r2 w2 n2 l2 where
      two: "\<forall>c l. h e (st\<lparr>world := w\<rparr>\<lparr>calls := c, console := l\<rparr>) =
          (r2, st\<lparr>world := w\<rparr>\<lparr>world := w2, calls := c @ n2, console := l @ l2\<rparr>)"
      by (rule logs_only_run [where st = "st\<lparr>world := w\<rparr>"])
    have "\<forall>c l. try_catch m h (st\<lparr>calls := c, console := l\<rparr>) =
          (r2, st\<lparr>world := w2, calls := c @ (n1 @ n2), console := l @ (l1 @ l2)\<rparr>)"
      using one two Inl by (simp add: try_catch_def)
    then show ?thesis by blast
  qed
qed

lemma logs_only_deploy: "logs_only (deployLambdaFunction env fname zipPath region)"
  unfolding deployLambdaFunction_def
  by (intro logs_only_bind logs_only_try_catch logs_only_call logs_only_console_log
            logs_only_console_error logs_only_setTimeout logs_only_ret logs_only_throw)

lemma logs_only_setup: "logs_only (setupCloudFrontTrigger env fname ver dist region)"
  unfolding setupCloudFrontTrigger_def Let_def
  by (intro logs_only_bind logs_only_try_catch logs_only_call logs_only_console_log
            logs_only_console_error logs_only_ret logs_only_throw)
     (simp_all add: logs_only_throw logs_only_bind logs_only_call logs_only_console_log
        split: option.split)

lemma logs_only_trigger_if:
  "logs_only
     (case v of None \<Rightarrow> ret () | Some version \<Rightarrow> setupCloudFrontTrigger env fname version dist region)"
  by (cases v) (simp_all add: logs_only_ret logs_only_setup)

lemma logs_only_invalidate_body:
  "logs_only
     (try_catch
           (bind (call (cf_CreateInvalidation env region params)
                       (CfCreateInvalidation region params)) (\<lambda>result.
            case Invalidation result of
              None \<Rightarrow> ret ()
            | Some created \<Rightarrow>
                console_log (''Invalidation created with ID: '' @ template (InvalidationId created))))
           (\<lambda>error. bind (console_error ''Failed to create invalidation: '' error)
                          (\<lambda>_. throw error)))"
  by (intro logs_only_bind logs_only_try_catch logs_only_call logs_only_console_error
            logs_only_throw)
     (simp_all add: logs_only_ret logs_only_console_log split: option.split)

lemma logs_only_invalidate: "logs_only (invalidateCache env dist paths region)"
  unfolding logs_only_def
proof
  fix st :: "'a pstate"
  from logs_only_invalidate_body [of env region "\<lparr>DistributionId = dist,
                    PathsQuantity = length paths,
                    PathsItems = paths,
                    CallerReference = Date_toISOString env (world st)\<rparr>"]
  obtain r w new logged where
    "\<forall>c l. (try_catch
           (bind (call (cf_CreateInvalidation env region \<lparr>DistributionId = dist,
                    PathsQuantity = length paths,
                    PathsItems = paths,
                    CallerReference = Date_toISOString env (world st)\<rparr>)
                       (CfCreateInvalidation region \<lparr>DistributionId = dist,
                    PathsQuantity = length paths,
                    PathsItems = paths,
                    CallerReference = Date_toISOString env (world st)\<rparr>)) (\<lambda>result.
            case Invalidation result of
              None \<Rightarrow> ret ()
            | Some created \<Rightarrow>
                console_log (''Invalidation created with ID: '' @ template (InvalidationId created))))
           (\<lambda>error. bind (console_error ''Failed to create invalidation: '' error)
                          (\<lambda>_. throw error))) (st\<lparr>calls := c, console := l\<rparr>) =
          (r, st\<lparr>world := w, calls := c @ new, console := l @ logged\<rparr>)"
    by (rule logs_only_run [where st = st])
  then have "\<forall>c l. invalidateCache env dist paths region (st\<lparr>calls := c, console := l\<rparr>) =
          (r, st\<lparr>world := w, calls := c @ new, console := l @ logged\<rparr>)"
    by (simp add: invalidateCache_def Let_def)
  then show "\<exists>r w new logged. \<forall>c l.
      invalidateCache env dist paths region (st\<lparr>calls := c, console := l\<rparr>) =
          (r, st\<lparr>world := w, calls := c @ new, console := l @ logged\<rparr>)" by blast
qed

section \<open>The runs of the steps of \<open>adapt\<close>\<close>

lemma bind_assoc: "bind (bind m f) g = bind m (\<lambda>x. bind (f x) g)"
  by (rule ext) (simp add: bind_def split: prod.split sum.split)

lemma emits_any: "emits P m \<Longrightarrow> emits (\<lambda>e. True) m"
  by (erule emits_mono) simp

lemma emits_run:
  assumes "emits P m" "m st = (r, st')"
  obtains new logged where "calls st' = calls st @ new" "list_all P new"
    "console st' = console st @ logged" "heap st' = heap st"
  using assms unfolding emits_def by (metis snd_conv)

lemma emits_adapt_run: "emits (\<lambda>e. True) (adapt_run env config)"
  unfolding adapt_run_def Let_def
  by (intro emits_bind emits_call emits_builder_log_minor emits_any [OF emits_bundle]
        emits_any [OF emits_upload_reading] emits_any [OF emits_zip_caught]
        emits_any [OF emits_deploy] emits_any [OF emits_trigger_if]
        emits_any [OF emits_invalidate]) simp_all

text \<open>The archive step of \<open>adapt\<close>: one call, and a rejection is logged, not thrown.\<close>

lemma zip_caught_run:
  assumes run: "try_catch (bind (zipDirectory env source dest) (\<lambda>_. console_log msg))
                          (\<lambda>error. console_error msg' error) st = (r, st')"
  obtains a where "r = Inr ()" "calls st' = calls st @ [ArchiverZip source dest a]"
    "\<forall>e. a = Inl e \<longrightarrow> ErrorLog msg' e \<in> set (console st')" "heap st' = heap st"
proof -
  obtain a w where z: "archiver_zip env source dest (world st) = (a, w)"
    by (cases "archiver_zip env source dest (world st)")
  from run z have "r = Inr () \<and> calls st' = calls st @ [ArchiverZip source dest a] \<and>
     (\<forall>e. a = Inl e \<longrightarrow> ErrorLog msg' e \<in> set (console st')) \<and> heap st' = heap st"
    by (cases a) (auto simp: zipDirectory_def prog_defs)
  then show thesis using that by blast
qed

text \<open>
  \<open>deployLambdaFunction\<close>: its first call reads the archive, every call is its own, and a
  \<^verbatim>\<open>PublishVersion\<close> call is answered with what the function then returns or throws.
\<close>

lemma deploy_run:
  assumes run: "deployLambdaFunction env fname zipPath region st = (r, st')"
  obtains ra rest where
    "calls st' = calls st @ FsReadFileSync zipPath ra # rest"
    "list_all (\<lambda>e. stage_of e = 3) rest"
    "\<forall>rg nm pa. LambdaPublishVersion rg nm pa \<in> set rest \<longrightarrow> pa = r"
proof -
  obtain ra w1 where rd: "fs_readFileSync env zipPath (world st) = (ra, w1)"
    by (cases "fs_readFileSync env zipPath (world st)")
  show thesis
  proof (cases ra)
    case (Inl e)
    with run rd have "calls st' = calls st @ FsReadFileSync zipPath ra # []"
      by (auto simp: deployLambdaFunction_def prog_defs)
    then show thesis by (rule that) simp_all
  next
    case (Inr bytes)
    obtain ua w2 where up: "lambda_UpdateFunctionCode env region
        \<lparr>FunctionName = fname, ZipFile = bytes\<rparr> w1 = (ua, w2)"
      by (cases "lambda_UpdateFunctionCode env region \<lparr>FunctionName = fname, ZipFile = bytes\<rparr> w1")
    show thesis
    proof (cases ua)
      case (Inl e)
      with run rd up Inr have "calls st' = calls st @ FsReadFileSync zipPath ra #
          [LambdaUpdateFunctionCode region \<lparr>FunctionName = fname, ZipFile = bytes\<rparr> ua]"
        by (auto simp: deployLambdaFunction_def prog_defs)
      then show thesis by (rule that) simp_all
    next
      case ok: (Inr u)
      obtain pa w3 where pv: "lambda_PublishVersion env region fname w2 = (pa, w3)"
        by (cases "lambda_PublishVersion env region fname w2")
      from run rd up Inr ok pv have "calls st' = calls st @ FsReadFileSync zipPath ra #
          [LambdaUpdateFunctionCode region \<lparr>FunctionName = fname, ZipFile = bytes\<rparr> ua,
           SetTimeout 5000, LambdaPublishVersion region fname pa] \<and> r = pa"
        by (cases pa) (auto simp: deployLambdaFunction_def prog_defs setTimeout_def)
      then have c: "calls st' = calls st @ FsReadFileSync zipPath ra #
          [LambdaUpdateFunctionCode region \<lparr>FunctionName = fname, ZipFile = bytes\<rparr> ua,
           SetTimeout 5000, LambdaPublishVersion region fname pa]" and r: "r = pa" by simp_all
      from c show thesis by (rule that) (simp_all add: r)
    qed
  qed
qed

text \<open>\<open>invalidateCache\<close> makes one call, for the distribution and the paths it was given.\<close>

lemma invalidate_run:
  assumes run: "invalidateCache env dist paths region st = (r, st')"
  obtains input answer where
    "calls st' = calls st @ [CfCreateInvalidation region input answer]"
    "DistributionId input = dist" "PathsItems input = paths" "PathsQuantity input = length paths"
proof -
  define input where "input = \<lparr>DistributionId = dist, PathsQuantity = length paths,
      PathsItems = paths, CallerReference = Date_toISOString env (world st)\<rparr>"
  obtain answer w where a: "cf_CreateInvalidation env region input (world st) = (answer, w)"
    by (cases "cf_CreateInvalidation env region input (world st)")
  have "calls st' = calls st @ [CfCreateInvalidation region input answer]"
  proof (cases answer)
    case (Inl e)
    with run a show ?thesis by (auto simp: invalidateCache_def prog_defs input_def)
  next
    case (Inr out)
    with run a show ?thesis
      by (cases "Invalidation out") (auto simp: invalidateCache_def prog_defs input_def)
  qed
  then show thesis by (rule that) (simp_all add: input_def)
qed

text \<open>
  The shape of every run of the body of \<open>adapt\<close>: it stops during the build or the upload;
  or it goes through the archive step, whatever the archiver answered, and calls
  \<open>deployLambdaFunction\<close>, which throws; or the deployment returns no version and the
  invalidation follows at once; or it returns a version and the trigger is bound first.
\<close>

lemma adapt_run_cases:
  fixes env :: "'w env"
  assumes run: "adapt_run env config st = (r, st')"
  obtains
    (early) n1 where
      "calls st' = calls st @ n1" "list_all (\<lambda>e. stage_of e \<le> 1) n1"
  | (deploy_failed) n1 a ra rest where
      "calls st' = calls st @ n1 @ ArchiverZip ''build'' ''build/lambda.zip'' a #
                     FsReadFileSync ''build/lambda.zip'' ra # rest"
      "list_all (\<lambda>e. stage_of e \<le> 1) n1" "list_all (\<lambda>e. stage_of e = 3) rest"
      "\<And>rg nm pa. LambdaPublishVersion rg nm pa \<in> set rest \<Longrightarrow> pa \<noteq> Inr None"
      "\<And>e. a = Inl e \<Longrightarrow> ErrorLog ''Failed to zip directory:'' e \<in> set (console st')"
  | (no_version) n1 a ra rest input answer where
      "calls st' = calls st @ n1 @ ArchiverZip ''build'' ''build/lambda.zip'' a #
                     FsReadFileSync ''build/lambda.zip'' ra # rest @
                     [CfCreateInvalidation (cloudfrontRegion (cloudfront config)) input answer]"
      "list_all (\<lambda>e. stage_of e \<le> 1) n1" "list_all (\<lambda>e. stage_of e = 3) rest"
      "DistributionId input = distributionId (cloudfront config)"
      "PathsItems input = [''/*'']" "PathsQuantity input = 1"
      "\<And>e. a = Inl e \<Longrightarrow> ErrorLog ''Failed to zip directory:'' e \<in> set (console st')"
  | (with_version) n1 a ra rest n4 where
      "calls st' = calls st @ n1 @ ArchiverZip ''build'' ''build/lambda.zip'' a #
                     FsReadFileSync ''build/lambda.zip'' ra # rest @ n4"
      "list_all (\<lambda>e. stage_of e \<le> 1) n1" "list_all (\<lambda>e. stage_of e = 3) rest"
      "list_all (\<lambda>e. 4 \<le> stage_of e) n4"
      "\<And>rg nm pa. LambdaPublishVersion rg nm pa \<in> set rest \<Longrightarrow> pa \<noteq> Inr None"
      "\<And>e. a = Inl e \<Longrightarrow> ErrorLog ''Failed to zip directory:'' e \<in> set (console st')"
proof -
  define purge :: "('w, unit) prog" where
    "purge = invalidateCache env (distributionId (cloudfront config)) [''/*'']
               (cloudfrontRegion (cloudfront config))"
  define trigger :: "string \<Rightarrow> ('w, unit) prog" where
    "trigger = (\<lambda>version. setupCloudFrontTrigger env (functionName (lambda config)) version
                  (distributionId (cloudfront config)) (cloudfrontRegion (cloudfront config)))"
  define deploy :: "('w, string option) prog" where
    "deploy = deployLambdaFunction env (functionName (lambda config)) ''build/lambda.zip''
                (lambdaRegion (lambda config))"
  define zip_step :: "('w, unit) prog" where
    "zip_step = try_catch
              (bind (zipDirectory env ''build'' ''build/lambda.zip'') (\<lambda>_.
               console_log ''Directory successfully zipped!''))
              (\<lambda>error. console_error ''Failed to zip directory:'' error)"
  define prefix :: "('w, unit) prog" where
    "prefix =
      bind (call (builder_rimraf env ''out'') (BuilderRimraf ''out'')) (\<lambda>_.
      bind (builder_log_minor ''Copying assets...'') (\<lambda>_.
      bind (call (builder_writeClient env (path_join ''out'' ''client''))
                 (BuilderWriteClient (path_join ''out'' ''client''))) (\<lambda>_.
      bind (call (builder_writePrerendered env (path_join ''out'' ''prerendered''))
                 (BuilderWritePrerendered (path_join ''out'' ''prerendered''))) (\<lambda>prerenderedFiles.
      bind (builder_log_minor ''Generating server function...'') (\<lambda>_.
      bind (call (builder_writeServer env (path_join ''out'' ''server''))
                 (BuilderWriteServer (path_join ''out'' ''server''))) (\<lambda>_.
      bind (call (builder_copy env (path_join (dirname env) ''handler'')
                                   (path_join (path_join ''out'' ''server'') ''lambda-handler''))
                 (BuilderCopy (path_join (dirname env) ''handler'')
                              (path_join (path_join ''out'' ''server'') ''lambda-handler''))) (\<lambda>_.
      bind (call (fs_writeFileSync env
                    (path_join (path_join (path_join ''out'' ''server'') ''lambda-handler'')
                               ''prerendered-file-list.js'')
                    (''export default '' @ JSON_stringify env prerenderedFiles))
                 (FsWriteFileSync
                    (path_join (path_join (path_join ''out'' ''server'') ''lambda-handler'')
                               ''prerendered-file-list.js'')
                    (''export default '' @ JSON_stringify env prerenderedFiles))) (\<lambda>_.
      bind (bundleApp env) (\<lambda>_.
      (\<lambda>st. uploadToS3 env (path_join ''out'' ''client'')
               (fs_tree env (world st) (path_join ''out'' ''client''))
               (bucketName (s3 config)) (s3Prefix (s3 config)) (s3Region (s3 config)) st))))))))))"
  have split: "adapt_run env config =
      bind prefix (\<lambda>_. bind zip_step (\<lambda>_. bind deploy (\<lambda>lambdaVersion.
        bind (case lambdaVersion of None \<Rightarrow> ret () | Some version \<Rightarrow> trigger version)
             (\<lambda>_. purge))))"
    unfolding trigger_def purge_def deploy_def zip_step_def prefix_def
    by (simp add: adapt_run_def bind_assoc Let_def)
  have pre: "emits (\<lambda>e. stage_of e \<le> 1) prefix"
    unfolding prefix_def
    by (intro emits_bind emits_call emits_builder_log_minor emits_mono [OF emits_bundle]
              emits_mono [OF emits_upload_reading]) simp_all
  obtain rp st1 where p: "prefix st = (rp, st1)" by (cases "prefix st")
  from emits_run [OF pre p] obtain n1 l1 where
    n1: "calls st1 = calls st @ n1" "list_all (\<lambda>e. stage_of e \<le> 1) n1" by blast
  show thesis
  proof (cases rp)
    case (Inl e)
    with run p have "st' = st1" by (simp add: split bind_def)
    with n1 show thesis using early by simp
  next
    case (Inr u)
    obtain rz st2 where zs: "zip_step st1 = (rz, st2)" by (cases "zip_step st1")
    from zs [unfolded zip_step_def] obtain a where
      rz: "rz = Inr ()" and c2: "calls st2 = calls st1 @ [ArchiverZip ''build'' ''build/lambda.zip'' a]"
      and lg: "\<forall>e. a = Inl e \<longrightarrow> ErrorLog ''Failed to zip directory:'' e \<in> set (console st2)"
      and "heap st2 = heap st1"
      by (rule zip_caught_run)
    obtain r3 st3 where d: "deploy st2 = (r3, st3)" by (cases "deploy st2")
    from d [unfolded deploy_def] obtain ra rest where
      c3: "calls st3 = calls st2 @ FsReadFileSync ''build/lambda.zip'' ra # rest" and
      rest: "list_all (\<lambda>e. stage_of e = 3) rest" and
      pv: "\<forall>rg nm pa. LambdaPublishVersion rg nm pa \<in> set rest \<longrightarrow> pa = r3"
      by (rule deploy_run)
    from emits_run [OF emits_deploy d [unfolded deploy_def]] obtain l3 where
      l3: "console st3 = console st2 @ l3" by blast
    have lg3: "\<And>e. a = Inl e \<Longrightarrow> ErrorLog ''Failed to zip directory:'' e \<in> set (console st3)"
      using lg l3 by simp
    have c3': "calls st3 = calls st @ n1 @ ArchiverZip ''build'' ''build/lambda.zip'' a #
                     FsReadFileSync ''build/lambda.zip'' ra # rest"
      using n1 c2 c3 by simp
    show thesis
    proof (cases r3)
      case failed: (Inl e)
      with run p Inr zs rz d have "st' = st3" by (simp add: split bind_def)
      moreover have "\<And>rg nm pa. LambdaPublishVersion rg nm pa \<in> set rest \<Longrightarrow> pa \<noteq> Inr None"
        using pv failed by auto
      ultimately show thesis using deploy_failed c3' n1 rest lg3 by blast
    next
      case returned: (Inr v)
      show thesis
      proof (cases v)
        case None
        with run p Inr zs rz d returned have inv: "purge st3 = (r, st')"
          by (simp add: split bind_def ret_def)
        from inv [unfolded purge_def] obtain input answer where
          c5: "calls st' = calls st3 @
                 [CfCreateInvalidation (cloudfrontRegion (cloudfront config)) input answer]"
          and i: "DistributionId input = distributionId (cloudfront config)"
                 "PathsItems input = [''/*'']" "PathsQuantity input = length [''/*'']"
          by (rule invalidate_run)
        from emits_run [OF emits_invalidate inv [unfolded purge_def]] obtain l5 where
          "console st' = console st3 @ l5" by blast
        with lg3 have lg5: "\<And>e. a = Inl e \<Longrightarrow>
            ErrorLog ''Failed to zip directory:'' e \<in> set (console st')" by simp
        have "calls st' = calls st @ n1 @ ArchiverZip ''build'' ''build/lambda.zip'' a #
                     FsReadFileSync ''build/lambda.zip'' ra # rest @
                     [CfCreateInvalidation (cloudfrontRegion (cloudfront config)) input answer]"
          using c5 c3' by simp
        then show thesis using no_version n1 rest i lg5 by simp
      next
        case (Some version)
        have pv': "\<And>rg nm pa. LambdaPublishVersion rg nm pa \<in> set rest \<Longrightarrow> pa \<noteq> Inr None"
          using pv returned Some by auto
        obtain r4 st4 where s: "trigger version st3 = (r4, st4)" by (cases "trigger version st3")
        from emits_run [OF emits_setup s [unfolded trigger_def]] obtain n4 l4 where
          n4: "calls st4 = calls st3 @ n4" "list_all (\<lambda>e. stage_of e = 4) n4"
              "console st4 = console st3 @ l4" by blast
        from n4 lg3 have lg4: "\<And>e. a = Inl e \<Longrightarrow>
            ErrorLog ''Failed to zip directory:'' e \<in> set (console st4)" by simp
        have four: "list_all (\<lambda>e. 4 \<le> stage_of e) n4"
          using n4(2) by (simp add: list_all_iff)
        show thesis
        proof (cases r4)
          case (Inl e)
          with run p Inr zs rz d returned Some s have "st' = st4"
            by (simp add: split bind_def)
          moreover have "calls st4 = calls st @ n1 @ ArchiverZip ''build'' ''build/lambda.zip'' a #
                     FsReadFileSync ''build/lambda.zip'' ra # rest @ n4"
            using n4 c3' by simp
          ultimately show thesis using with_version n1 rest four pv' lg4 by blast
        next
          case bound: (Inr u4)
          with run p Inr zs rz d returned Some s have inv: "purge st4 = (r, st')"
            by (simp add: split bind_def)
          from emits_run [OF emits_invalidate inv [unfolded purge_def]] obtain n5 l5 where
            n5: "calls st' = calls st4 @ n5" "list_all (\<lambda>e. stage_of e = 5) n5"
                "console st' = console st4 @ l5" by blast
          from n5 lg4 have lg5: "\<And>e. a = Inl e \<Longrightarrow>
            ErrorLog ''Failed to zip directory:'' e \<in> set (console st')" by simp
          have "list_all (\<lambda>e. 4 \<le> stage_of e) (n4 @ n5)"
            using four n5(2) by (auto simp: list_all_iff)
          moreover have "calls st' = calls st @ n1 @ ArchiverZip ''build'' ''build/lambda.zip'' a #
                     FsReadFileSync ''build/lambda.zip'' ra # rest @ n4 @ n5"
            using n5 n4 c3' by simp
          ultimately show thesis using with_version n1 rest pv' lg5 by blast
        qed
      qed
    qed
  qed
qed

section \<open>The archive step and what follows it\<close>

text \<open>Only the archive step asks the archiver: nothing else changes with \<open>resolving\<close>.\<close>

lemma resolving_fields:
  "dirname (resolving env) = dirname env"
  "JSON_stringify (resolving env) = JSON_stringify env"
  "mime_lookup (resolving env) = mime_lookup env"
  "Date_toISOString (resolving env) = Date_toISOString env"
  "fs_tree (resolving env) = fs_tree env"
  "builder_rimraf (resolving env) = builder_rimraf env"
  "builder_writeClient (resolving env) = builder_writeClient env"
  "builder_writePrerendered (resolving env) = builder_writePrerendered env"
  "builder_writeServer (resolving env) = builder_writeServer env"
  "builder_copy (resolving env) = builder_copy env"
  "fs_writeFileSync (resolving env) = fs_writeFileSync env"
  "fs_rm (resolving env) = fs_rm env"
  "esbuild_build (resolving env) = esbuild_build env"
  "fs_existsSync (resolving env) = fs_existsSync env"
  "fs_cp (resolving env) = fs_cp env"
  "fs_readFileSync (resolving env) = fs_readFileSync env"
  "s3_PutObject (resolving env) = s3_PutObject env"
  "lambda_UpdateFunctionCode (resolving env) = lambda_UpdateFunctionCode env"
  "lambda_PublishVersion (resolving env) = lambda_PublishVersion env"
  "lambda_GetFunctionConfiguration (resolving env) = lambda_GetFunctionConfiguration env"
  "cf_GetDistributionConfig (resolving env) = cf_GetDistributionConfig env"
  "cf_UpdateDistribution (resolving env) = cf_UpdateDistribution env"
  "cf_CreateInvalidation (resolving env) = cf_CreateInvalidation env"
  by (simp_all add: resolving_def)

lemma upload_resolving:
  "uploadToS3 (resolving env) dir node bucket pfx region =
     uploadToS3 env dir node bucket pfx region"
  "uploadItems (resolving env) dir bucket pfx region items =
     uploadItems env dir bucket pfx region items"
proof (induction env dir node bucket pfx region and env dir bucket pfx region items
       rule: uploadToS3_uploadItems.induct)
  case (7 env directoryPath bucketName prefix region item node rest)
  show ?case
  proof (cases node)
    case File
    then show ?thesis using 7 by (simp add: resolving_fields)
  next
    case (Directory sub)
    then show ?thesis using 7 by (simp add: resolving_fields)
  next
    case Special
    then show ?thesis using 7 by (simp add: resolving_fields)
  next
    case Dangling
    then show ?thesis using 7 by (simp add: resolving_fields)
  next
    case LockedDirectory
    then show ?thesis using 7 by (simp add: resolving_fields)
  qed
qed simp_all

lemma existsSync_resolving: "existsSync (resolving env) p = existsSync env p"
  by (rule ext) (simp add: existsSync_def resolving_fields)

lemma bundleApp_resolving: "bundleApp (resolving env) = bundleApp env"
  by (simp add: bundleApp_def existsSync_resolving resolving_fields cong: if_cong)

lemma deploy_resolving:
  "deployLambdaFunction (resolving env) fname zipPath region =
     deployLambdaFunction env fname zipPath region"
  by (simp add: deployLambdaFunction_def resolving_fields)

lemma setup_resolving:
  "setupCloudFrontTrigger (resolving env) fname ver dist region =
     setupCloudFrontTrigger env fname ver dist region"
  by (simp add: setupCloudFrontTrigger_def resolving_fields cong: option.case_cong)

lemma invalidate_resolving:
  "invalidateCache (resolving env) dist paths region = invalidateCache env dist paths region"
  by (rule ext) (simp add: invalidateCache_def resolving_fields cong: option.case_cong)

text \<open>
  The body of \<open>adapt\<close> in three parts: the statements up to the upload, the archive step,
  and the statements after it. Only the archive step asks the archiver.
\<close>

lemma adapt_run_parts:
  fixes env :: "'w env"
  obtains prefix :: "('w, unit) prog" where
    "emits (\<lambda>e. stage_of e \<le> 1) prefix"
    "\<forall>env'. env' = env \<or> env' = resolving env \<longrightarrow>
       adapt_run env' config =
         bind prefix (\<lambda>_.
         bind (try_catch
                 (bind (zipDirectory env' ''build'' ''build/lambda.zip'') (\<lambda>_.
                  console_log ''Directory successfully zipped!''))
                 (\<lambda>error. console_error ''Failed to zip directory:'' error)) (\<lambda>_.
         bind (deployLambdaFunction env (functionName (lambda config)) ''build/lambda.zip''
                 (lambdaRegion (lambda config))) (\<lambda>lambdaVersion.
         bind (case lambdaVersion of
                 None \<Rightarrow> ret ()
               | Some version \<Rightarrow>
                   setupCloudFrontTrigger env (functionName (lambda config)) version
                     (distributionId (cloudfront config)) (cloudfrontRegion (cloudfront config)))
              (\<lambda>_.
         invalidateCache env (distributionId (cloudfront config)) [''/*'']
           (cloudfrontRegion (cloudfront config))))))"
proof -
  define prefix :: "('w, unit) prog" where
    "prefix =
      bind (call (builder_rimraf env ''out'') (BuilderRimraf ''out'')) (\<lambda>_.
      bind (builder_log_minor ''Copying assets...'') (\<lambda>_.
      bind (call (builder_writeClient env (path_join ''out'' ''client''))
                 (BuilderWriteClient (path_join ''out'' ''client''))) (\<lambda>_.
      bind (call (builder_writePrerendered env (path_join ''out'' ''prerendered''))
                 (BuilderWritePrerendered (path_join ''out'' ''prerendered''))) (\<lambda>prerenderedFiles.
      bind (builder_log_minor ''Generating server function...'') (\<lambda>_.
      bind (call (builder_writeServer env (path_join ''out'' ''server''))
                 (BuilderWriteServer (path_join ''out'' ''server''))) (\<lambda>_.
      bind (call (builder_copy env (path_join (dirname env) ''handler'')
                                   (path_join (path_join ''out'' ''server'') ''lambda-handler''))
                 (BuilderCopy (path_join (dirname env) ''handler'')
                              (path_join (path_join ''out'' ''server'') ''lambda-handler''))) (\<lambda>_.
      bind (call (fs_writeFileSync env
                    (path_join (path_join (path_join ''out'' ''server'') ''lambda-handler'')
                               ''prerendered-file-list.js'')
                    (''export default '' @ JSON_stringify env prerenderedFiles))
                 (FsWriteFileSync
                    (path_join (path_join (path_join ''out'' ''server'') ''lambda-handler'')
                               ''prerendered-file-list.js'')
                    (''export default '' @ JSON_stringify env prerenderedFiles))) (\<lambda>_.
      bind (bundleApp env) (\<lambda>_.
      (\<lambda>st. uploadToS3 env (path_join ''out'' ''client'')
               (fs_tree env (world st) (path_join ''out'' ''client''))
               (bucketName (s3 config)) (s3Prefix (s3 config)) (s3Region (s3 config)) st))))))))))"
  have pre: "emits (\<lambda>e. stage_of e \<le> 1) prefix"
    unfolding prefix_def
    by (intro emits_bind emits_call emits_builder_log_minor emits_mono [OF emits_bundle]
              emits_mono [OF emits_upload_reading]) simp_all
  have here: "adapt_run env config =
         bind prefix (\<lambda>_.
         bind (try_catch
                 (bind (zipDirectory env ''build'' ''build/lambda.zip'') (\<lambda>_.
                  console_log ''Directory successfully zipped!''))
                 (\<lambda>error. console_error ''Failed to zip directory:'' error)) (\<lambda>_.
         bind (deployLambdaFunction env (functionName (lambda config)) ''build/lambda.zip''
                 (lambdaRegion (lambda config))) (\<lambda>lambdaVersion.
         bind (case lambdaVersion of
                 None \<Rightarrow> ret ()
               | Some version \<Rightarrow>
                   setupCloudFrontTrigger env (functionName (lambda config)) version
                     (distributionId (cloudfront config)) (cloudfrontRegion (cloudfront config)))
              (\<lambda>_.
         invalidateCache env (distributionId (cloudfront config)) [''/*'']
           (cloudfrontRegion (cloudfront config))))))"
    unfolding prefix_def by (simp add: adapt_run_def bind_assoc Let_def)
  have there: "adapt_run (resolving env) config =
         bind prefix (\<lambda>_.
         bind (try_catch
                 (bind (zipDirectory (resolving env) ''build'' ''build/lambda.zip'') (\<lambda>_.
                  console_log ''Directory successfully zipped!''))
                 (\<lambda>error. console_error ''Failed to zip directory:'' error)) (\<lambda>_.
         bind (deployLambdaFunction env (functionName (lambda config)) ''build/lambda.zip''
                 (lambdaRegion (lambda config))) (\<lambda>lambdaVersion.
         bind (case lambdaVersion of
                 None \<Rightarrow> ret ()
               | Some version \<Rightarrow>
                   setupCloudFrontTrigger env (functionName (lambda config)) version
                     (distributionId (cloudfront config)) (cloudfrontRegion (cloudfront config)))
              (\<lambda>_.
         invalidateCache env (distributionId (cloudfront config)) [''/*'']
           (cloudfrontRegion (cloudfront config))))))"
    unfolding prefix_def
    by (simp add: adapt_run_def bind_assoc Let_def resolving_fields upload_resolving
          bundleApp_resolving deploy_resolving setup_resolving invalidate_resolving
          cong: option.case_cong)
  from here there have "\<forall>env'. env' = env \<or> env' = resolving env \<longrightarrow>
       adapt_run env' config =
         bind prefix (\<lambda>_.
         bind (try_catch
                 (bind (zipDirectory env' ''build'' ''build/lambda.zip'') (\<lambda>_.
                  console_log ''Directory successfully zipped!''))
                 (\<lambda>error. console_error ''Failed to zip directory:'' error)) (\<lambda>_.
         bind (deployLambdaFunction env (functionName (lambda config)) ''build/lambda.zip''
                 (lambdaRegion (lambda config))) (\<lambda>lambdaVersion.
         bind (case lambdaVersion of
                 None \<Rightarrow> ret ()
               | Some version \<Rightarrow>
                   setupCloudFrontTrigger env (functionName (lambda config)) version
                     (distributionId (cloudfront config)) (cloudfrontRegion (cloudfront config)))
              (\<lambda>_.
         invalidateCache env (distributionId (cloudfront config)) [''/*'']
           (cloudfrontRegion (cloudfront config))))))"
    by blast
  with pre show thesis by (rule that)
qed

text \<open>The first call of what follows the archive step is the read of the archive.\<close>

lemma deploy_first:
  assumes run: "bind (deployLambdaFunction env fname zipPath region) g st = (r, st')"
      and g: "\<And>v. emits (\<lambda>e. 3 \<le> stage_of e) (g v)"
  shows "\<exists>answer later.
           calls st' = calls st @ FsReadFileSync zipPath answer # later \<and>
           list_all (\<lambda>e. 3 \<le> stage_of e) later"
proof -
  obtain r3 st3 where d: "deployLambdaFunction env fname zipPath region st = (r3, st3)"
    by (cases "deployLambdaFunction env fname zipPath region st")
  from d obtain ra rest where
    c3: "calls st3 = calls st @ FsReadFileSync zipPath ra # rest" and
    rest: "list_all (\<lambda>e. stage_of e = 3) rest"
    by (rule deploy_run)
  from rest have rest3: "list_all (\<lambda>e. 3 \<le> stage_of e) rest" by (simp add: list_all_iff)
  show ?thesis
  proof (cases r3)
    case (Inl e)
    with run d have "st' = st3" by (simp add: bind_def)
    with c3 rest3 show ?thesis by blast
  next
    case (Inr v)
    with run d have "g v st3 = (r, st')" by (simp add: bind_def)
    from emits_run [OF g this] obtain n where
      "calls st' = calls st3 @ n" "list_all (\<lambda>e. 3 \<le> stage_of e) n" by blast
    with c3 rest3 have "calls st' = calls st @ FsReadFileSync zipPath ra # (rest @ n) \<and>
        list_all (\<lambda>e. 3 \<le> stage_of e) (rest @ n)" by simp
    then show ?thesis by blast
  qed
qed

lemma after_deploy_stages:
  "emits (\<lambda>e. 3 \<le> stage_of e)
     (bind (case v of None \<Rightarrow> ret ()
            | Some version \<Rightarrow> setupCloudFrontTrigger env fname version dist region)
           (\<lambda>_. invalidateCache env dist paths region'))"
  by (intro emits_bind emits_mono [OF emits_trigger_if] emits_mono [OF emits_invalidate])
     simp_all

section \<open>The walk of the Asset Publisher\<close>

lemma walks_ret: "walks [] bucket (ret ())"
  by (simp add: walks_def ret_def)

lemma walks_bind:
  assumes m: "walks p1 bucket m" and f: "\<And>x. walks p2 bucket (f x)"
  shows "walks (p1 @ p2) bucket (bind m f)"
  unfolding walks_def
proof
  fix st
  obtain r st1 where run: "m st = (r, st1)" by (cases "m st")
  from m run obtain n1 where r: "r = Inr ()" and
    n1: "calls st1 = calls st @ n1" "list_all is_put n1" "map put_path n1 = p1"
        "console st1 = console st @ map (put_log bucket) n1"
    unfolding walks_def by (metis fst_conv snd_conv)
  from f [of "()"] obtain n2 where r2: "fst (f () st1) = Inr ()" and
    n2: "calls (snd (f () st1)) = calls st1 @ n2" "list_all is_put n2" "map put_path n2 = p2"
        "console (snd (f () st1)) = console st1 @ map (put_log bucket) n2"
    unfolding walks_def by blast
  have "bind m f st = f () st1" using run r by (simp add: bind_def)
  with r2 n1 n2 show "fst (bind m f st) = Inr () \<and>
          (\<exists>new. calls (snd (bind m f st)) = calls st @ new \<and> list_all is_put new \<and>
                 map put_path new = p1 @ p2 \<and>
                 console (snd (bind m f st)) = console st @ map (put_log bucket) new)"
    by (intro conjI exI [of _ "n1 @ n2"]) simp_all
qed

lemma walks_put:
  "walks [Body input] (Bucket input)
     (try_catch
        (bind (call ask (S3PutObject region input)) (\<lambda>_.
         console_log (''Successfully uploaded '' @ Body input @ '' to '' @ Bucket input @ ''/'' @ Key input)))
        (\<lambda>error. console_error (''Failed to upload '' @ Body input @ '':'') error))"
  unfolding walks_def
  by (simp add: try_catch_def bind_def call_def console_log_def console_error_def
           split: prod.split sum.split)

lemma walks_upload:
  "walkable node \<Longrightarrow> node = Directory items \<Longrightarrow>
     walks (file_paths dir node) bucket (uploadToS3 env dir node bucket pfx region)"
  "walkable_items items' \<Longrightarrow>
     walks (file_paths_items dir items') bucket (uploadItems env dir bucket pfx region items')"
proof (induction env dir node bucket pfx region and env dir bucket pfx region items'
       arbitrary: items
       rule: uploadToS3_uploadItems.induct)
  case (7 env directoryPath bucketName prefix region item node rest)
  from "7.prems" have wn: "walkable node" and wr: "walkable_items rest" by simp_all
  have rest: "walks (file_paths_items directoryPath rest) bucketName
                (uploadItems env directoryPath bucketName prefix region rest)"
    using "7.IH"(3) wr by simp
  show ?case
  proof (cases node)
    case File
    have "walks [path_join directoryPath item] bucketName
       (try_catch
              (bind (call (s3_PutObject env region
                             \<lparr>Bucket = bucketName,
                              Key = prefix @ replace_backslashes item,
                              Body = path_join directoryPath item,
                              ContentType =
                                (case mime_lookup env (path_join directoryPath item) of
                                   None \<Rightarrow> ''application/octet-stream''
                                 | Some t \<Rightarrow> t)\<rparr>)
                          (S3PutObject region
                             \<lparr>Bucket = bucketName,
                              Key = prefix @ replace_backslashes item,
                              Body = path_join directoryPath item,
                              ContentType =
                                (case mime_lookup env (path_join directoryPath item) of
                                   None \<Rightarrow> ''application/octet-stream''
                                 | Some t \<Rightarrow> t)\<rparr>)) (\<lambda>_.
               console_log (''Successfully uploaded '' @ path_join directoryPath item @ '' to ''
                            @ bucketName @ ''/'' @ prefix @ replace_backslashes item)))
              (\<lambda>error. console_error (''Failed to upload '' @ path_join directoryPath item @ '':'')
                                      error))"
      using walks_put [of "\<lparr>Bucket = bucketName,
                              Key = prefix @ replace_backslashes item,
                              Body = path_join directoryPath item,
                              ContentType =
                                (case mime_lookup env (path_join directoryPath item) of
                                   None \<Rightarrow> ''application/octet-stream''
                                 | Some t \<Rightarrow> t)\<rparr>"] by simp
    from walks_bind [OF this rest] File show ?thesis by simp
  next
    case (Directory sub)
    with wn have "walks (file_paths (path_join directoryPath item) (Directory sub)) bucketName
        (uploadToS3 env (path_join directoryPath item) (Directory sub) bucketName (prefix @ item) region)"
      using "7.IH"(1) by simp
    from walks_bind [OF this rest] Directory show ?thesis by simp
  next
    case Special
    from walks_bind [OF walks_ret rest] Special show ?thesis by simp
  next
    case Dangling
    with wn show ?thesis by simp
  next
    case LockedDirectory
    with wn show ?thesis by simp
  qed
qed (simp_all add: walks_ret)


section \<open>Merging a configuration into \<open>defaultConfig\<close>\<close>

lemma if_JStr: "(if s \<noteq> [] then JStr s else JStr d) = JStr (pick s d)"
  by (simp add: pick_def)

lemmas heap_defs = defaultConfig_def config_object_def isObject_def object_at_def
  set_property_def Object_keys_def Object_assign_new_def Let_def if_JStr nth_append

text \<open>
  One merge, run on any heap in which \<open>defaultConfig\<close> has the shape of the interface: the
  three sections of \<open>defaultConfig\<close> become new objects, copies of the old sections with the
  non-empty leaves of \<open>c\<close> written over them, and no other object changes.
\<close>

lemma merge_on_shape:
  assumes top: "h ! 0 = [(''s3'', JRef a1), (''lambda'', JRef a2), (''cloudfront'', JRef a3)]"
    and len: "0 < a1" "a1 < length h" "0 < a2" "a2 < length h" "0 < a3" "a3 < length h"
    and s: "h ! a1 = [(''bucketName'', JStr b), (''prefix'', JStr p), (''region'', JStr r1)]"
    and l: "h ! a2 = [(''functionName'', JStr f), (''region'', JStr r2)]"
    and c: "h ! a3 = [(''distributionId'', JStr d), (''region'', JStr r3)]"
  shows "merge_config (Suc (Suc n)) c h = Some (Inr (JRef defaultConfig),
       h[0 := [(''s3'', JRef (length h + 4)), (''lambda'', JRef (length h + 5)),
               (''cloudfront'', JRef (length h + 6))]] @
          [[(''bucketName'', JStr (bucketName (s3 c))), (''prefix'', JStr (s3Prefix (s3 c))),
            (''region'', JStr (s3Region (s3 c)))],
           [(''functionName'', JStr (functionName (lambda c))),
            (''region'', JStr (lambdaRegion (lambda c)))],
           [(''distributionId'', JStr (distributionId (cloudfront c))),
            (''region'', JStr (cloudfrontRegion (cloudfront c)))],
           [(''s3'', JRef (length h)), (''lambda'', JRef (length h + 1)),
            (''cloudfront'', JRef (length h + 2))],
           [(''bucketName'', JStr (pick (bucketName (s3 c)) b)),
            (''prefix'', JStr (pick (s3Prefix (s3 c)) p)),
            (''region'', JStr (pick (s3Region (s3 c)) r1))],
           [(''functionName'', JStr (pick (functionName (lambda c)) f)),
            (''region'', JStr (pick (lambdaRegion (lambda c)) r2))],
           [(''distributionId'', JStr (pick (distributionId (cloudfront c)) d)),
            (''region'', JStr (pick (cloudfrontRegion (cloudfront c)) r3))]])"
proof -
  from len have ne: "h \<noteq> []" "a1 \<noteq> 0" "a2 \<noteq> 0" "a3 \<noteq> 0" by auto
  show ?thesis
    unfolding merge_config_def
    using assms ne
    apply (simp add: heap_defs nth_list_update list_update_append split del: if_split)
    apply (simp add: eval_nat_numeral)
    done
qed

lemma module_holds_loaded: "module_holds module_heap baked_in"
  unfolding module_holds_def
  by (intro exI [of _ 1] exI [of _ 2] exI [of _ 3])
     (simp add: module_heap_def baked_in_def defaultConfig_def)

lemma merge_step:
  assumes holds: "module_holds h base"
  obtains h' where
    "merge_config (Suc (Suc n)) c h = Some (Inr (JRef defaultConfig), h')"
    "module_holds h' (merged_over base c)"
    "as_AWSConfiguration h' (JRef defaultConfig) = Some (merged_over base c)"
proof -
  from holds obtain a1 a2 a3 where
    len: "0 < a1" "a1 < length h" "0 < a2" "a2 < length h" "0 < a3" "a3 < length h" and
    top: "h ! 0 = [(''s3'', JRef a1), (''lambda'', JRef a2), (''cloudfront'', JRef a3)]" and
    s: "h ! a1 = [(''bucketName'', JStr (bucketName (s3 base))),
                  (''prefix'', JStr (s3Prefix (s3 base))),
                  (''region'', JStr (s3Region (s3 base)))]" and
    l: "h ! a2 = [(''functionName'', JStr (functionName (lambda base))),
                  (''region'', JStr (lambdaRegion (lambda base)))]" and
    c: "h ! a3 = [(''distributionId'', JStr (distributionId (cloudfront base))),
                  (''region'', JStr (cloudfrontRegion (cloudfront base)))]"
    unfolding module_holds_def defaultConfig_def by blast
  define h' where "h' = h[0 := [(''s3'', JRef (length h + 4)), (''lambda'', JRef (length h + 5)),
               (''cloudfront'', JRef (length h + 6))]] @
          [[(''bucketName'', JStr (bucketName (s3 c))), (''prefix'', JStr (s3Prefix (s3 c))),
            (''region'', JStr (s3Region (s3 c)))],
           [(''functionName'', JStr (functionName (lambda c))),
            (''region'', JStr (lambdaRegion (lambda c)))],
           [(''distributionId'', JStr (distributionId (cloudfront c))),
            (''region'', JStr (cloudfrontRegion (cloudfront c)))],
           [(''s3'', JRef (length h)), (''lambda'', JRef (length h + 1)),
            (''cloudfront'', JRef (length h + 2))],
           [(''bucketName'', JStr (pick (bucketName (s3 c)) (bucketName (s3 base)))),
            (''prefix'', JStr (pick (s3Prefix (s3 c)) (s3Prefix (s3 base)))),
            (''region'', JStr (pick (s3Region (s3 c)) (s3Region (s3 base))))],
           [(''functionName'', JStr (pick (functionName (lambda c)) (functionName (lambda base)))),
            (''region'', JStr (pick (lambdaRegion (lambda c)) (lambdaRegion (lambda base))))],
           [(''distributionId'',
             JStr (pick (distributionId (cloudfront c)) (distributionId (cloudfront base)))),
            (''region'',
             JStr (pick (cloudfrontRegion (cloudfront c)) (cloudfrontRegion (cloudfront base))))]]"
  from len have ne: "h \<noteq> []" by auto
  have run: "merge_config (Suc (Suc n)) c h = Some (Inr (JRef defaultConfig), h')"
    unfolding h'_def by (rule merge_on_shape [OF top len s l c])
  have lens: "length h' = length h + 7" by (simp add: h'_def)
  have n0: "h' ! 0 = [(''s3'', JRef (length h + 4)), (''lambda'', JRef (length h + 5)),
               (''cloudfront'', JRef (length h + 6))]"
    using ne by (simp add: h'_def nth_append)
  have n4: "h' ! (length h + 4) =
           [(''bucketName'', JStr (pick (bucketName (s3 c)) (bucketName (s3 base)))),
            (''prefix'', JStr (pick (s3Prefix (s3 c)) (s3Prefix (s3 base)))),
            (''region'', JStr (pick (s3Region (s3 c)) (s3Region (s3 base))))]"
    by (simp add: h'_def nth_append)
  have n5: "h' ! (length h + 5) =
           [(''functionName'', JStr (pick (functionName (lambda c)) (functionName (lambda base)))),
            (''region'', JStr (pick (lambdaRegion (lambda c)) (lambdaRegion (lambda base))))]"
    by (simp add: h'_def nth_append)
  have n6: "h' ! (length h + 6) =
           [(''distributionId'',
             JStr (pick (distributionId (cloudfront c)) (distributionId (cloudfront base)))),
            (''region'',
             JStr (pick (cloudfrontRegion (cloudfront c)) (cloudfrontRegion (cloudfront base))))]"
    by (simp add: h'_def nth_append)
  have holds': "module_holds h' (merged_over base c)"
    unfolding module_holds_def
    by (intro exI [of _ "length h + 4"] exI [of _ "length h + 5"] exI [of _ "length h + 6"])
       (simp add: lens n0 n4 n5 n6 merged_over_def defaultConfig_def)
  have typed: "as_AWSConfiguration h' (JRef defaultConfig) = Some (merged_over base c)"
    by (simp add: as_AWSConfiguration_def leaf_def object_at_def lens n0 n4 n5 n6
                  merged_over_def defaultConfig_def)
  from run holds' typed show thesis by (rule that)
qed

text \<open>
  \<open>adapt\<close> called with the object for \<open>c\<close> on such a heap: the merge succeeds and the rest
  of \<open>adapt\<close> runs with the leaves of \<open>c\<close> merged over those \<open>defaultConfig\<close> held.
\<close>

lemma adapter_adapt_runs:
  assumes holds: "module_holds (heap st) base"
  obtains h' where
    "adapter_adapt (Suc (Suc n)) env c st =
       Some (adapt_run env (merged_over base c)
               (st\<lparr>console := console st @ [Log ''Building...''], heap := h'\<rparr>))"
    "module_holds h' (merged_over base c)"
    "as_AWSConfiguration h' (JRef defaultConfig) = Some (merged_over base c)"
proof -
  from holds obtain h' where
    run: "merge_config (Suc (Suc n)) c (heap st) = Some (Inr (JRef defaultConfig), h')" and
    holds': "module_holds h' (merged_over base c)" and
    typed: "as_AWSConfiguration h' (JRef defaultConfig) = Some (merged_over base c)"
    by (rule merge_step)
  from run have "deepMerge (Suc (Suc n)) (JRef defaultConfig) (fst (config_object c (heap st)))
                   (snd (config_object c (heap st))) = Some (Inr (JRef defaultConfig), h')"
    unfolding merge_config_def .
  with typed have ran: "adapter_adapt (Suc (Suc n)) env c st =
       Some (adapt_run env (merged_over base c)
               (st\<lparr>console := console st @ [Log ''Building...''], heap := h'\<rparr>))"
    by (simp add: adapter_adapt_def adapt_def Let_def del: deepMerge.simps)
  from ran holds' typed show thesis by (rule that)
qed

section \<open>The Asset Publisher\<close>

text \<open>
  C7. On a tree that can be walked (every entry can be \<^verbatim>\<open>stat\<close>ed, every directory listed),
  \<open>uploadToS3\<close> returns normally whatever the object store answers. It sends one
  \<^verbatim>\<open>PutObject\<close> for every regular file of the tree, in the order of the walk, whether or
  not earlier uploads failed, and logs one line for each: the error when the upload failed,
  the success otherwise.
\<close>

theorem uploadToS3_skips_failed_uploads:
  assumes tree: "walkable_items items"
      and run: "uploadToS3 env dir (Directory items) bucket pfx region st = (r, st')"
  shows "r = Inr () \<and>
         (\<exists>new. calls st' = calls st @ new \<and> list_all is_put new \<and>
                map put_path new = file_paths dir (Directory items) \<and>
                console st' = console st @ map (put_log bucket) new)"
proof -
  from tree have "walkable (Directory items)" by simp
  then have "walks (file_paths dir (Directory items)) bucket
               (uploadToS3 env dir (Directory items) bucket pfx region)"
    by (rule walks_upload(1)) simp
  with run show ?thesis unfolding walks_def by (metis fst_conv snd_conv)
qed

theorem uploadToS3_skips_failed_uploads_witness:
  "walkable_items [(''index.html'', File), (''app'', Directory [(''a.js'', File)])] \<and>
   uploadToS3 sim ''out/client''
       (Directory [(''index.html'', File), (''app'', Directory [(''a.js'', File)])])
       ''b'' ''p'' ''r1'' (start rejecting) =
     (Inr (),
      (start rejecting)
        \<lparr>world := rejecting\<lparr>s3_objects := [(''b'', ''p/app/a.js'')]\<rparr>,
         calls :=
           [S3PutObject ''r1''
              \<lparr>Bucket = ''b'', Key = ''p/index.html'', Body = ''out/client/index.html'',
               ContentType = ''text/html''\<rparr>
              (Inl (ServiceException ''AccessDenied'')),
            S3PutObject ''r1''
              \<lparr>Bucket = ''b'', Key = ''p/app/a.js'', Body = ''out/client/app/a.js'',
               ContentType = ''application/octet-stream''\<rparr>
              (Inr ())],
         console :=
           [ErrorLog ''Failed to upload out/client/index.html:'' (ServiceException ''AccessDenied''),
            Log ''Successfully uploaded out/client/app/a.js to b/p/app/a.js'']\<rparr>) \<and>
   file_paths ''out/client''
       (Directory [(''index.html'', File), (''app'', Directory [(''a.js'', File)])]) =
     [''out/client/index.html'', ''out/client/app/a.js'']"
proof -
  have tree: "walkable_items [(''index.html'', File), (''app'', Directory [(''a.js'', File)])]"
    by simp
  have run: "uploadToS3 sim ''out/client''
       (Directory [(''index.html'', File), (''app'', Directory [(''a.js'', File)])])
       ''b'' ''p'' ''r1'' (start rejecting) =
     (Inr (),
      (start rejecting)
        \<lparr>world := rejecting\<lparr>s3_objects := [(''b'', ''p/app/a.js'')]\<rparr>,
         calls :=
           [S3PutObject ''r1''
              \<lparr>Bucket = ''b'', Key = ''p/index.html'', Body = ''out/client/index.html'',
               ContentType = ''text/html''\<rparr>
              (Inl (ServiceException ''AccessDenied'')),
            S3PutObject ''r1''
              \<lparr>Bucket = ''b'', Key = ''p/app/a.js'', Body = ''out/client/app/a.js'',
               ContentType = ''application/octet-stream''\<rparr>
              (Inr ())],
         console :=
           [ErrorLog ''Failed to upload out/client/index.html:'' (ServiceException ''AccessDenied''),
            Log ''Successfully uploaded out/client/app/a.js to b/p/app/a.js'']\<rparr>)"
    by (simp add: prog_defs world_defs rejecting_def path_join_def replace_backslashes_def)
  from uploadToS3_skips_failed_uploads [OF tree run]
  have "\<exists>new. calls ((start rejecting)
        \<lparr>world := rejecting\<lparr>s3_objects := [(''b'', ''p/app/a.js'')]\<rparr>,
         calls :=
           [S3PutObject ''r1''
              \<lparr>Bucket = ''b'', Key = ''p/index.html'', Body = ''out/client/index.html'',
               ContentType = ''text/html''\<rparr>
              (Inl (ServiceException ''AccessDenied'')),
            S3PutObject ''r1''
              \<lparr>Bucket = ''b'', Key = ''p/app/a.js'', Body = ''out/client/app/a.js'',
               ContentType = ''application/octet-stream''\<rparr>
              (Inr ())],
         console :=
           [ErrorLog ''Failed to upload out/client/index.html:'' (ServiceException ''AccessDenied''),
            Log ''Successfully uploaded out/client/app/a.js to b/p/app/a.js'']\<rparr>) =
          calls (start rejecting) @ new \<and>
          map put_path new = file_paths ''out/client''
            (Directory [(''index.html'', File), (''app'', Directory [(''a.js'', File)])])"
    by blast
  then have "file_paths ''out/client''
       (Directory [(''index.html'', File), (''app'', Directory [(''a.js'', File)])]) =
     [''out/client/index.html'', ''out/client/app/a.js'']"
    by (auto simp: start_def)
  with tree run show ?thesis by simp
qed

section \<open>The order of the steps of \<open>adapt\<close>\<close>

text \<open>What \<open>adapt\<close> does before its body runs: the merge, which may throw.\<close>

lemma deepMerge_returns_target:
  "deepMerge depth target source h = Some (Inr v, h') \<Longrightarrow> v = target"
  by (cases depth) (auto split: if_splits jsval.splits option.splits sum.splits)

lemma adapt_cases:
  assumes run: "adapt depth env configInput st = Some (r, st')"
  obtains (rejected) "calls st' = calls st"
  | (ran) h typed where
      "as_AWSConfiguration h (JRef defaultConfig) = Some typed"
      "adapt_run env typed (st\<lparr>console := console st @ [Log ''Building...''], heap := h\<rparr>) =
         (r, st')"
proof -
  obtain m where m: "deepMerge depth (JRef defaultConfig) configInput (heap st) = m" by simp
  show thesis
  proof (cases m)
    case None
    with run m show thesis by (simp add: adapt_def Let_def del: deepMerge.simps)
  next
    case (Some p)
    obtain mr h where p: "p = (mr, h)" by (cases p)
    show thesis
    proof (cases mr)
      case (Inl e)
      with run m Some p have "calls st' = calls st"
        by (auto simp: adapt_def Let_def simp del: deepMerge.simps)
      then show thesis by (rule rejected)
    next
      case (Inr v)
      with m Some p have v: "v = JRef defaultConfig"
        using deepMerge_returns_target by blast
      show thesis
      proof (cases "as_AWSConfiguration h (JRef defaultConfig)")
        case None
        with run m Some p Inr v show thesis
          by (simp add: adapt_def Let_def del: deepMerge.simps)
      next
        case typed: (Some typed)
        with run m Some p Inr v
        have "adapt_run env typed
                (st\<lparr>console := console st @ [Log ''Building...''], heap := h\<rparr>) = (r, st')"
          by (simp add: adapt_def Let_def del: deepMerge.simps)
        with typed show thesis by (rule ran)
      qed
    qed
  qed
qed

text \<open>
  A run of \<open>adapt\<close> that made a call got through the merge: its body ran for the merged
  configuration, and would have run for it in any other environment.
\<close>

lemma adapt_ran:
  assumes run: "adapt depth env configInput st = Some (r, st')"
      and called: "calls st' \<noteq> calls st"
  obtains h typed where
    "as_AWSConfiguration h (JRef defaultConfig) = Some typed"
    "\<forall>env'. adapt depth env' configInput st =
       Some (adapt_run env' typed (st\<lparr>console := console st @ [Log ''Building...''], heap := h\<rparr>))"
proof -
  obtain m where m: "deepMerge depth (JRef defaultConfig) configInput (heap st) = m" by simp
  show thesis
  proof (cases m)
    case None
    with run m show thesis by (simp add: adapt_def Let_def del: deepMerge.simps)
  next
    case (Some p)
    obtain mr h where p: "p = (mr, h)" by (cases p)
    show thesis
    proof (cases mr)
      case (Inl e)
      with run m Some p have "calls st' = calls st"
        by (auto simp: adapt_def Let_def simp del: deepMerge.simps)
      with called show thesis by simp
    next
      case (Inr v)
      with m Some p have v: "v = JRef defaultConfig"
        using deepMerge_returns_target by blast
      show thesis
      proof (cases "as_AWSConfiguration h (JRef defaultConfig)")
        case None
        with run m Some p Inr v show thesis
          by (simp add: adapt_def Let_def del: deepMerge.simps)
      next
        case typed: (Some typed)
        with m Some p Inr v
        have "\<forall>env'. adapt depth env' configInput st =
                Some (adapt_run env' typed
                        (st\<lparr>console := console st @ [Log ''Building...''], heap := h\<rparr>))"
          by (simp add: adapt_def Let_def del: deepMerge.simps)
        with typed show thesis by (rule that)
      qed
    qed
  qed
qed

lemmas run_defs =
  adapt_run_def bundleApp_def existsSync_def zipDirectory_def deployLambdaFunction_def
  setTimeout_def setupCloudFrontTrigger_def invalidateCache_def builder_log_minor_def
  path_join_def replace_backslashes_def site_def

text \<open>The run of \<open>adapt\<close> for the configuration \<open>site\<close> in a world just loaded.\<close>

lemma site_run:
  obtains h where
    "adapter_adapt 2 sim site (start w) =
       Some (adapt_run sim site
               \<lparr>world = w, calls = [], console = [Log ''Building...''], heap = h\<rparr>)"
    "as_AWSConfiguration h (JRef defaultConfig) = Some site"
proof -
  have "module_holds (heap (start w)) baked_in"
    by (simp add: start_def module_holds_loaded)
  then obtain h where
    "adapter_adapt (Suc (Suc 0)) sim site (start w) =
       Some (adapt_run sim (merged_over baked_in site)
               ((start w)\<lparr>console := console (start w) @ [Log ''Building...''], heap := h\<rparr>))"
    "module_holds h (merged_over baked_in site)"
    "as_AWSConfiguration h (JRef defaultConfig) = Some (merged_over baked_in site)"
    by (rule adapter_adapt_runs)
  moreover have "merged_over baked_in site = site"
    by (simp add: merged_over_def baked_in_def site_def pick_def)
  ultimately show thesis
    using that by (simp add: start_def numeral_2_eq_2)
qed

text \<open>
  C5, as stated, fails: in the run below the two uploads of the Asset Publisher come
  before the call of the Packager, so the calls are not in the order Packager, Asset
  Publisher, Function Deployer, Edge Trigger Binder, Cache Invalidator.
\<close>

theorem adapt_uploads_before_archive:
  "map_option (map spec_stage \<circ> calls \<circ> snd) (adapter_adapt 2 sim site (start cloud0)) =
     Some [0, 0, 0, 0, 0, 0, 0, 0, 0, 2, 2, 1, 3, 3, 3, 3, 4, 4, 4, 4, 5] \<and>
   map_option (spec_order \<circ> calls \<circ> snd) (adapter_adapt 2 sim site (start cloud0)) =
     Some False"
proof -
  obtain h where run: "adapter_adapt 2 sim site (start cloud0) =
       Some (adapt_run sim site
               \<lparr>world = cloud0, calls = [], console = [Log ''Building...''], heap = h\<rparr>)"
    by (rule site_run)
  have "map spec_stage (calls (snd (adapt_run sim site
          \<lparr>world = cloud0, calls = [], console = [Log ''Building...''], heap = h\<rparr>))) =
        [0, 0, 0, 0, 0, 0, 0, 0, 0, 2, 2, 1, 3, 3, 3, 3, 4, 4, 4, 4, 5]"
    by (simp add: run_defs prog_defs world_defs)
  with run show ?thesis by (simp add: spec_order_def)
qed

text \<open>
  C5, amended. In every run of \<open>adapt\<close> the calls are made step by step in the order:
  build and bundle, Asset Publisher, Packager, Function Deployer, Edge Trigger Binder,
  Cache Invalidator. No call of a step is made after a call of a later step; in particular
  the asset upload is over before the archive is created.
\<close>

theorem adapt_step_order:
  assumes run: "adapt depth env configInput st = Some (r, st')"
  shows "\<exists>new. calls st' = calls st @ new \<and> sorted (map stage_of new)"
  using run
proof (cases rule: adapt_cases)
  case rejected
  then show ?thesis by simp
next
  case (ran h typed)
  from ordered_adapt_run [of env typed] obtain new where
    "calls (snd (adapt_run env typed
        (st\<lparr>console := console st @ [Log ''Building...''], heap := h\<rparr>))) =
     calls (st\<lparr>console := console st @ [Log ''Building...''], heap := h\<rparr>) @ new"
    "sorted (map stage_of new)"
    unfolding ordered_def by blast
  with ran(2) show ?thesis by simp
qed

theorem adapt_step_order_witness:
  "adapt 2 sim (fst (config_object site module_heap))
       ((start cloud0)\<lparr>heap := snd (config_object site module_heap)\<rparr>) =
     Some (the (adapter_adapt 2 sim site (start cloud0))) \<and>
   map stage_of (calls (snd (the (adapter_adapt 2 sim site (start cloud0))))) =
     [0, 0, 0, 0, 0, 0, 0, 0, 0, 1, 1, 2, 3, 3, 3, 3, 4, 4, 4, 4, 5] \<and>
   (\<exists>new. calls (snd (the (adapter_adapt 2 sim site (start cloud0)))) =
            calls ((start cloud0)\<lparr>heap := snd (config_object site module_heap)\<rparr>) @ new \<and>
          sorted (map stage_of new))"
proof -
  obtain h where run: "adapter_adapt 2 sim site (start cloud0) =
       Some (adapt_run sim site
               \<lparr>world = cloud0, calls = [], console = [Log ''Building...''], heap = h\<rparr>)"
    by (rule site_run)
  then have a: "adapt 2 sim (fst (config_object site module_heap))
       ((start cloud0)\<lparr>heap := snd (config_object site module_heap)\<rparr>) =
     Some (fst (the (adapter_adapt 2 sim site (start cloud0))),
           snd (the (adapter_adapt 2 sim site (start cloud0))))"
    by (simp add: adapter_adapt_def start_def)
  have "map stage_of (calls (snd (adapt_run sim site
          \<lparr>world = cloud0, calls = [], console = [Log ''Building...''], heap = h\<rparr>))) =
        [0, 0, 0, 0, 0, 0, 0, 0, 0, 1, 1, 2, 3, 3, 3, 3, 4, 4, 4, 4, 5]"
    by (simp add: run_defs prog_defs world_defs)
  with run adapt_step_order [OF a] a show ?thesis by simp
qed

section \<open>A failed archive, and a deployment without a version\<close>

lemma trigger_call_stage: "trigger_call e = (stage_of e = 4)"
  by (cases e) simp_all

lemma archive_position:
  assumes "ArchiverZip source dest (Inl e) \<in> set (n1 @ ArchiverZip s d a # later)"
      and "list_all (\<lambda>x. stage_of x \<le> 1) n1" and "list_all (\<lambda>x. 3 \<le> stage_of x) later"
  shows "a = Inl e"
  using assms by (auto simp: list_all_iff)

lemma version_position:
  assumes "LambdaPublishVersion region name pa \<in> set (n1 @ ArchiverZip s d a #
             FsReadFileSync p ra # rest @ n4)"
      and "list_all (\<lambda>x. stage_of x \<le> 1) n1" and "list_all (\<lambda>x. 4 \<le> stage_of x) n4"
  shows "LambdaPublishVersion region name pa \<in> set rest"
  using assms by (auto simp: list_all_iff)

text \<open>
  C6, as stated, fails: in the run below the archiver rejects, and \<open>adapt\<close> still updates
  the function code, binds the trigger and returns normally.
\<close>

theorem adapt_deploys_after_failed_archive:
  "map_option fst (adapter_adapt 2 sim site (start unzippable)) = Some (Inr ()) \<and>
   map_option (map stage_of \<circ> calls \<circ> snd) (adapter_adapt 2 sim site (start unzippable)) =
     Some [0, 0, 0, 0, 0, 0, 0, 0, 0, 1, 1, 2, 3, 3, 3, 3, 4, 4, 4, 4, 5] \<and>
   map_option (list_ex failed_archive \<circ> calls \<circ> snd)
     (adapter_adapt 2 sim site (start unzippable)) = Some True \<and>
   map_option (list_ex code_deployed \<circ> calls \<circ> snd)
     (adapter_adapt 2 sim site (start unzippable)) = Some True \<and>
   map_option (list_ex trigger_bound \<circ> calls \<circ> snd)
     (adapter_adapt 2 sim site (start unzippable)) = Some True"
proof -
  obtain h where run: "adapter_adapt 2 sim site (start unzippable) =
       Some (adapt_run sim site
               \<lparr>world = unzippable, calls = [], console = [Log ''Building...''], heap = h\<rparr>)"
    by (rule site_run)
  have "fst (adapt_run sim site
          \<lparr>world = unzippable, calls = [], console = [Log ''Building...''], heap = h\<rparr>) = Inr ()"
    by (simp add: run_defs prog_defs world_defs unzippable_def)
  moreover have "map stage_of (calls (snd (adapt_run sim site
          \<lparr>world = unzippable, calls = [], console = [Log ''Building...''], heap = h\<rparr>))) =
        [0, 0, 0, 0, 0, 0, 0, 0, 0, 1, 1, 2, 3, 3, 3, 3, 4, 4, 4, 4, 5]"
    by (simp add: run_defs prog_defs world_defs unzippable_def)
  moreover have "list_ex failed_archive (calls (snd (adapt_run sim site
          \<lparr>world = unzippable, calls = [], console = [Log ''Building...''], heap = h\<rparr>)))"
    by (simp add: run_defs prog_defs world_defs unzippable_def)
  moreover have "list_ex code_deployed (calls (snd (adapt_run sim site
          \<lparr>world = unzippable, calls = [], console = [Log ''Building...''], heap = h\<rparr>)))"
    by (simp add: run_defs prog_defs world_defs unzippable_def)
  moreover have "list_ex trigger_bound (calls (snd (adapt_run sim site
          \<lparr>world = unzippable, calls = [], console = [Log ''Building...''], heap = h\<rparr>)))"
    by (simp add: run_defs prog_defs world_defs unzippable_def)
  ultimately show ?thesis using run by simp
qed

text \<open>
  C6, amended. When the archiver rejects, \<open>adapt\<close> catches the error, logs it as
  \<^verbatim>\<open>Failed to zip directory:\<close> and goes on from the state \<open>mid\<close> it is then in: what it
  returns or throws, and the state it ends in, are those of \<open>deployLambdaFunction\<close>,
  \<open>setupCloudFrontTrigger\<close> when a version was published, and \<open>invalidateCache\<close>, run in
  this order from \<open>mid\<close>; the first call after the failed one is the read of
  \<^verbatim>\<open>build/lambda.zip\<close>. These later steps run as after a successful archive: with an
  archiver that resolves where this one rejected and leaves the same files, \<open>adapt\<close>
  returns or throws the same and ends in the same state, after the same calls with the
  same answers and the same console lines, but for the answer of the archiver and the line
  \<^verbatim>\<open>Directory successfully zipped!\<close> in the place of the error line. A failure of the
  Packager does not abort the pipeline.
\<close>

theorem adapt_goes_on_after_failed_archive:
  fixes env :: "'w env"
  assumes run: "adapt depth env configInput st = Some (r, st')"
      and failed: "ArchiverZip source dest (Inl e) \<in> set (drop (length (calls st)) (calls st'))"
  shows "\<exists>typed mid before answer later logged logged'.
           as_AWSConfiguration (heap st') (JRef defaultConfig) = Some typed \<and>
           calls mid = calls st @ before @ [ArchiverZip ''build'' ''build/lambda.zip'' (Inl e)] \<and>
           console mid = console st @ logged @ [ErrorLog ''Failed to zip directory:'' e] \<and>
           bind (deployLambdaFunction env (functionName (lambda typed)) ''build/lambda.zip''
                   (lambdaRegion (lambda typed))) (\<lambda>lambdaVersion.
           bind (case lambdaVersion of
                   None \<Rightarrow> ret ()
                 | Some version \<Rightarrow>
                     setupCloudFrontTrigger env (functionName (lambda typed)) version
                       (distributionId (cloudfront typed)) (cloudfrontRegion (cloudfront typed)))
                (\<lambda>_.
           invalidateCache env (distributionId (cloudfront typed)) [''/*'']
             (cloudfrontRegion (cloudfront typed)))) mid = (r, st') \<and>
           calls st' = calls mid @ FsReadFileSync ''build/lambda.zip'' answer # later \<and>
           console st' = console mid @ logged' \<and>
           adapt depth (resolving env) configInput st =
             Some (r, st'\<lparr>calls := calls st @ before @
                                  ArchiverZip ''build'' ''build/lambda.zip'' (Inr ()) #
                                  FsReadFileSync ''build/lambda.zip'' answer # later,
                          console := console st @ logged @
                                  Log ''Directory successfully zipped!'' # logged'\<rparr>)"
proof -
  from failed have "calls st' \<noteq> calls st" by auto
  with run obtain h typed where
    typed: "as_AWSConfiguration h (JRef defaultConfig) = Some typed" and
    ran: "\<forall>env'. adapt depth env' configInput st =
       Some (adapt_run env' typed (st\<lparr>console := console st @ [Log ''Building...''], heap := h\<rparr>))"
    by (rule adapt_ran)
  define st0 where "st0 = st\<lparr>console := console st @ [Log ''Building...''], heap := h\<rparr>"
  define after_archive :: "('w, unit) prog" where
    "after_archive =
       bind (deployLambdaFunction env (functionName (lambda typed)) ''build/lambda.zip''
               (lambdaRegion (lambda typed))) (\<lambda>lambdaVersion.
       bind (case lambdaVersion of
               None \<Rightarrow> ret ()
             | Some version \<Rightarrow>
                 setupCloudFrontTrigger env (functionName (lambda typed)) version
                   (distributionId (cloudfront typed)) (cloudfrontRegion (cloudfront typed)))
            (\<lambda>_.
       invalidateCache env (distributionId (cloudfront typed)) [''/*'']
         (cloudfrontRegion (cloudfront typed))))"
  obtain prefix :: "('w, unit) prog" where
    pre: "emits (\<lambda>e. stage_of e \<le> 1) prefix" and
    parts: "\<forall>env'. env' = env \<or> env' = resolving env \<longrightarrow>
       adapt_run env' typed =
         bind prefix (\<lambda>_.
         bind (try_catch
                 (bind (zipDirectory env' ''build'' ''build/lambda.zip'') (\<lambda>_.
                  console_log ''Directory successfully zipped!''))
                 (\<lambda>error. console_error ''Failed to zip directory:'' error)) (\<lambda>_.
         after_archive))"
    unfolding after_archive_def by (rule adapt_run_parts)
  from run ran have here: "adapt_run env typed st0 = (r, st')" by (simp add: st0_def)
  obtain rp st1 where p: "prefix st0 = (rp, st1)" by (cases "prefix st0")
  from emits_run [OF pre p] obtain n1 l1 where
    n1: "calls st1 = calls st @ n1" "list_all (\<lambda>e. stage_of e \<le> 1) n1" and
    l1: "console st1 = console st @ [Log ''Building...''] @ l1" and
    h1: "heap st1 = h"
    by (auto simp: st0_def)
  show ?thesis
  proof (cases rp)
    case (Inl x)
    with here p parts have "st' = st1" by (simp add: bind_def)
    with failed n1 show ?thesis by (auto simp: list_all_iff)
  next
    case (Inr u)
    obtain a w where z: "archiver_zip env ''build'' ''build/lambda.zip'' (world st1) = (a, w)"
      by (cases "archiver_zip env ''build'' ''build/lambda.zip'' (world st1)")
    define mid where
      "mid = st1\<lparr>world := w,
                  calls := calls st1 @ [ArchiverZip ''build'' ''build/lambda.zip'' a],
                  console := console st1 @
                    [Log ''Zipping.... build build/lambda.zip'',
                     (case a of Inl x \<Rightarrow> ErrorLog ''Failed to zip directory:'' x
                      | Inr y \<Rightarrow> Log ''Directory successfully zipped!'')]\<rparr>"
    have zs: "try_catch
                 (bind (zipDirectory env ''build'' ''build/lambda.zip'') (\<lambda>_.
                  console_log ''Directory successfully zipped!''))
                 (\<lambda>error. console_error ''Failed to zip directory:'' error) st1 = (Inr (), mid)"
      using z by (cases a) (simp_all add: zipDirectory_def prog_defs mid_def)
    have zs': "try_catch
                 (bind (zipDirectory (resolving env) ''build'' ''build/lambda.zip'') (\<lambda>_.
                  console_log ''Directory successfully zipped!''))
                 (\<lambda>error. console_error ''Failed to zip directory:'' error) st1 =
               (Inr (), mid\<lparr>calls := calls st1 @ [ArchiverZip ''build'' ''build/lambda.zip'' (Inr ())],
                            console := console st1 @
                              [Log ''Zipping.... build build/lambda.zip'',
                               Log ''Directory successfully zipped!'']\<rparr>)"
      using z by (simp add: zipDirectory_def prog_defs mid_def resolving_def)
    from here p Inr zs parts have k: "after_archive mid = (r, st')" by (simp add: bind_def)
    from ran p Inr zs' parts
    have k': "adapt depth (resolving env) configInput st =
        Some (after_archive
          (mid\<lparr>calls := calls st1 @ [ArchiverZip ''build'' ''build/lambda.zip'' (Inr ())],
                console := console st1 @
                  [Log ''Zipping.... build build/lambda.zip'',
                   Log ''Directory successfully zipped!'']\<rparr>))"
      by (simp add: bind_def st0_def)
    have "logs_only after_archive"
      unfolding after_archive_def
      by (intro logs_only_bind logs_only_deploy logs_only_trigger_if logs_only_invalidate)
    then obtain r' w' new lg where
      fr: "\<forall>c l. after_archive (mid\<lparr>calls := c, console := l\<rparr>) =
             (r', mid\<lparr>world := w', calls := c @ new, console := l @ lg\<rparr>)"
      by (rule logs_only_run [where st = mid])
    from fr have "after_archive (mid\<lparr>calls := calls mid, console := console mid\<rparr>) =
        (r', mid\<lparr>world := w', calls := calls mid @ new, console := console mid @ lg\<rparr>)"
      by blast
    with k have r': "r' = r" and
      st': "st' = mid\<lparr>world := w', calls := calls mid @ new, console := console mid @ lg\<rparr>"
      by simp_all
    from deploy_first [OF k [unfolded after_archive_def] after_deploy_stages]
    obtain answer later where
      first: "calls st' = calls mid @ FsReadFileSync ''build/lambda.zip'' answer # later" and
      late: "list_all (\<lambda>x. 3 \<le> stage_of x) later"
      by blast
    from first st' have new: "new = FsReadFileSync ''build/lambda.zip'' answer # later" by simp
    have all: "drop (length (calls st)) (calls st') =
        n1 @ ArchiverZip ''build'' ''build/lambda.zip'' a #
          (FsReadFileSync ''build/lambda.zip'' answer # later)"
      using first n1 by (simp add: mid_def)
    have "list_all (\<lambda>x. 3 \<le> stage_of x) (FsReadFileSync ''build/lambda.zip'' answer # later)"
      using late by simp
    with failed [unfolded all] n1(2) have a: "a = Inl e" by (rule archive_position)
    have one: "as_AWSConfiguration (heap st') (JRef defaultConfig) = Some typed"
      using typed h1 st' by (simp add: mid_def)
    have two: "calls mid = calls st @ n1 @ [ArchiverZip ''build'' ''build/lambda.zip'' (Inl e)]"
      using n1 a by (simp add: mid_def)
    have three: "console mid = console st @
        ([Log ''Building...''] @ l1 @ [Log ''Zipping.... build build/lambda.zip'']) @
        [ErrorLog ''Failed to zip directory:'' e]"
      using l1 a by (simp add: mid_def)
    have six: "console st' = console mid @ lg" using st' by simp
    from fr r' have "after_archive
          (mid\<lparr>calls := calls st1 @ [ArchiverZip ''build'' ''build/lambda.zip'' (Inr ())],
                console := console st1 @
                  [Log ''Zipping.... build build/lambda.zip'',
                   Log ''Directory successfully zipped!'']\<rparr>) =
        (r, mid\<lparr>world := w',
                 calls := (calls st1 @ [ArchiverZip ''build'' ''build/lambda.zip'' (Inr ())]) @ new,
                 console := (console st1 @
                  [Log ''Zipping.... build build/lambda.zip'',
                   Log ''Directory successfully zipped!'']) @ lg\<rparr>)"
      by blast
    also have "mid\<lparr>world := w',
                 calls := (calls st1 @ [ArchiverZip ''build'' ''build/lambda.zip'' (Inr ())]) @ new,
                 console := (console st1 @
                  [Log ''Zipping.... build build/lambda.zip'',
                   Log ''Directory successfully zipped!'']) @ lg\<rparr> =
        st'\<lparr>calls := calls st @ n1 @
                   ArchiverZip ''build'' ''build/lambda.zip'' (Inr ()) #
                   FsReadFileSync ''build/lambda.zip'' answer # later,
            console := console st @
                   ([Log ''Building...''] @ l1 @ [Log ''Zipping.... build build/lambda.zip'']) @
                   Log ''Directory successfully zipped!'' # lg\<rparr>"
      using st' new n1 l1 by simp
    finally have seven: "adapt depth (resolving env) configInput st =
        Some (r, st'\<lparr>calls := calls st @ n1 @
                   ArchiverZip ''build'' ''build/lambda.zip'' (Inr ()) #
                   FsReadFileSync ''build/lambda.zip'' answer # later,
            console := console st @
                   ([Log ''Building...''] @ l1 @ [Log ''Zipping.... build build/lambda.zip'']) @
                   Log ''Directory successfully zipped!'' # lg\<rparr>)"
      using k' by simp
    from one two three k [unfolded after_archive_def] first six seven
    show ?thesis by blast
  qed
qed

theorem adapt_goes_on_after_failed_archive_witness:
  "adapt 2 sim (fst (config_object site module_heap))
       ((start unzippable)\<lparr>heap := snd (config_object site module_heap)\<rparr>) =
     Some (the (adapter_adapt 2 sim site (start unzippable))) \<and>
   ArchiverZip ''build'' ''build/lambda.zip'' (Inl (SystemError ''EACCES''))
     \<in> set (drop (length (calls ((start unzippable)\<lparr>heap := snd (config_object site module_heap)\<rparr>)))
                  (calls (snd (the (adapter_adapt 2 sim site (start unzippable)))))) \<and>
   (\<exists>typed mid before answer later logged logged'.
      as_AWSConfiguration (heap (snd (the (adapter_adapt 2 sim site (start unzippable)))))
        (JRef defaultConfig) = Some typed \<and>
      calls mid =
        calls ((start unzippable)\<lparr>heap := snd (config_object site module_heap)\<rparr>) @ before @
        [ArchiverZip ''build'' ''build/lambda.zip'' (Inl (SystemError ''EACCES''))] \<and>
      console mid =
        console ((start unzippable)\<lparr>heap := snd (config_object site module_heap)\<rparr>) @ logged @
        [ErrorLog ''Failed to zip directory:'' (SystemError ''EACCES'')] \<and>
      bind (deployLambdaFunction sim (functionName (lambda typed)) ''build/lambda.zip''
              (lambdaRegion (lambda typed))) (\<lambda>lambdaVersion.
      bind (case lambdaVersion of
              None \<Rightarrow> ret ()
            | Some version \<Rightarrow>
                setupCloudFrontTrigger sim (functionName (lambda typed)) version
                  (distributionId (cloudfront typed)) (cloudfrontRegion (cloudfront typed)))
           (\<lambda>_.
      invalidateCache sim (distributionId (cloudfront typed)) [''/*'']
        (cloudfrontRegion (cloudfront typed)))) mid =
        (fst (the (adapter_adapt 2 sim site (start unzippable))),
         snd (the (adapter_adapt 2 sim site (start unzippable)))) \<and>
      calls (snd (the (adapter_adapt 2 sim site (start unzippable)))) =
        calls mid @ FsReadFileSync ''build/lambda.zip'' answer # later \<and>
      console (snd (the (adapter_adapt 2 sim site (start unzippable)))) =
        console mid @ logged' \<and>
      adapt 2 (resolving sim) (fst (config_object site module_heap))
          ((start unzippable)\<lparr>heap := snd (config_object site module_heap)\<rparr>) =
        Some (fst (the (adapter_adapt 2 sim site (start unzippable))),
              (snd (the (adapter_adapt 2 sim site (start unzippable))))
                \<lparr>calls :=
                   calls ((start unzippable)\<lparr>heap := snd (config_object site module_heap)\<rparr>) @
                   before @
                   ArchiverZip ''build'' ''build/lambda.zip'' (Inr ()) #
                   FsReadFileSync ''build/lambda.zip'' answer # later,
                 console :=
                   console ((start unzippable)\<lparr>heap := snd (config_object site module_heap)\<rparr>) @
                   logged @ Log ''Directory successfully zipped!'' # logged'\<rparr>))"
proof -
  obtain h where run: "adapter_adapt 2 sim site (start unzippable) =
       Some (adapt_run sim site
               \<lparr>world = unzippable, calls = [], console = [Log ''Building...''], heap = h\<rparr>)"
    by (rule site_run)
  then have a: "adapt 2 sim (fst (config_object site module_heap))
       ((start unzippable)\<lparr>heap := snd (config_object site module_heap)\<rparr>) =
     Some (fst (the (adapter_adapt 2 sim site (start unzippable))),
           snd (the (adapter_adapt 2 sim site (start unzippable))))"
    by (simp add: adapter_adapt_def start_def)
  have "ArchiverZip ''build'' ''build/lambda.zip'' (Inl (SystemError ''EACCES''))
     \<in> set (calls (snd (adapt_run sim site
          \<lparr>world = unzippable, calls = [], console = [Log ''Building...''], heap = h\<rparr>)))"
    by (simp add: run_defs prog_defs world_defs unzippable_def)
  with run have f: "ArchiverZip ''build'' ''build/lambda.zip'' (Inl (SystemError ''EACCES''))
     \<in> set (drop (length (calls ((start unzippable)\<lparr>heap := snd (config_object site module_heap)\<rparr>)))
                  (calls (snd (the (adapter_adapt 2 sim site (start unzippable))))))"
    by (simp add: start_def)
  from adapt_goes_on_after_failed_archive [OF a f] a f show ?thesis by simp
qed

text \<open>
  C9. In a run of \<open>adapt\<close> in which \<^verbatim>\<open>PublishVersion\<close> answers without a version, so that
  \<open>deployLambdaFunction\<close> returns \<^verbatim>\<open>undefined\<close>, none of the calls of
  \<open>setupCloudFrontTrigger\<close> is made, and the last call of the run is the invalidation of
  \<^verbatim>\<open>/*\<close> on the configured distribution.
\<close>

theorem adapt_without_version_skips_trigger:
  assumes run: "adapt depth env configInput st = Some (r, st')"
      and version: "LambdaPublishVersion region name (Inr None)
                      \<in> set (drop (length (calls st)) (calls st'))"
  shows "\<not> list_ex trigger_call (drop (length (calls st)) (calls st')) \<and>
         (\<exists>typed input answer.
            as_AWSConfiguration (heap st') (JRef defaultConfig) = Some typed \<and>
            last (calls st') =
              CfCreateInvalidation (cloudfrontRegion (cloudfront typed)) input answer \<and>
            DistributionId input = distributionId (cloudfront typed) \<and>
            PathsItems input = [''/*''] \<and> PathsQuantity input = 1)"
  using run
proof (cases rule: adapt_cases)
  case rejected
  with version show ?thesis by simp
next
  case (ran h typed)
  from emits_run [OF emits_adapt_run ran(2)] have hp: "heap st' = h" by auto
  from ran(2) show ?thesis
  proof (cases rule: adapt_run_cases)
    case (early n1)
    with version show ?thesis by (auto simp: list_all_iff)
  next
    case (deploy_failed n1 a ra rest)
    from deploy_failed(1) have new: "drop (length (calls st)) (calls st') =
        n1 @ ArchiverZip ''build'' ''build/lambda.zip'' a #
          FsReadFileSync ''build/lambda.zip'' ra # rest @ []" by simp
    from version_position [OF version [unfolded new] deploy_failed(2)]
    have "LambdaPublishVersion region name (Inr None) \<in> set rest" by simp
    with deploy_failed(4) show ?thesis by blast
  next
    case (with_version n1 a ra rest n4)
    from with_version(1) have new: "drop (length (calls st)) (calls st') =
        n1 @ ArchiverZip ''build'' ''build/lambda.zip'' a #
          FsReadFileSync ''build/lambda.zip'' ra # rest @ n4" by simp
    from version_position [OF version [unfolded new] with_version(2,4)]
    have "LambdaPublishVersion region name (Inr None) \<in> set rest" .
    with with_version(5) show ?thesis by blast
  next
    case (no_version n1 a ra rest input answer)
    from no_version(1) have new: "drop (length (calls st)) (calls st') =
        n1 @ ArchiverZip ''build'' ''build/lambda.zip'' a #
          FsReadFileSync ''build/lambda.zip'' ra # rest @
          [CfCreateInvalidation (cloudfrontRegion (cloudfront typed)) input answer]" by simp
    have "\<not> list_ex trigger_call (drop (length (calls st)) (calls st'))"
      unfolding new using no_version(2,3)
      by (auto simp: list_ex_iff list_all_iff trigger_call_stage)
    moreover have "last (calls st') =
        CfCreateInvalidation (cloudfrontRegion (cloudfront typed)) input answer"
      using no_version(1) by simp
    ultimately show ?thesis using ran(1) hp no_version(4,5,6) by blast
  qed
qed

theorem adapt_without_version_skips_trigger_witness:
  "adapt 2 sim (fst (config_object site module_heap))
       ((start unversioned)\<lparr>heap := snd (config_object site module_heap)\<rparr>) =
     Some (the (adapter_adapt 2 sim site (start unversioned))) \<and>
   LambdaPublishVersion ''r2'' ''f'' (Inr None)
     \<in> set (drop (length (calls ((start unversioned)\<lparr>heap := snd (config_object site module_heap)\<rparr>)))
                  (calls (snd (the (adapter_adapt 2 sim site (start unversioned)))))) \<and>
   \<not> list_ex trigger_call
       (drop (length (calls ((start unversioned)\<lparr>heap := snd (config_object site module_heap)\<rparr>)))
             (calls (snd (the (adapter_adapt 2 sim site (start unversioned)))))) \<and>
   last (calls (snd (the (adapter_adapt 2 sim site (start unversioned))))) =
     CfCreateInvalidation ''r3''
       \<lparr>DistributionId = ''d'', PathsQuantity = 1, PathsItems = [''/*''],
        CallerReference = ''2024-01-01T00:00:00.000Z''\<rparr>
       (Inr \<lparr>Invalidation = Some \<lparr>InvalidationId = Some ''I1''\<rparr>\<rparr>)"
proof -
  obtain h where run: "adapter_adapt 2 sim site (start unversioned) =
       Some (adapt_run sim site
               \<lparr>world = unversioned, calls = [], console = [Log ''Building...''], heap = h\<rparr>)"
    by (rule site_run)
  then have a: "adapt 2 sim (fst (config_object site module_heap))
       ((start unversioned)\<lparr>heap := snd (config_object site module_heap)\<rparr>) =
     Some (fst (the (adapter_adapt 2 sim site (start unversioned))),
           snd (the (adapter_adapt 2 sim site (start unversioned))))"
    by (simp add: adapter_adapt_def start_def)
  have "LambdaPublishVersion ''r2'' ''f'' (Inr None)
     \<in> set (calls (snd (adapt_run sim site
          \<lparr>world = unversioned, calls = [], console = [Log ''Building...''], heap = h\<rparr>)))"
    by (simp add: run_defs prog_defs world_defs unversioned_def)
  with run have v: "LambdaPublishVersion ''r2'' ''f'' (Inr None)
     \<in> set (drop (length (calls ((start unversioned)\<lparr>heap := snd (config_object site module_heap)\<rparr>)))
                  (calls (snd (the (adapter_adapt 2 sim site (start unversioned))))))"
    by (simp add: start_def)
  have "last (calls (snd (adapt_run sim site
          \<lparr>world = unversioned, calls = [], console = [Log ''Building...''], heap = h\<rparr>))) =
     CfCreateInvalidation ''r3''
       \<lparr>DistributionId = ''d'', PathsQuantity = 1, PathsItems = [''/*''],
        CallerReference = ''2024-01-01T00:00:00.000Z''\<rparr>
       (Inr \<lparr>Invalidation = Some \<lparr>InvalidationId = Some ''I1''\<rparr>\<rparr>)"
    by (simp add: run_defs prog_defs world_defs unversioned_def)
  with run have l: "last (calls (snd (the (adapter_adapt 2 sim site (start unversioned))))) =
     CfCreateInvalidation ''r3''
       \<lparr>DistributionId = ''d'', PathsQuantity = 1, PathsItems = [''/*''],
        CallerReference = ''2024-01-01T00:00:00.000Z''\<rparr>
       (Inr \<lparr>Invalidation = Some \<lparr>InvalidationId = Some ''I1''\<rparr>\<rparr>)"
    by simp
  from adapt_without_version_skips_trigger [OF a v] a v l show ?thesis by simp
qed

section \<open>The merged configuration\<close>

lemma merged_config_step:
  assumes "module_holds h base"
  shows "merged_config (Suc (Suc n)) c h = Some (merged_over base c)"
proof -
  from assms obtain h' where
    "merge_config (Suc (Suc n)) c h = Some (Inr (JRef defaultConfig), h')"
    "module_holds h' (merged_over base c)"
    "as_AWSConfiguration h' (JRef defaultConfig) = Some (merged_over base c)"
    by (rule merge_step)
  then show ?thesis by (simp add: merged_config_def)
qed

text \<open>
  C8, as stated, fails: a user configuration whose bucket name is the empty string is merged
  over a default that is the empty string too, and the merged bucket name is empty.
\<close>

theorem merge_keeps_empty_bucket_name:
  "map_option (bucketName \<circ> s3) (merged_config 2 unnamed module_heap) = Some []"
proof -
  have "merged_config (Suc (Suc 0)) unnamed module_heap = Some (merged_over baked_in unnamed)"
    by (rule merged_config_step [OF module_holds_loaded])
  then show ?thesis
    by (simp add: numeral_2_eq_2 merged_over_def baked_in_def unnamed_def site_def pick_def)
qed

text \<open>
  C8, amended. After the merge over the baked-in defaults every leaf is the user's value
  when that is a non-empty string, and the baked-in default otherwise. The three regions,
  whose defaults are not empty, are never empty. Bucket name, prefix, function name and
  distribution id, whose defaults are the empty string, are the user's values as they are,
  empty ones included.
\<close>

theorem merge_over_defaults:
  "merged_config (Suc (Suc n)) c module_heap = Some (merged_over baked_in c) \<and>
   s3Region (s3 (merged_over baked_in c)) \<noteq> [] \<and>
   lambdaRegion (lambda (merged_over baked_in c)) \<noteq> [] \<and>
   cloudfrontRegion (cloudfront (merged_over baked_in c)) \<noteq> [] \<and>
   bucketName (s3 (merged_over baked_in c)) = bucketName (s3 c) \<and>
   s3Prefix (s3 (merged_over baked_in c)) = s3Prefix (s3 c) \<and>
   functionName (lambda (merged_over baked_in c)) = functionName (lambda c) \<and>
   distributionId (cloudfront (merged_over baked_in c)) = distributionId (cloudfront c)"
proof -
  have "merged_config (Suc (Suc n)) c module_heap = Some (merged_over baked_in c)"
    by (rule merged_config_step [OF module_holds_loaded])
  then show ?thesis by (simp add: merged_over_def baked_in_def pick_def)
qed

text \<open>
  C10. \<open>deepMerge\<close> returns the object it was given as target, and \<open>adapt\<close> gives it
  \<open>defaultConfig\<close>. So after a first \<open>adapt\<close> with the configuration \<open>c1\<close>, in a module just
  loaded, \<open>defaultConfig\<close> holds \<open>c1\<close> merged over the baked-in defaults; and a later
  \<open>adapt\<close> of any adapter in the same module, with a configuration \<open>c2\<close>, runs with \<open>c2\<close>
  merged over that, not over the baked-in defaults.
\<close>

theorem adapt_merges_into_defaultConfig:
  assumes fresh: "heap st = module_heap"
  shows "(\<forall>depth target source h v h'.
            deepMerge depth target source h = Some (Inr v, h') \<longrightarrow> v = target) \<and>
         (\<exists>r1 st1.
            adapter_adapt (Suc (Suc n)) env c1 st = Some (r1, st1) \<and>
            as_AWSConfiguration (heap st1) (JRef defaultConfig) = Some (merged_over baked_in c1) \<and>
            (\<forall>c2 m st2. heap st2 = heap st1 \<longrightarrow>
               (\<exists>st2'. adapter_adapt (Suc (Suc m)) env c2 st2 =
                         Some (adapt_run env (merged_over (merged_over baked_in c1) c2) st2'))))"
proof (intro conjI allI impI)
  fix depth target source h v h'
  assume "deepMerge depth target source h = Some (Inr v, h')"
  then show "v = target" by (rule deepMerge_returns_target)
next
  from fresh have "module_holds (heap st) baked_in" by (simp add: module_holds_loaded)
  then obtain h1 where
    first: "adapter_adapt (Suc (Suc n)) env c1 st =
       Some (adapt_run env (merged_over baked_in c1)
               (st\<lparr>console := console st @ [Log ''Building...''], heap := h1\<rparr>))" and
    holds: "module_holds h1 (merged_over baked_in c1)" and
    typed: "as_AWSConfiguration h1 (JRef defaultConfig) = Some (merged_over baked_in c1)"
    by (rule adapter_adapt_runs)
  obtain r1 st1 where run: "adapt_run env (merged_over baked_in c1)
               (st\<lparr>console := console st @ [Log ''Building...''], heap := h1\<rparr>) = (r1, st1)"
    by (cases "adapt_run env (merged_over baked_in c1)
               (st\<lparr>console := console st @ [Log ''Building...''], heap := h1\<rparr>)")
  from emits_run [OF emits_adapt_run run] have hp: "heap st1 = h1" by auto
  have later: "\<exists>st2'. adapter_adapt (Suc (Suc m)) env c2 st2 =
                 Some (adapt_run env (merged_over (merged_over baked_in c1) c2) st2')"
    if "heap st2 = heap st1" for c2 m and st2 :: "'a pstate"
  proof -
    from that hp holds have "module_holds (heap st2) (merged_over baked_in c1)" by simp
    then obtain h2 where
      "adapter_adapt (Suc (Suc m)) env c2 st2 =
         Some (adapt_run env (merged_over (merged_over baked_in c1) c2)
                 (st2\<lparr>console := console st2 @ [Log ''Building...''], heap := h2\<rparr>))"
      "module_holds h2 (merged_over (merged_over baked_in c1) c2)"
      "as_AWSConfiguration h2 (JRef defaultConfig) = Some (merged_over (merged_over baked_in c1) c2)"
      by (rule adapter_adapt_runs)
    then show ?thesis by blast
  qed
  from first run typed hp later
  show "\<exists>r1 st1.
            adapter_adapt (Suc (Suc n)) env c1 st = Some (r1, st1) \<and>
            as_AWSConfiguration (heap st1) (JRef defaultConfig) = Some (merged_over baked_in c1) \<and>
            (\<forall>c2 m st2. heap st2 = heap st1 \<longrightarrow>
               (\<exists>st2'. adapter_adapt (Suc (Suc m)) env c2 st2 =
                         Some (adapt_run env (merged_over (merged_over baked_in c1) c2) st2')))"
    by (intro exI [of _ r1] exI [of _ st1]) simp
qed

theorem adapt_merges_into_defaultConfig_witness:
  "heap (start cloud0) = module_heap \<and>
   (\<exists>r1 st1.
      adapter_adapt 2 sim site (start cloud0) = Some (r1, st1) \<and>
      as_AWSConfiguration (heap st1) (JRef defaultConfig) = Some site \<and>
      (\<exists>st2'. adapter_adapt 2 sim unnamed st1 = Some (adapt_run sim site st2')))"
proof -
  have fresh: "heap (start cloud0) = module_heap" by (simp add: start_def)
  have one: "merged_over baked_in site = site"
    by (simp add: merged_over_def baked_in_def site_def pick_def)
  have two: "merged_over site unnamed = site"
    by (simp add: merged_over_def unnamed_def site_def pick_def)
  from adapt_merges_into_defaultConfig [OF fresh, of 0 sim site]
  obtain r1 st1 where
    "adapter_adapt (Suc (Suc 0)) sim site (start cloud0) = Some (r1, st1)"
    "as_AWSConfiguration (heap st1) (JRef defaultConfig) = Some (merged_over baked_in site)"
    "\<forall>c2 m st2. heap st2 = heap st1 \<longrightarrow>
       (\<exists>st2'. adapter_adapt (Suc (Suc m)) sim c2 st2 =
                 Some (adapt_run sim (merged_over (merged_over baked_in site) c2) st2'))"
    by blast
  then have "adapter_adapt 2 sim site (start cloud0) = Some (r1, st1) \<and>
      as_AWSConfiguration (heap st1) (JRef defaultConfig) = Some site \<and>
      (\<exists>st2'. adapter_adapt 2 sim unnamed st1 = Some (adapt_run sim site st2'))"
    using one two by (simp add: numeral_2_eq_2) (metis one two)
  with fresh show ?thesis by blast
qed

end
